theory Spec2Isabelle
  imports Main
begin

section \<open>JavaScript numbers\<close>

text \<open>
  A JavaScript number is an IEEE 754 double. Two views are used. The numbers computed by
  \<open>parseInt\<close>, by counting and by adding and subtracting integers are integer valued; they
  are modelled by \<open>js_number\<close>, whose finite values are the integers a double can hold.
  Every arithmetic result is rounded to 53 significant bits, ties to even, as the hardware
  does. The fractional amounts of the challenge are modelled further below by a mantissa
  and a binary exponent.
\<close>

fun bit_length :: "nat \<Rightarrow> nat" where
  "bit_length n = (if n = 0 then 0 else Suc (bit_length (n div 2)))"

declare bit_length.simps [simp del]

text \<open>Rounding a natural number to the nearest double (53 significant bits, ties to even).\<close>

definition round53 :: "nat \<Rightarrow> nat" where
  "round53 n =
     (let b = bit_length n in
      if b \<le> 53 then n
      else
        let s = b - 53; q = n div 2 ^ s; r = n mod 2 ^ s; half = 2 ^ (s - 1)
        in (if r > half \<or> (r = half \<and> odd q) then q + 1 else q) * 2 ^ s)"

datatype js_number = NaN | Fin int | PosInfinity | NegInfinity

text \<open>The double nearest to an integer; beyond the largest double the result is infinite.\<close>

definition to_double :: "int \<Rightarrow> js_number" where
  "to_double i =
     (let m = round53 (nat \<bar>i\<bar>) in
      if m \<ge> 2 ^ 1024 then (if i > 0 then PosInfinity else NegInfinity)
      else Fin (if i < 0 then - int m else int m))"

text \<open>
  \<open>parseInt(s, 16)\<close> on a QUANTITY of the JSON-RPC interface. The quantity is modelled by
  the natural number its hexadecimal digits denote, \<open>None\<close> standing for a missing
  (\<open>undefined\<close>) field, on which \<open>parseInt\<close> returns \<open>NaN\<close>.
\<close>

definition parseInt16 :: "nat option \<Rightarrow> js_number" where
  "parseInt16 q = (case q of None \<Rightarrow> NaN | Some n \<Rightarrow> to_double (int n))"

fun js_add :: "js_number \<Rightarrow> js_number \<Rightarrow> js_number" where
  "js_add (Fin a) (Fin b) = to_double (a + b)"
| "js_add NaN _ = NaN"
| "js_add _ NaN = NaN"
| "js_add PosInfinity NegInfinity = NaN"
| "js_add NegInfinity PosInfinity = NaN"
| "js_add PosInfinity _ = PosInfinity"
| "js_add _ PosInfinity = PosInfinity"
| "js_add NegInfinity _ = NegInfinity"
| "js_add _ NegInfinity = NegInfinity"

fun js_sub :: "js_number \<Rightarrow> js_number \<Rightarrow> js_number" where
  "js_sub (Fin a) (Fin b) = to_double (a - b)"
| "js_sub NaN _ = NaN"
| "js_sub _ NaN = NaN"
| "js_sub PosInfinity PosInfinity = NaN"
| "js_sub NegInfinity NegInfinity = NaN"
| "js_sub PosInfinity _ = PosInfinity"
| "js_sub _ PosInfinity = NegInfinity"
| "js_sub NegInfinity _ = NegInfinity"
| "js_sub _ NegInfinity = PosInfinity"

text \<open>\<open>a >= b\<close> and \<open>a > b\<close>; every comparison with \<open>NaN\<close> is false.\<close>

fun js_ge :: "js_number \<Rightarrow> js_number \<Rightarrow> bool" where
  "js_ge (Fin a) (Fin b) = (a \<ge> b)"
| "js_ge NaN _ = False"
| "js_ge _ NaN = False"
| "js_ge PosInfinity _ = True"
| "js_ge _ NegInfinity = True"
| "js_ge _ PosInfinity = False"
| "js_ge NegInfinity _ = False"

fun js_gt :: "js_number \<Rightarrow> js_number \<Rightarrow> bool" where
  "js_gt (Fin a) (Fin b) = (a > b)"
| "js_gt NaN _ = False"
| "js_gt _ NaN = False"
| "js_gt PosInfinity PosInfinity = False"
| "js_gt PosInfinity _ = True"
| "js_gt _ PosInfinity = False"
| "js_gt NegInfinity _ = False"
| "js_gt _ NegInfinity = True"

text \<open>\<open>Math.max(a, b)\<close>: \<open>NaN\<close> if either argument is.\<close>

fun js_max :: "js_number \<Rightarrow> js_number \<Rightarrow> js_number" where
  "js_max NaN _ = NaN"
| "js_max _ NaN = NaN"
| "js_max a b = (if js_ge a b then a else b)"

subsection \<open>\<open>Number.prototype.toString\<close>\<close>

fun string_of_nat :: "nat \<Rightarrow> string" where
  "string_of_nat n =
     (if n < 10 then [''0123456789'' ! n]
      else string_of_nat (n div 10) @ [''0123456789'' ! (n mod 10)])"

declare string_of_nat.simps [simp del]

text \<open>
  The decimal digits JavaScript prints for a double \<open>v\<close> are the shortest digit string
  that reads back as \<open>v\<close>. For an integer valued \<open>v\<close> the candidates are the multiples of
  a power of ten next to \<open>v\<close>; the search runs from the most trailing zeros to none, where
  \<open>v\<close> itself is found. (Both neighbours can never round to \<open>v\<close> at the same distance.)
\<close>

fun shortest_candidate :: "nat \<Rightarrow> nat \<Rightarrow> nat" where
  "shortest_candidate v 0 = v"
| "shortest_candidate v (Suc z) =
     (let p = 10 ^ Suc z; lo = (v div p) * p; hi = lo + p;
          lo_ok = (lo > 0 \<and> round53 lo = v); hi_ok = (round53 hi = v)
      in if lo_ok \<and> hi_ok then (if v - lo \<le> hi - v then lo else hi)
         else if lo_ok then lo
         else if hi_ok then hi
         else shortest_candidate v z)"

fun strip_zeros :: "nat \<Rightarrow> nat" where
  "strip_zeros n = (if n = 0 \<or> n mod 10 \<noteq> 0 then n else strip_zeros (n div 10))"

declare strip_zeros.simps [simp del]

text \<open>From \<open>1e+21\<close> on the digits are printed with an exponent.\<close>

definition exponent_form :: "nat \<Rightarrow> string" where
  "exponent_form c =
     (let ds = string_of_nat (strip_zeros c);
          e = string_of_nat (length (string_of_nat c) - 1)
      in if length ds = 1 then ds @ ''e+'' @ e
         else hd ds # ''.'' @ tl ds @ ''e+'' @ e)"

definition nat_toString :: "nat \<Rightarrow> string" where
  "nat_toString v =
     (let c = shortest_candidate v (length (string_of_nat v))
      in if c < 10 ^ 21 then string_of_nat c else exponent_form c)"

fun number_toString :: "js_number \<Rightarrow> string" where
  "number_toString NaN = ''NaN''"
| "number_toString PosInfinity = ''Infinity''"
| "number_toString NegInfinity = ''-Infinity''"
| "number_toString (Fin i) =
     (if i < 0 then ''-'' @ nat_toString (nat (- i)) else nat_toString (nat i))"

subsection \<open>Strings\<close>

text \<open>\<open>String.prototype.toLowerCase\<close> on the ASCII letters of an address.\<close>

definition toLowerCase_char :: "char \<Rightarrow> char" where
  "toLowerCase_char c =
     (case map_of (zip ''ABCDEFGHIJKLMNOPQRSTUVWXYZ'' ''abcdefghijklmnopqrstuvwxyz'') c of
        Some l \<Rightarrow> l
      | None \<Rightarrow> c)"

definition toLowerCase :: "string \<Rightarrow> string" where
  "toLowerCase s = map toLowerCase_char s"

section \<open>Ownership verifiers (src/verifiers/arbitrum-verifier.js)\<close>

text \<open>
  A call to a remote service (\<open>axios.get\<close>, \<open>axios.post\<close>) either throws or returns.
\<close>

datatype 'a rpc = Throws string | Returns 'a

text \<open>The part of the holdings API's answer the verifiers read.\<close>

record nft =
  contract_address :: string
  contract_name :: "string option"
  contract_symbol :: "string option"
  tokenId :: string
  nft_name :: "string option"
  nft_image :: "string option"

record nft_data =
  ownedNfts :: "nft list option"
  totalCount :: "nat option"

record owned_token =
  ot_tokenId :: string
  ot_name :: string
  ot_image :: "string option"

text \<open>
  The result of \<open>checkStakedNFTsDirectly\<close>. The failure variant has no count and no
  token ids.
\<close>

record staking_result =
  hasStakedNFTs :: bool
  stakedCount :: "js_number option"
  sr_stakedTokenIds :: "js_number list option"
  sr_error :: "string option"
  sr_walletAddress :: string
  stakingContract :: string
  sr_verificationMethod :: string

text \<open>
  The text of \<open>details.message\<close> is a template filled with numbers; the model keeps the
  template's kind and the numbers.
\<close>

datatype result_message =
    WalletOwns nat int
  | OwnsFromCollection nat
  | OwnsFromCollectionNeed nat int
  | VerifiedThroughStaked js_number nat int
  | InsufficientStaked js_number nat int

record details =
  collectionName :: "string option"
  collectionSymbol :: "string option"
  ownedTokens :: "owned_token list option"
  message :: "result_message option"
  stakingInfo :: "nat option"
  stakingDetails :: "staking_result list option"

text \<open>
  The result object of a verification. Its set of fields varies with the path that built
  it; a field that the path leaves out is \<open>None\<close>.
\<close>

record verification_result =
  verified :: bool
  error :: "string option"
  network :: string
  walletAddress :: string
  totalNFTs :: "js_number option"
  ownedNFTs :: "nat option"
  requiredCollection :: "string option"
  minRequired :: "int option"
  details :: "details option"
  collectionNFTs :: "nat option"
  verificationMethod :: "string option"
  stakingContractsChecked :: "nat option"
  stakedNFTCount :: "js_number option"
  stakedTokenIds :: "js_number list option"
  totalStakedTokenIds :: "nat option"
  stakingContracts :: "string list option"
  timestamp :: string

text \<open>
  A verifier's configuration, read from the environment by its constructor:
  \<open>requiredCollection\<close> may be unset, \<open>minNftCount\<close> is \<open>parseInt(...) || 1\<close>.
\<close>

record verifier_config =
  cfg_requiredCollection :: "string option"
  minNftCount :: int

text \<open>JavaScript truthiness of a string that may be undefined, and \<open>s || d\<close>.\<close>

definition truthy :: "string option \<Rightarrow> bool" where
  "truthy s = (case s of None \<Rightarrow> False | Some t \<Rightarrow> t \<noteq> [])"

definition or_else :: "string option \<Rightarrow> string \<Rightarrow> string" where
  "or_else s d = (case s of None \<Rightarrow> d | Some t \<Rightarrow> if t = [] then d else t)"

definition empty_details :: details where
  "empty_details =
     \<lparr>collectionName = None, collectionSymbol = None, ownedTokens = None, message = None,
      stakingInfo = None, stakingDetails = None\<rparr>"

text \<open>The object literal \<open>result\<close> at the start of each \<open>verifyNFTOwnership\<close>.\<close>

definition initial_result ::
  "string \<Rightarrow> verifier_config \<Rightarrow> nft_data \<Rightarrow> string \<Rightarrow> string \<Rightarrow> verification_result" where
  "initial_result net cfg nftData now wallet =
     \<lparr>verified = False, error = None, network = net, walletAddress = wallet,
      totalNFTs = Some (Fin (int (case totalCount nftData of None \<Rightarrow> 0 | Some n \<Rightarrow> n))),
      ownedNFTs = Some (length (case ownedNfts nftData of None \<Rightarrow> [] | Some l \<Rightarrow> l)),
      requiredCollection = cfg_requiredCollection cfg,
      minRequired = Some (minNftCount cfg),
      details = Some empty_details,
      collectionNFTs = None, verificationMethod = None, stakingContractsChecked = None,
      stakedNFTCount = None, stakedTokenIds = None, totalStakedTokenIds = None,
      stakingContracts = None, timestamp = now\<rparr>"

text \<open>The object a \<open>catch\<close> block of \<open>verifyNFTOwnership\<close> returns.\<close>

definition error_result :: "string \<Rightarrow> string \<Rightarrow> string \<Rightarrow> string \<Rightarrow> verification_result" where
  "error_result net msg now wallet =
     \<lparr>verified = False, error = Some msg, network = net, walletAddress = wallet,
      totalNFTs = Some (Fin 0), ownedNFTs = None, requiredCollection = None,
      minRequired = None, details = None, collectionNFTs = None,
      verificationMethod = None, stakingContractsChecked = None, stakedNFTCount = None,
      stakedTokenIds = None, totalStakedTokenIds = None, stakingContracts = None,
      timestamp = now\<rparr>"

definition ownedToken :: "nft \<Rightarrow> owned_token" where
  "ownedToken n =
     \<lparr>ot_tokenId = tokenId n, ot_name = or_else (nft_name n) (''#'' @ tokenId n),
      ot_image = nft_image n\<rparr>"

definition collectionMessage :: "bool \<Rightarrow> nat \<Rightarrow> int \<Rightarrow> result_message" where
  "collectionMessage ok n minCount =
     (if ok then OwnsFromCollection n else OwnsFromCollectionNeed n minCount)"

text \<open>\<open>ArbitrumNFTVerifier.verifyNFTOwnership\<close>\<close>

definition ArbitrumNFTVerifier_verifyNFTOwnership ::
  "verifier_config \<Rightarrow> (string \<Rightarrow> nft_data rpc) \<Rightarrow> string \<Rightarrow> string \<Rightarrow> verification_result" where
  "ArbitrumNFTVerifier_verifyNFTOwnership cfg getNFTsForOwner now wallet =
     (case getNFTsForOwner wallet of
        Throws msg \<Rightarrow> error_result ''arbitrum'' (''Failed to fetch NFTs: '' @ msg) now wallet
      | Returns nftData \<Rightarrow>
          let owned = (case ownedNfts nftData of None \<Rightarrow> [] | Some l \<Rightarrow> l);
              result = initial_result ''arbitrum'' cfg nftData now wallet
          in if \<not> truthy (cfg_requiredCollection cfg) then
               result\<lparr>verified := int (length owned) \<ge> minNftCount cfg,
                      details := Some (empty_details\<lparr>message :=
                         Some (WalletOwns (length owned) (minNftCount cfg))\<rparr>)\<rparr>
             else
               let coll = filter (\<lambda>n. toLowerCase (contract_address n)
                            = toLowerCase (or_else (cfg_requiredCollection cfg) [])) owned;
                   ok = (int (length coll) \<ge> minNftCount cfg);
                   d = (if length coll > 0 then
                          empty_details\<lparr>collectionName := Some ''Schizo Sybils (Gen 1)'',
                             collectionSymbol := Some (or_else (contract_symbol (hd coll)) []),
                             ownedTokens := Some (map ownedToken coll)\<rparr>
                        else
                          empty_details\<lparr>collectionName := Some ''Schizo Sybils (Gen 1)'',
                             collectionSymbol := Some []\<rparr>)
               in result\<lparr>verified := ok, collectionNFTs := Some (length coll),
                         details := Some (d\<lparr>message :=
                            Some (collectionMessage ok (length coll) (minNftCount cfg))\<rparr>)\<rparr>)"

text \<open>\<open>BeraVerifier.verifyNFTOwnership\<close>\<close>

definition BeraVerifier_verifyNFTOwnership ::
  "verifier_config \<Rightarrow> (string \<Rightarrow> nft_data rpc) \<Rightarrow> string \<Rightarrow> string \<Rightarrow> verification_result" where
  "BeraVerifier_verifyNFTOwnership cfg getNFTsForOwner now wallet =
     (case getNFTsForOwner wallet of
        Throws msg \<Rightarrow> error_result ''berachain'' (''Failed to fetch NFTs: '' @ msg) now wallet
      | Returns nftData \<Rightarrow>
          let owned = (case ownedNfts nftData of None \<Rightarrow> [] | Some l \<Rightarrow> l);
              result = initial_result ''berachain'' cfg nftData now wallet
          in if \<not> truthy (cfg_requiredCollection cfg) then
               result\<lparr>verified := int (length owned) \<ge> minNftCount cfg,
                      details := Some (empty_details\<lparr>message :=
                         Some (WalletOwns (length owned) (minNftCount cfg))\<rparr>)\<rparr>
             else
               let coll = filter (\<lambda>n. toLowerCase (contract_address n)
                            = toLowerCase (or_else (cfg_requiredCollection cfg) [])) owned;
                   ok = (int (length coll) \<ge> minNftCount cfg);
                   d = (if length coll > 0 then
                          empty_details\<lparr>collectionName := Some ''Super Schizos (Gen 2)'',
                             collectionSymbol := Some (or_else (contract_symbol (hd coll)) []),
                             ownedTokens := Some (map ownedToken coll)\<rparr>
                        else
                          empty_details\<lparr>collectionName := Some ''Super Schizos (Gen 2)'',
                             collectionSymbol := Some []\<rparr>)
               in result\<lparr>verified := ok, collectionNFTs := Some (length coll),
                         details := Some (d\<lparr>message :=
                            Some (collectionMessage ok (length coll) (minNftCount cfg))\<rparr>)\<rparr>)"

text \<open>
  \<open>MonadNFTVerifier.verifyNFTOwnership\<close>: the collection's name is read from the first
  owned token of the collection, and there is no branch for an empty selection.
\<close>

definition MonadNFTVerifier_verifyNFTOwnership ::
  "verifier_config \<Rightarrow> (string \<Rightarrow> nft_data rpc) \<Rightarrow> string \<Rightarrow> string \<Rightarrow> verification_result" where
  "MonadNFTVerifier_verifyNFTOwnership cfg getNFTsForOwner now wallet =
     (case getNFTsForOwner wallet of
        Throws msg \<Rightarrow>
          error_result ''monad_testnet'' (''Failed to fetch NFTs: '' @ msg) now wallet
      | Returns nftData \<Rightarrow>
          let owned = (case ownedNfts nftData of None \<Rightarrow> [] | Some l \<Rightarrow> l);
              result = initial_result ''monad_testnet'' cfg nftData now wallet
          in if \<not> truthy (cfg_requiredCollection cfg) then
               result\<lparr>verified := int (length owned) \<ge> minNftCount cfg,
                      details := Some (empty_details\<lparr>message :=
                         Some (WalletOwns (length owned) (minNftCount cfg))\<rparr>)\<rparr>
             else
               let coll = filter (\<lambda>n. toLowerCase (contract_address n)
                            = toLowerCase (or_else (cfg_requiredCollection cfg) [])) owned;
                   ok = (int (length coll) \<ge> minNftCount cfg);
                   d = (if length coll > 0 then
                          empty_details\<lparr>collectionName :=
                               Some (or_else (contract_name (hd coll)) ''Unknown Collection''),
                             collectionSymbol := Some (or_else (contract_symbol (hd coll)) []),
                             ownedTokens := Some (map ownedToken coll)\<rparr>
                        else empty_details)
               in result\<lparr>verified := ok, collectionNFTs := Some (length coll),
                         details := Some (d\<lparr>message :=
                            Some (collectionMessage ok (length coll) (minNftCount cfg))\<rparr>)\<rparr>)"

subsection \<open>Staking contracts\<close>

text \<open>
  The JSON-RPC calls \<open>checkStakedNFTsDirectly\<close> makes. The answer of \<open>eth_getCode\<close> is the
  \<open>result\<close> string (or nothing). The answer to the \<open>nftStakeCount(address)\<close> call is
  modelled by the number its \<open>result\<close> data denotes in hexadecimal, \<open>None\<close> when the
  answer has no result or the empty data \<open>0x\<close>; the answer to
  \<open>getStakedTokenIds(address)\<close> by the list of the 32-byte words of its data. The second
  signature the source tries, \<open>totalNFTStakeCount()\<close>, is only logged and never assigned
  to \<open>stakedCount\<close>, so it has no part in the result.
\<close>

record staking_rpc =
  eth_getCode :: "string \<Rightarrow> string option rpc"
  call_nftStakeCount :: "string \<Rightarrow> string \<Rightarrow> nat option rpc"
  call_getStakedTokenIds :: "string \<Rightarrow> string \<Rightarrow> nat list option rpc"

text \<open>
  Decoding the dynamic array \<open>[offset][length][id 1][id 2]...\<close>: with at least two words
  and a length between 1 and 1000, the ids present among the first \<open>length\<close> entries that
  are greater than zero.
\<close>

definition decodeTokenIds :: "nat list \<Rightarrow> js_number list" where
  "decodeTokenIds ws =
     (if length ws \<ge> 2 then
        let arrayLength = parseInt16 (Some (ws ! 1))
        in if js_gt arrayLength (Fin 0) \<and> js_ge (Fin 1000) arrayLength then
             filter (\<lambda>t. js_gt t (Fin 0))
               (map (\<lambda>w. parseInt16 (Some w))
                  (take (case arrayLength of Fin n \<Rightarrow> nat n | _ \<Rightarrow> 0) (drop 2 ws)))
           else []
      else [])"

definition stakingFailed :: "string \<Rightarrow> string \<Rightarrow> string \<Rightarrow> staking_result" where
  "stakingFailed msg wallet contract =
     \<lparr>hasStakedNFTs = False, stakedCount = None, sr_stakedTokenIds = None,
      sr_error = Some msg, sr_walletAddress = wallet, stakingContract = contract,
      sr_verificationMethod = ''direct_contract_call_failed''\<rparr>"

definition checkStakedNFTsDirectly :: "staking_rpc \<Rightarrow> string \<Rightarrow> string \<Rightarrow> staking_result" where
  "checkStakedNFTsDirectly node wallet contract =
     (case eth_getCode node contract of
        Throws msg \<Rightarrow> stakingFailed msg wallet contract
      | Returns code \<Rightarrow>
          if \<not> truthy code \<or> code = Some ''0x'' then
            stakingFailed (''Contract not found at address '' @ contract) wallet contract
          else
            let count = (case call_nftStakeCount node contract wallet of
                           Returns (Some n) \<Rightarrow> parseInt16 (Some n)
                         | _ \<Rightarrow> Fin 0);
                ids = (if js_gt count (Fin 0) then
                         (case call_getStakedTokenIds node contract wallet of
                            Returns (Some ws) \<Rightarrow> decodeTokenIds ws
                          | _ \<Rightarrow> [])
                       else [])
            in \<lparr>hasStakedNFTs = js_gt count (Fin 0), stakedCount = Some count,
                sr_stakedTokenIds = Some ids, sr_error = None, sr_walletAddress = wallet,
                stakingContract = contract,
                sr_verificationMethod = ''direct_contract_call''\<rparr>)"

text \<open>
  \<open>getStakingContracts\<close>: the two environment variables that are set, filtered to strings
  of 42 characters starting with \<open>0x\<close>.
\<close>

definition getStakingContracts :: "string option \<Rightarrow> string option \<Rightarrow> string list" where
  "getStakingContracts addr1 addr2 =
     filter (\<lambda>a. a \<noteq> [] \<and> length a = 42 \<and> take 2 a = ''0x'')
       ((if truthy addr1 then [or_else addr1 []] else [])
        @ (if truthy addr2 then [or_else addr2 []] else []))"

text \<open>
  The loop over the staking contracts: the counts of the contracts that report staked
  tokens are added up (as JavaScript numbers), and their token ids concatenated.
\<close>

definition totalStakedCount :: "staking_result list \<Rightarrow> js_number" where
  "totalStakedCount rs =
     foldl (\<lambda>total r. if hasStakedNFTs r
                        then js_add total (case stakedCount r of None \<Rightarrow> NaN | Some c \<Rightarrow> c)
                        else total)
       (Fin 0) rs"

definition allStakedTokenIds :: "staking_result list \<Rightarrow> js_number list" where
  "allStakedTokenIds rs =
     foldl (\<lambda>ids r. if hasStakedNFTs r
                      then ids @ (case sr_stakedTokenIds r of None \<Rightarrow> [] | Some l \<Rightarrow> l)
                      else ids)
       [] rs"

definition stakedResult ::
  "bool \<Rightarrow> string \<Rightarrow> verifier_config \<Rightarrow> string list \<Rightarrow> staking_result list \<Rightarrow> string \<Rightarrow> string
     \<Rightarrow> verification_result" where
  "stakedResult meets tag cfg contracts rs now wallet =
     (let total = totalStakedCount rs; ids = allStakedTokenIds rs
      in \<lparr>verified = meets, error = None, network = ''monad_testnet'',
          walletAddress = wallet, totalNFTs = Some total, ownedNFTs = None,
          requiredCollection = None, minRequired = Some (minNftCount cfg),
          details = Some (empty_details\<lparr>
             message := Some (if meets
                then VerifiedThroughStaked total (length contracts) (minNftCount cfg)
                else InsufficientStaked total (length contracts) (minNftCount cfg)),
             stakingDetails := Some rs\<rparr>),
          collectionNFTs = None, verificationMethod = Some tag,
          stakingContractsChecked = Some (length contracts),
          stakedNFTCount = Some total,
          stakedTokenIds = (if meets then Some (take 10 ids) else None),
          totalStakedTokenIds = (if meets then Some (length ids) else None),
          stakingContracts = (if meets then Some contracts else None),
          timestamp = now\<rparr>)"

text \<open>
  \<open>MonadNFTVerifier.verifyNFTOwnershipWithStaking\<close>. On the last path the source assigns
  \<open>standardResult.details.stakingInfo\<close>; when the direct check had failed with an error
  its result has no \<open>details\<close>, the assignment throws, and the \<open>catch\<close> block answers
  with the message of the \<open>TypeError\<close>.
\<close>

definition verifyNFTOwnershipWithStaking ::
  "verifier_config \<Rightarrow> string option \<Rightarrow> string option \<Rightarrow> (string \<Rightarrow> nft_data rpc) \<Rightarrow> staking_rpc
     \<Rightarrow> string \<Rightarrow> string \<Rightarrow> verification_result" where
  "verifyNFTOwnershipWithStaking cfg addr1 addr2 getNFTsForOwner node now wallet =
     (let standardResult = MonadNFTVerifier_verifyNFTOwnership cfg getNFTsForOwner now wallet
      in if verified standardResult then
           standardResult\<lparr>verificationMethod := Some ''direct_ownership''\<rparr>
         else
           let contracts = getStakingContracts addr1 addr2;
               rs = map (checkStakedNFTsDirectly node wallet) contracts;
               total = totalStakedCount rs
           in if length contracts > 0 \<and> js_gt total (Fin 0) then
                (if js_ge total (Fin (minNftCount cfg))
                 then stakedResult True ''staking_direct_query_multi'' cfg contracts rs now wallet
                 else stakedResult False ''staking_insufficient_multi'' cfg contracts rs now wallet)
              else if length contracts > 0 then
                (case details standardResult of
                   None \<Rightarrow>
                     \<lparr>verified = False,
                      error = Some ''Cannot set properties of undefined (setting 'stakingInfo')'',
                      network = ''monad_testnet'', walletAddress = wallet,
                      totalNFTs = None, ownedNFTs = None, requiredCollection = None,
                      minRequired = None, details = None, collectionNFTs = None,
                      verificationMethod = Some ''error'', stakingContractsChecked = None,
                      stakedNFTCount = None, stakedTokenIds = None,
                      totalStakedTokenIds = None, stakingContracts = None,
                      timestamp = now\<rparr>
                 | Some d \<Rightarrow>
                     standardResult\<lparr>verificationMethod := Some ''failed_both'',
                        stakingContractsChecked := Some (length contracts),
                        details := Some (d\<lparr>stakingInfo := Some (length contracts)\<rparr>)\<rparr>)
              else
                standardResult\<lparr>verificationMethod := Some ''failed_both'',
                   stakingContractsChecked := Some (length contracts)\<rparr>)"

text \<open>A configuration for the examples: a minimum of 3 tokens, no required collection.\<close>

definition example_cfg :: verifier_config where
  "example_cfg = \<lparr>cfg_requiredCollection = None, minNftCount = 3\<rparr>"

text \<open>
  For the statements below: the staked count a staking contract reports for the wallet,
  as a natural number. It is the answer of \<open>nftStakeCount\<close>, and 0 for a contract that
  cannot be queried (no code at the address, or a call that fails or has no result).
\<close>

definition reportedCount :: "staking_rpc \<Rightarrow> string \<Rightarrow> string \<Rightarrow> nat" where
  "reportedCount node wallet contract =
     (case eth_getCode node contract of
        Throws msg \<Rightarrow> 0
      | Returns code \<Rightarrow>
          if \<not> truthy code \<or> code = Some ''0x'' then 0
          else (case call_nftStakeCount node contract wallet of
                  Returns (Some n) \<Rightarrow> n
                | _ \<Rightarrow> 0))"

text \<open>
  Two staking contracts for the examples: the first reports \<open>n1\<close> staked tokens, the
  second \<open>n2\<close>.
\<close>

definition two_contract_node :: "nat \<Rightarrow> nat \<Rightarrow> staking_rpc" where
  "two_contract_node n1 n2 =
     \<lparr>eth_getCode = (\<lambda>c. Returns (Some ''0x6080'')),
      call_nftStakeCount =
        (\<lambda>c w. Returns (Some (if c = ''0x00000000000000000000000000000000000000c1''
                                 then n1 else n2))),
      call_getStakedTokenIds = (\<lambda>c w. Throws ''execution reverted'')\<rparr>"

section \<open>Verification stores (src/database/verification-db.js, postgres-db.js)\<close>

text \<open>
  The stored shapes. \<open>new Date().toISOString()\<close> is read up to three times in one call;
  the readings are the values \<open>clock 0\<close>, \<open>clock 1\<close>, \<open>clock 2\<close> of a parameter.
\<close>

record network_verification =
  nv_walletAddress :: string
  verifiedAt :: string
  verificationResult :: verification_result
  nv_network :: string

record user_record =
  ur_userId :: string
  ur_username :: string
  verifications :: "string \<rightharpoonup> network_verification"
  createdAt :: string
  lastUpdated :: "string option"

text \<open>
  \<open>VerificationDatabase.saveVerification\<close> on the object \<open>this.data\<close>. Writing the file
  (\<open>saveDatabase\<close>, which swallows its errors) is not part of the model.
\<close>

definition VerificationDatabase_saveVerification ::
  "(string \<rightharpoonup> user_record) \<Rightarrow> (nat \<Rightarrow> string) \<Rightarrow> string \<Rightarrow> string \<Rightarrow> string
     \<Rightarrow> verification_result \<Rightarrow> string
     \<Rightarrow> network_verification \<times> (string \<rightharpoonup> user_record)" where
  "VerificationDatabase_saveVerification data clock uid uname wallet res net =
     (let u0 = (case data uid of
                  None \<Rightarrow> \<lparr>ur_userId = uid, ur_username = uname, verifications = Map.empty,
                            createdAt = clock 0, lastUpdated = None\<rparr>
                | Some u \<Rightarrow> u);
          nv = \<lparr>nv_walletAddress = wallet, verifiedAt = clock 1,
                verificationResult = res, nv_network = net\<rparr>;
          u1 = u0\<lparr>verifications := (verifications u0)(net \<mapsto> nv),
                  ur_username := uname, lastUpdated := Some (clock 2)\<rparr>
      in (nv, data(uid \<mapsto> u1)))"

text \<open>
  \<open>PostgreSQLDatabase\<close>: the two tables, the flag \<open>useJSON\<close> and the object \<open>jsonData\<close>,
  which stays undefined unless the JSON fallback was loaded. A query of the pool may fail;
  \<open>q_ok k\<close> says whether the \<open>k\<close>-th query of the call succeeds, and \<open>db_now k\<close> is the
  \<open>CURRENT_TIMESTAMP\<close> it sees. The result column holds the result object as stored.
\<close>

record pg_user_row =
  pg_username :: string
  created_at :: string
  last_updated :: string

record pg_verification_row =
  wallet_address :: string
  verified_at :: string
  verification_result :: verification_result

record pg_tables =
  verified_users :: "string \<rightharpoonup> pg_user_row"
  user_verifications :: "string \<times> string \<rightharpoonup> pg_verification_row"

record PostgreSQLDatabase =
  useJSON :: bool
  jsonData :: "(string \<rightharpoonup> user_record) option"
  pool :: pg_tables

text \<open>
  \<open>saveVerificationJSON\<close>, the same statements as \<open>VerificationDatabase.saveVerification\<close>
  on \<open>this.jsonData\<close>; indexing an undefined \<open>jsonData\<close> throws.
\<close>

definition saveVerificationJSON ::
  "PostgreSQLDatabase \<Rightarrow> (nat \<Rightarrow> string) \<Rightarrow> string \<Rightarrow> string \<Rightarrow> string
     \<Rightarrow> verification_result \<Rightarrow> string
     \<Rightarrow> (string + network_verification) \<times> PostgreSQLDatabase" where
  "saveVerificationJSON db clock uid uname wallet res net =
     (case jsonData db of
        None \<Rightarrow> (Inl ''TypeError: Cannot read properties of undefined'', db)
      | Some data \<Rightarrow>
          (Inr (fst (VerificationDatabase_saveVerification data clock uid uname wallet res net)),
           db\<lparr>jsonData :=
                Some (snd (VerificationDatabase_saveVerification data clock uid uname wallet
                             res net))\<rparr>))"

text \<open>
  \<open>PostgreSQLDatabase.saveVerification\<close>: two upserts, each its own statement; when one
  fails the \<open>catch\<close> block falls back to \<open>saveVerificationJSON\<close>.
\<close>

definition PostgreSQLDatabase_saveVerification ::
  "PostgreSQLDatabase \<Rightarrow> (nat \<Rightarrow> bool) \<Rightarrow> (nat \<Rightarrow> string) \<Rightarrow> (nat \<Rightarrow> string) \<Rightarrow> string \<Rightarrow> string
     \<Rightarrow> string \<Rightarrow> verification_result \<Rightarrow> string
     \<Rightarrow> (string + network_verification) \<times> PostgreSQLDatabase" where
  "PostgreSQLDatabase_saveVerification db q_ok db_now clock uid uname wallet res net =
     (if useJSON db then saveVerificationJSON db clock uid uname wallet res net
      else if \<not> q_ok 0 then saveVerificationJSON db clock uid uname wallet res net
      else
        let users = verified_users (pool db);
            row = (case users uid of
                     None \<Rightarrow> \<lparr>pg_username = uname, created_at = db_now 0,
                               last_updated = db_now 0\<rparr>
                   | Some r \<Rightarrow> r\<lparr>pg_username := uname, last_updated := db_now 0\<rparr>);
            db1 = db\<lparr>pool := (pool db)\<lparr>verified_users := users(uid \<mapsto> row)\<rparr>\<rparr>
        in if \<not> q_ok 1 then saveVerificationJSON db1 clock uid uname wallet res net
           else
             (Inr \<lparr>nv_walletAddress = wallet, verifiedAt = clock 0,
                   verificationResult = res, nv_network = net\<rparr>,
              db1\<lparr>pool := (pool db1)\<lparr>user_verifications :=
                     (user_verifications (pool db1))((uid, net) \<mapsto>
                        \<lparr>wallet_address = wallet, verified_at = db_now 1,
                         verification_result = res\<rparr>)\<rparr>\<rparr>))"

text \<open>
  \<open>PostgreSQLDatabase.getVerifiedUser\<close>: in JSON mode the entry of \<open>jsonData\<close>; otherwise
  the user's row joined with its verification rows, and \<open>null\<close> when a query fails.
\<close>

definition getVerifiedUser ::
  "PostgreSQLDatabase \<Rightarrow> (nat \<Rightarrow> bool) \<Rightarrow> string \<Rightarrow> string + user_record option" where
  "getVerifiedUser db q_ok uid =
     (if useJSON db then
        (case jsonData db of
           None \<Rightarrow> Inl ''TypeError: Cannot read properties of undefined''
         | Some data \<Rightarrow> Inr (data uid))
      else if \<not> q_ok 0 then Inr None
      else
        (case verified_users (pool db) uid of
           None \<Rightarrow> Inr None
         | Some r \<Rightarrow>
             if \<not> q_ok 1 then Inr None
             else Inr (Some
               \<lparr>ur_userId = uid, ur_username = pg_username r,
                verifications = (\<lambda>n. case user_verifications (pool db) (uid, n) of
                    None \<Rightarrow> None
                  | Some v \<Rightarrow> Some \<lparr>nv_walletAddress = wallet_address v,
                       verifiedAt = verified_at v,
                       verificationResult = verification_result v, nv_network = n\<rparr>),
                createdAt = created_at r, lastUpdated = Some (last_updated r)\<rparr>)))"

text \<open>
  \<open>hasMonadVerification\<close> and \<open>getVerifiedWallet\<close>, both through \<open>getVerifiedUser\<close>.
\<close>

definition hasMonadVerification ::
  "PostgreSQLDatabase \<Rightarrow> (nat \<Rightarrow> bool) \<Rightarrow> string \<Rightarrow> string + bool" where
  "hasMonadVerification db q_ok uid =
     (case getVerifiedUser db q_ok uid of
        Inl e \<Rightarrow> Inl e
      | Inr None \<Rightarrow> Inr False
      | Inr (Some u) \<Rightarrow>
          (case verifications u ''monad_testnet'' of
             None \<Rightarrow> Inr False
           | Some v \<Rightarrow> Inr (verified (verificationResult v))))"

definition getVerifiedWallet ::
  "PostgreSQLDatabase \<Rightarrow> (nat \<Rightarrow> bool) \<Rightarrow> string \<Rightarrow> string + string option" where
  "getVerifiedWallet db q_ok uid =
     (case getVerifiedUser db q_ok uid of
        Inl e \<Rightarrow> Inl e
      | Inr None \<Rightarrow> Inr None
      | Inr (Some u) \<Rightarrow>
          (case verifications u ''monad_testnet'' of
             None \<Rightarrow> Inr None
           | Some v \<Rightarrow> Inr (if nv_walletAddress v = [] then None
                             else Some (nv_walletAddress v))))"

text \<open>A stored user for the examples: verified on the primary network only.\<close>

definition example_result :: "string \<Rightarrow> verification_result" where
  "example_result net =
     (initial_result net \<lparr>cfg_requiredCollection = None, minNftCount = 1\<rparr>
        \<lparr>ownedNfts = Some [], totalCount = Some 1\<rparr> ''2025-01-01T00:00:00.000Z''
        ''0x00000000000000000000000000000000000000bb'')\<lparr>verified := True\<rparr>"

definition example_user :: user_record where
  "example_user =
     \<lparr>ur_userId = ''42'', ur_username = ''alice'',
      verifications = [''monad_testnet'' \<mapsto>
         \<lparr>nv_walletAddress = ''0x00000000000000000000000000000000000000bb'',
          verifiedAt = ''2025-01-01T00:00:00.000Z'',
          verificationResult = example_result ''monad_testnet'',
          nv_network = ''monad_testnet''\<rparr>],
      createdAt = ''2025-01-01T00:00:00.000Z'',
      lastUpdated = Some ''2025-01-01T00:00:00.000Z''\<rparr>"

definition example_pg :: PostgreSQLDatabase where
  "example_pg =
     \<lparr>useJSON = False, jsonData = None,
      pool = \<lparr>verified_users = [''42'' \<mapsto>
                  \<lparr>pg_username = ''alice'', created_at = ''2025-01-01 00:00:00'',
                   last_updated = ''2025-01-01 00:00:00''\<rparr>],
               user_verifications = [(''42'', ''monad_testnet'') \<mapsto>
                  \<lparr>wallet_address = ''0x00000000000000000000000000000000000000bb'',
                   verified_at = ''2025-01-01 00:00:00'',
                   verification_result = example_result ''monad_testnet''\<rparr>]\<rparr>\<rparr>"

section \<open>Transaction scanner (\<open>MonadNFTVerifier.checkVerificationTransaction\<close>)\<close>

text \<open>
  A transaction as \<open>eth_getBlockByNumber\<close> returns it. The addresses may be missing
  (a contract creation has no \<open>to\<close>); \<open>value\<close> is a QUANTITY, modelled by the number
  it denotes, or missing.
\<close>

record tx =
  tx_to :: "string option"
  tx_from :: "string option"
  tx_value :: "nat option"
  tx_hash :: string

text \<open>
  The node: \<open>eth_blockNumber\<close> answers with the head's height (or without a result), and
  \<open>eth_getBlockByNumber\<close>, asked for the block whose number is the JavaScript number
  \<open>blockNum\<close> (sent as \<open>'0x' + blockNum.toString(16)\<close>), answers with the block's
  transactions; \<open>None\<close> stands for a \<open>null\<close> block or a block without a transaction list.
  Either call may throw.
\<close>

record chain_rpc =
  eth_blockNumber :: "nat option rpc"
  eth_getBlockByNumber :: "js_number \<Rightarrow> tx list option rpc"

datatype scan_outcome = Found | NotFound | Raised string

text \<open>\<open>tx.value ? parseInt(tx.value, 16).toString() : '0'\<close>\<close>

definition txValue :: "tx \<Rightarrow> string" where
  "txValue t =
     (case tx_value t of
        None \<Rightarrow> ''0''
      | Some v \<Rightarrow> number_toString (parseInt16 (Some v)))"

text \<open>
  The test of one transaction. The addresses to look for are \<open>None\<close> when the caller passes
  \<open>undefined\<close> (an unset \<open>BOT_WALLET_ADDRESS\<close>); \<open>undefined.toLowerCase()\<close> throws, but only
  once the conjunction reaches it. The amount is \<open>None\<close> when the caller passes
  \<open>undefined\<close> (a stored challenge without \<open>amountWei\<close>), which equals no string.
\<close>

definition matchTx ::
  "string option \<Rightarrow> string option \<Rightarrow> string option \<Rightarrow> tx \<Rightarrow> string + bool" where
  "matchTx fromAddress toAddress exactAmount t =
     (if \<not> truthy (tx_to t) \<or> \<not> truthy (tx_from t) then Inr False
      else
        (case toAddress of
           None \<Rightarrow> Inl ''TypeError: Cannot read properties of undefined''
         | Some ta \<Rightarrow>
             if toLowerCase (or_else (tx_to t) []) \<noteq> toLowerCase ta then Inr False
             else
               (case fromAddress of
                  None \<Rightarrow> Inl ''TypeError: Cannot read properties of undefined''
                | Some fa \<Rightarrow>
                    if toLowerCase (or_else (tx_from t) []) \<noteq> toLowerCase fa then Inr False
                    else Inr (Some (txValue t) = exactAmount))))"

text \<open>The inner loop, over the transactions of a block.\<close>

fun scanTxs ::
  "string option \<Rightarrow> string option \<Rightarrow> string option \<Rightarrow> tx list \<Rightarrow> scan_outcome" where
  "scanTxs fromAddress toAddress exactAmount [] = NotFound"
| "scanTxs fromAddress toAddress exactAmount (t # ts) =
     (case matchTx fromAddress toAddress exactAmount t of
        Inl e \<Rightarrow> Raised e
      | Inr True \<Rightarrow> Found
      | Inr False \<Rightarrow> scanTxs fromAddress toAddress exactAmount ts)"

text \<open>The body of the outer loop for one block number.\<close>

definition scanBlock ::
  "(js_number \<Rightarrow> tx list option rpc) \<Rightarrow> string option \<Rightarrow> string option \<Rightarrow> string option
     \<Rightarrow> js_number \<Rightarrow> scan_outcome" where
  "scanBlock getBlock fromAddress toAddress exactAmount blockNum =
     (case getBlock blockNum of
        Throws e \<Rightarrow> Raised e
      | Returns None \<Rightarrow> NotFound
      | Returns (Some txs) \<Rightarrow> scanTxs fromAddress toAddress exactAmount txs)"

text \<open>
  \<open>for (let blockNum = latestBlock; blockNum >= startBlock; blockNum--)\<close>. The counter is
  a JavaScript number, and \<open>blockNum--\<close> need not change a number above \<open>2^53\<close>; the loop
  is therefore a partial function, \<open>None\<close> meaning that it does not return.
\<close>

partial_function (option) scanBlocks ::
  "(js_number \<Rightarrow> tx list option rpc) \<Rightarrow> string option \<Rightarrow> string option \<Rightarrow> string option
     \<Rightarrow> js_number \<Rightarrow> js_number \<Rightarrow> scan_outcome option" where
  "scanBlocks getBlock fromAddress toAddress exactAmount blockNum startBlock =
     (if js_ge blockNum startBlock then
        (case scanBlock getBlock fromAddress toAddress exactAmount blockNum of
           NotFound \<Rightarrow>
             scanBlocks getBlock fromAddress toAddress exactAmount
               (js_sub blockNum (Fin 1)) startBlock
         | Found \<Rightarrow> Some Found
         | Raised e \<Rightarrow> Some (Raised e))
      else Some NotFound)"

text \<open>The \<open>try\<close> block: what it returns (\<open>Found\<close>, \<open>NotFound\<close>) or that it throws.\<close>

definition scanOutcome ::
  "chain_rpc \<Rightarrow> string option \<Rightarrow> string option \<Rightarrow> string option \<Rightarrow> scan_outcome option" where
  "scanOutcome node fromAddress toAddress exactAmount =
     (case eth_blockNumber node of
        Throws e \<Rightarrow> Some (Raised e)
      | Returns latestBlockHex \<Rightarrow>
          let latestBlock = parseInt16 latestBlockHex;
              blocksToCheck = Fin 1000;
              startBlock = js_max (Fin 0) (js_sub latestBlock blocksToCheck)
          in scanBlocks (eth_getBlockByNumber node) fromAddress toAddress exactAmount
               latestBlock startBlock)"

text \<open>With the \<open>catch\<close> block, which answers \<open>false\<close>.\<close>

definition checkVerificationTransaction ::
  "chain_rpc \<Rightarrow> string option \<Rightarrow> string option \<Rightarrow> string option \<Rightarrow> bool option" where
  "checkVerificationTransaction node fromAddress toAddress exactAmount =
     (case scanOutcome node fromAddress toAddress exactAmount of
        None \<Rightarrow> None
      | Some Found \<Rightarrow> Some True
      | Some NotFound \<Rightarrow> Some False
      | Some (Raised e) \<Rightarrow> Some False)"

text \<open>
  For the statements below: block \<open>b\<close> holds a transfer that passes the test of the scan.
\<close>

definition blockHasMatch :: "chain_rpc \<Rightarrow> string \<Rightarrow> string \<Rightarrow> string \<Rightarrow> int \<Rightarrow> bool" where
  "blockHasMatch node fromAddress toAddress exactAmount b =
     (case eth_getBlockByNumber node (Fin b) of
        Returns (Some txs) \<Rightarrow>
          list_ex (\<lambda>t. matchTx (Some fromAddress) (Some toAddress) (Some exactAmount) t = Inr True)
            txs
      | _ \<Rightarrow> False)"

text \<open>
  The Wei value of a transaction as an integer (a missing value counts as 0), and the
  transfers the scan is meant to find: from \<open>fromAddress\<close> to \<open>toAddress\<close>, compared
  without regard to case, of exactly \<open>amount\<close> base units.
\<close>

definition tx_amount :: "tx \<Rightarrow> nat" where
  "tx_amount t = (case tx_value t of None \<Rightarrow> 0 | Some v \<Rightarrow> v)"

definition exactTransfer :: "string \<Rightarrow> string \<Rightarrow> nat \<Rightarrow> tx \<Rightarrow> bool" where
  "exactTransfer fromAddress toAddress amount t =
     (truthy (tx_to t) \<and> truthy (tx_from t)
      \<and> toLowerCase (or_else (tx_to t) []) = toLowerCase toAddress
      \<and> toLowerCase (or_else (tx_from t) []) = toLowerCase fromAddress
      \<and> tx_amount t = amount)"

definition blockHasExact :: "chain_rpc \<Rightarrow> string \<Rightarrow> string \<Rightarrow> nat \<Rightarrow> int \<Rightarrow> bool" where
  "blockHasExact node fromAddress toAddress amount b =
     (case eth_getBlockByNumber node (Fin b) of
        Returns (Some txs) \<Rightarrow> list_ex (exactTransfer fromAddress toAddress amount) txs
      | _ \<Rightarrow> False)"

text \<open>The first outcome of a list that is not \<open>NotFound\<close>.\<close>

fun first_outcome :: "scan_outcome list \<Rightarrow> scan_outcome" where
  "first_outcome [] = NotFound"
| "first_outcome (x # xs) = (if x = NotFound then first_outcome xs else x)"

text \<open>A transfer and a chain for the examples: one transfer in block \<open>b\<close>, of \<open>v\<close> base units.\<close>

definition example_tx :: "nat \<Rightarrow> tx" where
  "example_tx v =
     \<lparr>tx_to = Some ''0x00000000000000000000000000000000000000B0'',
      tx_from = Some ''0x00000000000000000000000000000000000000bb'',
      tx_value = Some v, tx_hash = ''0x01''\<rparr>"

definition example_chain :: "nat \<Rightarrow> int \<Rightarrow> nat \<Rightarrow> chain_rpc" where
  "example_chain h b v =
     \<lparr>eth_blockNumber = Returns (Some h),
      eth_getBlockByNumber =
        (\<lambda>n. if n = Fin b then Returns (Some [example_tx v]) else Returns (Some []))\<rparr>"

text \<open>A chain on which the fetch of block 4990 fails.\<close>

definition failing_chain :: chain_rpc where
  "failing_chain =
     \<lparr>eth_blockNumber = Returns (Some 5000),
      eth_getBlockByNumber =
        (\<lambda>n. if n = Fin 4990 then Throws ''timeout of 10000ms exceeded''
              else if n = Fin 4000 then Returns (Some [example_tx 73400000000])
              else Returns (Some []))\<rparr>"

text \<open>A chain with two transfers: \<open>v\<close> base units in block \<open>b\<close>, \<open>v'\<close> in block \<open>b'\<close>.\<close>

definition two_transfer_chain :: "nat \<Rightarrow> int \<Rightarrow> nat \<Rightarrow> int \<Rightarrow> nat \<Rightarrow> chain_rpc" where
  "two_transfer_chain h b v b' v' =
     \<lparr>eth_blockNumber = Returns (Some h),
      eth_getBlockByNumber =
        (\<lambda>n. if n = Fin b then Returns (Some [example_tx v])
              else if n = Fin b' then Returns (Some [example_tx v'])
              else Returns (Some []))\<rparr>"

section \<open>Challenge amounts (the utilities of src/verifiers/base-verifier.js)\<close>

text \<open>
  The challenge amount is a fraction of the native unit, so here a double is modelled with
  its mantissa and binary exponent: \<open>\<lparr>mant = m, expo = e\<rparr>\<close> is the number \<open>m * 2^e\<close>. All
  amounts are positive and far from the ends of the exponent range; signs, infinities,
  \<open>NaN\<close> and subnormal numbers are not modelled.
\<close>

record double =
  mant :: nat
  expo :: int

text \<open>
  The double nearest to the fraction \<open>n / d\<close> (ties to even), for positive \<open>n\<close> and \<open>d\<close>:
  what reading a decimal literal or \<open>Number(string)\<close> returns. The quotient is scaled to
  53 bits, then rounded by its remainder.
\<close>

definition scaled_num :: "nat \<Rightarrow> int \<Rightarrow> nat" where
  "scaled_num n e = (if e < 0 then n * 2 ^ nat (- e) else n)"

definition scaled_den :: "nat \<Rightarrow> int \<Rightarrow> nat" where
  "scaled_den d e = (if e < 0 then d else d * 2 ^ nat e)"

definition round_ratio :: "nat \<Rightarrow> nat \<Rightarrow> double" where
  "round_ratio n d =
     (let e0 = int (bit_length n) - int (bit_length d) - 53;
          e = (if scaled_num n e0 div scaled_den d e0 \<ge> 2 ^ 53 then e0 + 1 else e0);
          q = scaled_num n e div scaled_den d e;
          r = scaled_num n e mod scaled_den d e
      in \<lparr>mant = (if 2 * r > scaled_den d e \<or> (2 * r = scaled_den d e \<and> odd q)
                  then q + 1 else q),
          expo = e\<rparr>)"

text \<open>Multiplication, addition and subtraction: the exact result, rounded to a double.\<close>

definition fl_mul :: "double \<Rightarrow> double \<Rightarrow> double" where
  "fl_mul a b = \<lparr>mant = round53 (mant a * mant b), expo = expo a + expo b\<rparr>"

definition fl_add :: "double \<Rightarrow> double \<Rightarrow> double" where
  "fl_add a b =
     (let e = min (expo a) (expo b)
      in \<lparr>mant = round53 (mant a * 2 ^ nat (expo a - e) + mant b * 2 ^ nat (expo b - e)),
          expo = e\<rparr>)"

text \<open>\<open>a - b\<close> for \<open>a \<ge> b\<close>.\<close>

definition fl_sub :: "double \<Rightarrow> double \<Rightarrow> double" where
  "fl_sub a b =
     (let e = min (expo a) (expo b)
      in \<lparr>mant = round53 (mant a * 2 ^ nat (expo a - e) - mant b * 2 ^ nat (expo b - e)),
          expo = e\<rparr>)"

text \<open>\<open>Math.floor\<close>, whose result is an integer that a double holds exactly.\<close>

definition floor_double :: "double \<Rightarrow> nat" where
  "floor_double x =
     (if expo x \<ge> 0 then mant x * 2 ^ nat (expo x) else mant x div 2 ^ nat (- expo x))"

text \<open>
  \<open>x.toFixed(10)\<close>: the decimal with ten fractional digits nearest to \<open>x\<close>, the larger one
  on a tie. The string \<open>0.dddddddddd\<close> is modelled by the integer \<open>n\<close> of its digits, the
  number \<open>n / 10^10\<close>.
\<close>

definition toFixed10 :: "double \<Rightarrow> nat" where
  "toFixed10 x =
     (if expo x \<ge> 0 then mant x * 2 ^ nat (expo x) * 10 ^ 10
      else (2 * mant x * 10 ^ 10 + 2 ^ nat (- expo x)) div (2 * 2 ^ nat (- expo x)))"

text \<open>
  \<open>generateVerificationAmount\<close>, with the draw of \<open>Math.random()\<close> as its parameter:
  \<open>min + random * (max - min)\<close>, printed with ten decimals and read back.
\<close>

definition generateVerificationAmount :: "double \<Rightarrow> double" where
  "generateVerificationAmount random =
     (let minAmount = round_ratio 1 (10 ^ 8);
          maxAmount = round_ratio 1 (10 ^ 7);
          randomAmount = fl_add minAmount (fl_mul random (fl_sub maxAmount minAmount))
      in round_ratio (toFixed10 randomAmount) (10 ^ 10))"

text \<open>\<open>ethToWei\<close>: \<open>Math.floor(ethAmount * 1e18).toString()\<close>\<close>

definition ethToWei :: "double \<Rightarrow> string" where
  "ethToWei ethAmount =
     number_toString (Fin (int (floor_double (fl_mul ethAmount \<lparr>mant = 10 ^ 18, expo = 0\<rparr>))))"

text \<open>The exact value \<open>floor(n / d * 10^18)\<close> for the fraction \<open>n / d\<close>.\<close>

definition exact_wei :: "nat \<Rightarrow> nat \<Rightarrow> nat" where
  "exact_wei n d = (n * 10 ^ 18) div d"

text \<open>The exact value \<open>floor(x * 10^18)\<close> for the double \<open>x\<close>.\<close>

definition exact_wei_double :: "double \<Rightarrow> nat" where
  "exact_wei_double x =
     (if expo x \<ge> 0 then mant x * 2 ^ nat (expo x) * 10 ^ 18
      else (mant x * 10 ^ 18) div 2 ^ nat (- expo x))"

section \<open>The bot's handlers (src/monad-bot.js)\<close>

text \<open>
  A record of \<open>verificationCodes\<close>. A record read from the file may lack any field but
  the user; a missing \<open>verified\<close> counts as false.
\<close>

record verification_code =
  vc_userId :: string
  vc_username :: "string option"
  vc_walletAddress :: "string option"
  amount :: "double option"
  amountWei :: "string option"
  vc_timestamp :: "js_number option"
  vc_verified :: bool
  vc_verifiedAt :: "js_number option"
  nftVerificationResult :: "verification_result option"

text \<open>
  \<open>verificationCodes\<close> is an object; its entries are listed in the order of insertion
  (the keys are millisecond timestamps, beyond the range of array indices).
  \<open>Object.entries(verificationCodes).find(([code, data]) => data.userId === userId)\<close>
  is the first entry of the user; an assignment to a key replaces the entry in place or
  appends a new one.
\<close>

definition find_code ::
  "string \<Rightarrow> (string \<times> verification_code) list \<Rightarrow> (string \<times> verification_code) option" where
  "find_code uid codes = find (\<lambda>entry. vc_userId (snd entry) = uid) codes"

fun set_code ::
  "string \<Rightarrow> verification_code \<Rightarrow> (string \<times> verification_code) list
     \<Rightarrow> (string \<times> verification_code) list" where
  "set_code k v [] = [(k, v)]"
| "set_code k v (entry # rest) =
     (if fst entry = k then (k, v) # rest else entry # set_code k v rest)"

text \<open>
  The text of the modal's field is a JavaScript string, a sequence of UTF-16 code units,
  modelled by their numbers. \<open>String.prototype.trim\<close> removes white space and line
  terminators from both ends: TAB, LF, VT, FF, CR, the space, the no-break space, the
  byte order mark and the other space separators of Unicode, each a single code unit.
\<close>

definition isWhiteSpace :: "nat \<Rightarrow> bool" where
  "isWhiteSpace u =
     (u \<in> set [0x9, 0xA, 0xB, 0xC, 0xD, 0x20, 0xA0, 0x1680,
               0x2000, 0x2001, 0x2002, 0x2003, 0x2004, 0x2005, 0x2006, 0x2007, 0x2008,
               0x2009, 0x200A, 0x2028, 0x2029, 0x202F, 0x205F, 0x3000, 0xFEFF])"

definition trim :: "nat list \<Rightarrow> nat list" where
  "trim s = rev (dropWhile isWhiteSpace (rev (dropWhile isWhiteSpace s)))"

text \<open>\<open>/^0x[a-fA-F0-9]{40}$/.test(address)\<close>, on the code units of \<open>address\<close>.\<close>

definition isValidEthereumAddress :: "nat list \<Rightarrow> bool" where
  "isValidEthereumAddress address =
     (length address = 42 \<and> take 2 address = map of_char ''0x''
      \<and> list_all (\<lambda>u. u \<in> set (map of_char ''0123456789abcdefABCDEF'')) (drop 2 address))"

text \<open>
  A well-formed address consists of ASCII characters; it is stored as the string of these
  characters.
\<close>

definition ascii :: "nat list \<Rightarrow> string" where
  "ascii units = map char_of units"

text \<open>Truthiness of a stored amount: present and not zero.\<close>

definition truthy_amount :: "double option \<Rightarrow> bool" where
  "truthy_amount a = (case a of None \<Rightarrow> False | Some d \<Rightarrow> mant d \<noteq> 0)"

datatype modal_reply = InvalidWalletAddress | AlreadyVerified | TransactionRequired double

text \<open>
  \<open>handleModalSubmit\<close> for the wallet modal: the create-or-resume step of the challenge.
  \<open>dateNow k\<close> is the \<open>k\<close>-th reading of \<open>Date.now()\<close>, \<open>random\<close> the draw of
  \<open>Math.random()\<close> the generator would use. The reply \<open>TransactionRequired a\<close> stands for
  the embed that asks for a transfer of the amount \<open>a\<close>.
\<close>

definition handleModalSubmit ::
  "(string \<times> verification_code) list \<Rightarrow> (nat \<Rightarrow> js_number) \<Rightarrow> double \<Rightarrow> string \<Rightarrow> string
     \<Rightarrow> nat list \<Rightarrow> modal_reply \<times> (string \<times> verification_code) list" where
  "handleModalSubmit codes dateNow random uid uname input =
     (let wallet = ascii (trim input)
      in if \<not> isValidEthereumAddress (trim input) then (InvalidWalletAddress, codes)
         else
           (case find_code uid codes of
              Some existingCode \<Rightarrow>
                if vc_verified (snd existingCode) then (AlreadyVerified, codes)
                else
                  let verificationAmount =
                        (case amount (snd existingCode) of
                           None \<Rightarrow> generateVerificationAmount random
                         | Some a \<Rightarrow> if mant a \<noteq> 0 then a
                                     else generateVerificationAmount random);
                      verificationId = fst existingCode;
                      withWallet = (snd existingCode)\<lparr>vc_walletAddress := Some wallet\<rparr>;
                      updated =
                        (if \<not> truthy_amount (amount (snd existingCode)) then
                           withWallet\<lparr>amount := Some verificationAmount,
                              amountWei := Some (ethToWei verificationAmount)\<rparr>
                         else withWallet)
                  in (TransactionRequired verificationAmount,
                      set_code verificationId updated codes)
            | None \<Rightarrow>
                let verificationAmount = generateVerificationAmount random;
                    verificationId = number_toString (dateNow 0)
                in (TransactionRequired verificationAmount,
                    set_code verificationId
                      \<lparr>vc_userId = uid, vc_username = Some uname,
                       vc_walletAddress = Some wallet, amount = Some verificationAmount,
                       amountWei = Some (ethToWei verificationAmount),
                       vc_timestamp = Some (dateNow 1), vc_verified = False,
                       vc_verifiedAt = None, nftVerificationResult = None\<rparr>
                      codes)))"

subsection \<open>Secondary networks\<close>

record bot_state =
  verificationCodes :: "(string \<times> verification_code) list"
  verificationDB :: PostgreSQLDatabase

datatype select_reply =
    StartMonadVerification
  | ReadyToVerify string "string option"
  | RequiresMonadFirst string
  | NoSelectReply

text \<open>
  \<open>handleSelectMenuInteraction\<close> for \<open>select_verification_chain\<close>. \<open>ReadyToVerify\<close> is the
  embed that shows the wallet bound on the primary network with the button
  \<open>use_verified_wallet_<chain>\<close>; \<open>RequiresMonadFirst\<close> the embed that sends the user to the
  primary verification. An exception of the store leaves the handler (\<open>Inl\<close>). The two
  reads of the store have their own query outcomes.
\<close>

definition handleSelectMenuInteraction ::
  "PostgreSQLDatabase \<Rightarrow> (nat \<Rightarrow> bool) \<Rightarrow> (nat \<Rightarrow> bool) \<Rightarrow> string \<Rightarrow> string
     \<Rightarrow> string + select_reply" where
  "handleSelectMenuInteraction db q_has q_wallet selectedChain uid =
     (if selectedChain = ''monad_testnet'' then Inr StartMonadVerification
      else if selectedChain = ''arbitrum'' \<or> selectedChain = ''bera'' then
        (case hasMonadVerification db q_has uid of
           Inl e \<Rightarrow> Inl e
         | Inr True \<Rightarrow>
             (case getVerifiedWallet db q_wallet uid of
                Inl e \<Rightarrow> Inl e
              | Inr verifiedWallet \<Rightarrow> Inr (ReadyToVerify selectedChain verifiedWallet))
         | Inr False \<Rightarrow> Inr (RequiresMonadFirst selectedChain))
      else Inr NoSelectReply)"

datatype button_reply =
    NoVerifiedWallet
  | NoVerificationRequest
  | NoWalletAddress
  | TransactionNotFound
  | VerificationEmbed verification_result
  | VerificationError string

text \<open>
  What a button handler did: its reply, or the error with which the handler itself ends
  (\<open>Inl\<close>) so that no reply is sent, and the state it leaves. \<open>VerificationError e\<close> is the
  error embed built from the caught error \<open>e\<close>. Granting the role, the work of the external
  role grantor, is left out.
\<close>

record button_outcome =
  reply :: "string + button_reply"
  state_after :: bot_state

text \<open>
  The settings of the secondary verifiers: configuration and holdings API of each.
\<close>

record secondary_verifiers =
  arbitrum_cfg :: verifier_config
  arbitrum_api :: "string \<Rightarrow> nft_data rpc"
  bera_cfg :: verifier_config
  bera_api :: "string \<Rightarrow> nft_data rpc"

text \<open>
  \<open>handleButtonInteraction\<close> for a button \<open>use_verified_wallet_<network>\<close>. The wallet is
  read from the store before the \<open>try\<close> block, so an error of the read leaves the handler.
  Inside the block an unknown network and a failing save throw; the \<open>catch\<close> block starts
  by reading \<open>networkName\<close>, which is declared by \<open>let\<close> inside the \<open>try\<close> block and is
  not in scope there, so it throws a \<open>ReferenceError\<close> and the handler ends with it.
\<close>

definition useVerifiedWallet ::
  "bot_state \<Rightarrow> secondary_verifiers \<Rightarrow> (nat \<Rightarrow> bool) \<Rightarrow> (nat \<Rightarrow> bool) \<Rightarrow> (nat \<Rightarrow> string)
     \<Rightarrow> (nat \<Rightarrow> string) \<Rightarrow> string \<Rightarrow> string \<Rightarrow> string \<Rightarrow> string
     \<Rightarrow> button_outcome" where
  "useVerifiedWallet st vs q_wallet q_save db_now clock now net uid uname =
     (case getVerifiedWallet (verificationDB st) q_wallet uid of
        Inl e \<Rightarrow> \<lparr>reply = Inl e, state_after = st\<rparr>
      | Inr None \<Rightarrow> \<lparr>reply = Inr NoVerifiedWallet, state_after = st\<rparr>
      | Inr (Some verifiedWallet) \<Rightarrow>
          if net \<noteq> ''arbitrum'' \<and> net \<noteq> ''bera'' then
            \<lparr>reply = Inl ''ReferenceError: networkName is not defined'', state_after = st\<rparr>
          else
            let nftResult =
                  (if net = ''arbitrum''
                   then ArbitrumNFTVerifier_verifyNFTOwnership (arbitrum_cfg vs)
                          (arbitrum_api vs) now verifiedWallet
                   else BeraVerifier_verifyNFTOwnership (bera_cfg vs) (bera_api vs) now
                          verifiedWallet)
            in if verified nftResult then
                 (case PostgreSQLDatabase_saveVerification (verificationDB st) q_save db_now
                         clock uid uname verifiedWallet nftResult net of
                    (Inl e, db') \<Rightarrow>
                      \<lparr>reply = Inl ''ReferenceError: networkName is not defined'',
                       state_after = st\<lparr>verificationDB := db'\<rparr>\<rparr>
                  | (Inr saved, db') \<Rightarrow>
                      \<lparr>reply = Inr (VerificationEmbed nftResult),
                       state_after = st\<lparr>verificationDB := db'\<rparr>\<rparr>)
               else \<lparr>reply = Inr (VerificationEmbed nftResult), state_after = st\<rparr>)"

subsection \<open>The primary network\<close>

text \<open>The settings of the primary verifier.\<close>

record primary_verifier =
  monad_cfg :: verifier_config
  monad_api :: "string \<Rightarrow> nft_data rpc"
  monad_node :: chain_rpc
  monad_staking :: staking_rpc
  staking_address_1 :: "string option"
  staking_address_2 :: "string option"
  botWallet :: "string option"

text \<open>
  \<open>handleButtonInteraction\<close> for the button \<open>confirm_monad_transaction\<close>: the scan for the
  transfer of the stored \<open>amountWei\<close>, then the ownership check with the staking fallback,
  then the save. The result is \<open>None\<close> when the scan does not return.
\<close>

definition confirmMonadTransaction ::
  "bot_state \<Rightarrow> primary_verifier \<Rightarrow> (nat \<Rightarrow> bool) \<Rightarrow> (nat \<Rightarrow> string) \<Rightarrow> (nat \<Rightarrow> string)
     \<Rightarrow> (nat \<Rightarrow> js_number) \<Rightarrow> string \<Rightarrow> string \<Rightarrow> string \<Rightarrow> button_outcome option" where
  "confirmMonadTransaction st pv q_save db_now clock dateNow now uid uname =
     (case find_code uid (verificationCodes st) of
        None \<Rightarrow>
          Some \<lparr>reply = Inr NoVerificationRequest, state_after = st\<rparr>
      | Some userVerification \<Rightarrow>
          if \<not> truthy (vc_walletAddress (snd userVerification)) then
            Some \<lparr>reply = Inr NoWalletAddress, state_after = st\<rparr>
          else
            (case checkVerificationTransaction (monad_node pv)
                    (vc_walletAddress (snd userVerification)) (botWallet pv)
                    (amountWei (snd userVerification)) of
               None \<Rightarrow> None
             | Some False \<Rightarrow>
                 Some \<lparr>reply = Inr TransactionNotFound, state_after = st\<rparr>
             | Some True \<Rightarrow>
                 let wallet = or_else (vc_walletAddress (snd userVerification)) [];
                     nftResult = verifyNFTOwnershipWithStaking (monad_cfg pv)
                        (staking_address_1 pv) (staking_address_2 pv) (monad_api pv)
                        (monad_staking pv) now wallet
                 in if verified nftResult then
                      (case PostgreSQLDatabase_saveVerification (verificationDB st) q_save
                              db_now clock uid uname wallet nftResult ''monad_testnet'' of
                         (Inl e, db') \<Rightarrow>
                           Some \<lparr>reply = Inr (VerificationError e),
                                 state_after = st\<lparr>verificationDB := db'\<rparr>\<rparr>
                       | (Inr saved, db') \<Rightarrow>
                           Some \<lparr>reply = Inr (VerificationEmbed nftResult),
                                 state_after =
                                   \<lparr>verificationCodes =
                                      set_code (fst userVerification)
                                        ((snd userVerification)\<lparr>vc_verified := True,
                                           vc_verifiedAt := Some (dateNow 0),
                                           nftVerificationResult := Some nftResult\<rparr>)
                                        (verificationCodes st),
                                    verificationDB = db'\<rparr>\<rparr>)
                    else
                      Some \<lparr>reply = Inr (VerificationEmbed nftResult),
                            state_after = st\<rparr>))"

text \<open>
  What the store holds for a user's primary network, as \<open>getVerifiedUser\<close> reads it: a
  verified result, or nothing.
\<close>

definition primary_verified_or_absent ::
  "PostgreSQLDatabase \<Rightarrow> (nat \<Rightarrow> bool) \<Rightarrow> string \<Rightarrow> bool" where
  "primary_verified_or_absent db q_ok uid =
     (case getVerifiedUser db q_ok uid of
        Inr (Some u) \<Rightarrow>
          (case verifications u ''monad_testnet'' of
             None \<Rightarrow> True
           | Some v \<Rightarrow> verified (verificationResult v))
      | _ \<Rightarrow> True)"

text \<open>Settings and states for the examples.\<close>

definition example_secondary :: secondary_verifiers where
  "example_secondary =
     \<lparr>arbitrum_cfg = \<lparr>cfg_requiredCollection = None, minNftCount = 1\<rparr>,
      arbitrum_api = (\<lambda>w. if w = ''0x00000000000000000000000000000000000000bb''
                           then Returns
                             \<lparr>ownedNfts = Some
                                [\<lparr>contract_address = ''0x00000000000000000000000000000000000000a1'',
                                  contract_name = None, contract_symbol = None,
                                  tokenId = ''7'', nft_name = None, nft_image = None\<rparr>],
                              totalCount = Some 1\<rparr>
                           else Throws ''unexpected owner''),
      bera_cfg = \<lparr>cfg_requiredCollection = None, minNftCount = 1\<rparr>,
      bera_api = (\<lambda>w. Throws ''Request failed with status code 503'')\<rparr>"

definition example_state :: bot_state where
  "example_state = \<lparr>verificationCodes = [], verificationDB = example_pg\<rparr>"

definition legacy_code :: verification_code where
  "legacy_code =
     \<lparr>vc_userId = ''42'', vc_username = Some ''alice'', vc_walletAddress = None,
      amount = None, amountWei = None, vc_timestamp = None, vc_verified = False,
      vc_verifiedAt = None, nftVerificationResult = None\<rparr>"

text \<open>
  The same on the stored data: every primary-network row of the table and every
  primary-network entry of \<open>jsonData\<close> holds a verified result.
\<close>

definition primary_entries_verified :: "PostgreSQLDatabase \<Rightarrow> bool" where
  "primary_entries_verified db =
     ((\<forall>uid v. user_verifications (pool db) (uid, ''monad_testnet'') = Some v
               \<longrightarrow> verified (verification_result v))
      \<and> (\<forall>data uid u v. jsonData db = Some data \<and> data uid = Some u
               \<and> verifications u ''monad_testnet'' = Some v
               \<longrightarrow> verified (verificationResult v)))"

text \<open>
  A store whose primary-network entry for the user holds a result that is not verified;
  \<open>saveVerification\<close> accepts such a result, the handlers above never pass one.
\<close>

definition unverified_pg :: PostgreSQLDatabase where
  "unverified_pg =
     \<lparr>useJSON = False, jsonData = None,
      pool = \<lparr>verified_users = [''42'' \<mapsto>
                  \<lparr>pg_username = ''alice'', created_at = ''2025-01-01 00:00:00'',
                   last_updated = ''2025-01-01 00:00:00''\<rparr>],
               user_verifications = [(''42'', ''monad_testnet'') \<mapsto>
                  \<lparr>wallet_address = ''0x00000000000000000000000000000000000000bb'',
                   verified_at = ''2025-01-01 00:00:00'',
                   verification_result =
                     (example_result ''monad_testnet'')\<lparr>verified := False\<rparr>\<rparr>]\<rparr>\<rparr>"

section \<open>Rate limiter (src/middleware/rateLimiter.js)\<close>

text \<open>
  The limiter keeps a map from the key \<open>userId:action\<close> to a counter and the time at
  which the counter's window ends. Times are millisecond timestamps (\<open>Date.now()\<close>) and
  counts are the small integers of the configuration; both are modelled as \<open>int\<close>.
  The clock value \<open>now\<close> that \<open>Date.now()\<close> returns is a parameter.
\<close>

record limit =
  count :: int
  windowMs :: int

record limit_entry =
  entry_count :: int
  entry_resetTime :: int

record limit_result =
  allowed :: bool
  remaining :: int
  resetTime :: int

record RateLimiter =
  userLimits :: "string \<rightharpoonup> limit_entry"
  globalLimits :: "string \<rightharpoonup> limit_entry"

definition defaultLimits :: "string \<rightharpoonup> limit" where
  "defaultLimits =
     [''verify'' \<mapsto> \<lparr>count = 5, windowMs = 60 * 1000\<rparr>,
      ''submit'' \<mapsto> \<lparr>count = 3, windowMs = 5 * 60 * 1000\<rparr>,
      ''status'' \<mapsto> \<lparr>count = 10, windowMs = 60 * 1000\<rparr>]"

text \<open>\<open>limits[action] || defaultLimits[action] || defaultLimits.verify\<close>\<close>

definition chosenLimit :: "(string \<rightharpoonup> limit) \<Rightarrow> string \<Rightarrow> limit" where
  "chosenLimit limits action =
     (case limits action of
        Some l \<Rightarrow> l
      | None \<Rightarrow>
          (case defaultLimits action of
             Some l \<Rightarrow> l
           | None \<Rightarrow> \<lparr>count = 5, windowMs = 60 * 1000\<rparr>))"

definition userKey :: "string \<Rightarrow> string \<Rightarrow> string" where
  "userKey userId action = userId @ '':'' @ action"

definition checkUserLimit ::
  "RateLimiter \<Rightarrow> int \<Rightarrow> string \<Rightarrow> string \<Rightarrow> (string \<rightharpoonup> limit)
     \<Rightarrow> limit_result \<times> RateLimiter" where
  "checkUserLimit rl now userId action limits =
     (let key = userKey userId action;
          lim = chosenLimit limits action
      in case userLimits rl key of
           None \<Rightarrow>
             (\<lparr>allowed = True, remaining = count lim - 1, resetTime = now + windowMs lim\<rparr>,
              rl\<lparr>userLimits := (userLimits rl)(key \<mapsto>
                    \<lparr>entry_count = 1, entry_resetTime = now + windowMs lim\<rparr>)\<rparr>)
         | Some userLimit \<Rightarrow>
             if now > entry_resetTime userLimit then
               (\<lparr>allowed = True, remaining = count lim - 1, resetTime = now + windowMs lim\<rparr>,
                rl\<lparr>userLimits := (userLimits rl)(key \<mapsto>
                      \<lparr>entry_count = 1, entry_resetTime = now + windowMs lim\<rparr>)\<rparr>)
             else if entry_count userLimit \<ge> count lim then
               (\<lparr>allowed = False, remaining = 0, resetTime = entry_resetTime userLimit\<rparr>, rl)
             else
               (\<lparr>allowed = True,
                 remaining = count lim - (entry_count userLimit + 1),
                 resetTime = entry_resetTime userLimit\<rparr>,
                rl\<lparr>userLimits := (userLimits rl)(key \<mapsto>
                      userLimit\<lparr>entry_count := entry_count userLimit + 1\<rparr>)\<rparr>))"

text \<open>The periodic sweep: every entry whose window has ended is deleted.\<close>

definition cleanup :: "RateLimiter \<Rightarrow> int \<Rightarrow> RateLimiter" where
  "cleanup rl now =
     \<lparr>userLimits = (\<lambda>k. case userLimits rl k of
                          None \<Rightarrow> None
                        | Some e \<Rightarrow> if now > entry_resetTime e then None else Some e),
      globalLimits = (\<lambda>k. case globalLimits rl k of
                          None \<Rightarrow> None
                        | Some e \<Rightarrow> if now > entry_resetTime e then None else Some e)\<rparr>"

section \<open>Facts about JavaScript numbers\<close>

lemma bit_length_le: "bit_length n \<le> k \<longleftrightarrow> n < 2 ^ k"
proof (induction n arbitrary: k rule: bit_length.induct)
  case (1 n)
  show ?case
  proof (cases "n = 0")
    case True
    then show ?thesis by (simp add: bit_length.simps)
  next
    case False
    show ?thesis
    proof (cases k)
      case 0
      with False show ?thesis by (simp add: bit_length.simps[of n])
    next
      case (Suc j)
      have "bit_length n \<le> Suc j \<longleftrightarrow> bit_length (n div 2) \<le> j"
        using False by (simp add: bit_length.simps[of n])
      also have "\<dots> \<longleftrightarrow> n div 2 < 2 ^ j"
        using "1.IH"[OF False] by simp
      also have "\<dots> \<longleftrightarrow> n < 2 ^ Suc j"
        by (simp add: div_less_iff_less_mult mult.commute)
      finally show ?thesis using Suc by simp
    qed
  qed
qed

text \<open>Below \<open>2^53\<close> every integer is a double: nothing is rounded.\<close>

lemma round53_small: "n < 2 ^ 53 \<Longrightarrow> round53 n = n"
  by (simp add: round53_def bit_length_le)

lemma to_double_small: "\<bar>i\<bar> < 2 ^ 53 \<Longrightarrow> to_double i = Fin i"
proof -
  assume a: "\<bar>i\<bar> < 2 ^ 53"
  then have "nat \<bar>i\<bar> < 2 ^ 53"
    by (simp add: nat_less_iff)
  then have r: "round53 (nat \<bar>i\<bar>) = nat \<bar>i\<bar>"
    by (rule round53_small)
  have "(2::nat) ^ 53 < 2 ^ 1024" by simp
  with \<open>nat \<bar>i\<bar> < 2 ^ 53\<close> have "\<not> 2 ^ 1024 \<le> nat \<bar>i\<bar>" by linarith
  then show ?thesis
    by (simp add: to_double_def r Let_def)
qed

lemma round53_pow53: "round53 9007199254740992 = 9007199254740992"
  by (simp add: round53_def bit_length.simps Let_def)

text \<open>Up to \<open>2^53\<close> inclusive the conversion is exact.\<close>

lemma to_double_exact: "0 \<le> i \<Longrightarrow> i \<le> 2 ^ 53 \<Longrightarrow> to_double i = Fin i"
proof (cases "i = 2 ^ 53")
  case True
  assume "0 \<le> i"
  have "nat \<bar>i\<bar> = 2 ^ 53" using True by simp
  then show ?thesis
    using True by (simp add: to_double_def round53_pow53 Let_def)
next
  case False
  assume "0 \<le> i" "i \<le> 2 ^ 53"
  with False have "\<bar>i\<bar> < 2 ^ 53" by simp
  then show ?thesis by (rule to_double_small)
qed

lemma digit_inj:
  assumes "a < 10" "b < 10" "''0123456789'' ! a = ''0123456789'' ! b"
  shows "a = b"
proof -
  have a: "a \<in> {0,1,2,3,4,5,6,7,8,9}" using assms(1) by auto
  have b: "b \<in> {0,1,2,3,4,5,6,7,8,9}" using assms(2) by auto
  from a b assms(3) show ?thesis
    by (elim insertE emptyE) simp_all
qed

lemma digit_is_digit: "a < 10 \<Longrightarrow> ''0123456789'' ! a \<in> set ''0123456789''"
  by (rule nth_mem) simp

lemma string_of_nat_digits: "set (string_of_nat n) \<subseteq> set ''0123456789''"
proof (induction n rule: string_of_nat.induct)
  case (1 n)
  show ?case
  proof (cases "n < 10")
    case True
    then show ?thesis
      using digit_is_digit[of n] by (subst string_of_nat.simps) simp
  next
    case False
    have "n mod 10 < 10" by simp
    then show ?thesis
      using False "1.IH" digit_is_digit[of "n mod 10"]
      by (subst string_of_nat.simps) simp
  qed
qed

lemma string_of_nat_length:
  "length (string_of_nat n) = (if n < 10 then 1 else Suc (length (string_of_nat (n div 10))))"
  by (subst string_of_nat.simps) simp

lemma string_of_nat_inj: "string_of_nat a = string_of_nat b \<Longrightarrow> a = b"
proof (induction a arbitrary: b rule: string_of_nat.induct)
  case (1 a)
  show ?case
  proof (cases "a < 10")
    case True
    note a = True
    show ?thesis
    proof (cases "b < 10")
      case True
      then show ?thesis
        using a "1.prems" digit_inj[of a b]
        by (simp add: string_of_nat.simps[of a] string_of_nat.simps[of b])
    next
      case False
      have "length (string_of_nat a) = 1" using a by (simp add: string_of_nat_length)
      moreover have "length (string_of_nat b) \<ge> 2"
        using False string_of_nat_length[of b] string_of_nat_length[of "b div 10"]
        by (simp split: if_splits)
      ultimately show ?thesis using "1.prems" by simp
    qed
  next
    case False
    note a = False
    show ?thesis
    proof (cases "b < 10")
      case True
      have "length (string_of_nat b) = 1" using True by (simp add: string_of_nat_length)
      moreover have "length (string_of_nat a) \<ge> 2"
        using a string_of_nat_length[of a] string_of_nat_length[of "a div 10"]
        by (simp split: if_splits)
      ultimately show ?thesis using "1.prems" by simp
    next
      case False
      have eq: "string_of_nat (a div 10) @ [''0123456789'' ! (a mod 10)]
              = string_of_nat (b div 10) @ [''0123456789'' ! (b mod 10)]"
        using a False "1.prems"
        by (simp add: string_of_nat.simps[of a] string_of_nat.simps[of b])
      then have "string_of_nat (a div 10) = string_of_nat (b div 10)"
        and d: "''0123456789'' ! (a mod 10) = ''0123456789'' ! (b mod 10)"
        by simp_all
      then have "a div 10 = b div 10" using "1.IH"[OF a] by simp
      moreover have "a mod 10 = b mod 10"
        using digit_inj[OF _ _ d] by simp
      ultimately show ?thesis
        by (metis div_mult_mod_eq)
    qed
  qed
qed

lemma bit_length_lower: "0 < n \<Longrightarrow> 2 ^ (bit_length n - 1) \<le> n"
proof -
  assume pos: "0 < n"
  have "bit_length n \<noteq> 0"
    using pos by (simp add: bit_length.simps[of n])
  then have "\<not> bit_length n \<le> bit_length n - 1" by simp
  then have "\<not> n < 2 ^ (bit_length n - 1)" by (simp add: bit_length_le)
  then show ?thesis by simp
qed

lemma round53_large: "2 ^ 53 \<le> c \<Longrightarrow> 2 ^ 53 \<le> round53 c"
proof -
  assume c: "2 ^ 53 \<le> c"
  define b where "b = bit_length c"
  have b53: "\<not> b \<le> 53" using c by (simp add: b_def bit_length_le)
  define s where "s = b - 53"
  have s1: "1 \<le> s" using b53 by (simp add: s_def)
  have "0 < c" using c by (metis gr0I not_numeral_le_zero power_eq_0_iff zero_neq_numeral le_zero_eq)
  then have "2 ^ (b - 1) \<le> c" unfolding b_def by (rule bit_length_lower)
  moreover have "b - 1 = 52 + s" using b53 by (simp add: s_def)
  ultimately have "2 ^ 52 * 2 ^ s \<le> c" by (simp add: power_add)
  then have q: "2 ^ 52 \<le> c div 2 ^ s"
    by (simp add: less_eq_div_iff_mult_less_eq)
  have "(2::nat) ^ 53 = 2 ^ 52 * 2 ^ 1" by simp
  also have "\<dots> \<le> 2 ^ 52 * 2 ^ s"
    using s1 by (intro mult_le_mono2 power_increasing) simp_all
  also have "\<dots> \<le> (c div 2 ^ s) * 2 ^ s"
    using q by (rule mult_le_mono1)
  finally have base: "2 ^ 53 \<le> (c div 2 ^ s) * 2 ^ s" .
  have "(c div 2 ^ s) * 2 ^ s \<le> (c div 2 ^ s + 1) * 2 ^ s" by simp
  with base have up: "2 ^ 53 \<le> (c div 2 ^ s + 1) * 2 ^ s" by (rule order_trans)
  show ?thesis
    using b53 base up
    unfolding round53_def Let_def b_def[symmetric] s_def[symmetric]
    by (simp del: power_Suc)
qed

lemma round53_eq_small: "v < 2 ^ 53 \<Longrightarrow> round53 c = v \<Longrightarrow> c = v"
proof (cases "c < 2 ^ 53")
  case True
  assume "round53 c = v"
  then show ?thesis using round53_small[OF True] by simp
next
  case False
  assume v: "v < 2 ^ 53" and r: "round53 c = v"
  from False have "2 ^ 53 \<le> c" by simp
  then have "2 ^ 53 \<le> round53 c" by (rule round53_large)
  with v r show ?thesis by simp
qed

lemma shortest_candidate_cases:
  "shortest_candidate v z = v \<or> round53 (shortest_candidate v z) = v"
  by (induction z) (auto simp: Let_def)

lemma shortest_candidate_small: "v < 2 ^ 53 \<Longrightarrow> shortest_candidate v z = v"
  using shortest_candidate_cases[of v z] round53_eq_small by blast

lemma nat_toString_small: "v < 2 ^ 53 \<Longrightarrow> nat_toString v = string_of_nat v"
proof -
  assume v: "v < 2 ^ 53"
  have "(2::nat) ^ 53 < 10 ^ 21" by simp
  with v have "v < 10 ^ 21" by (rule less_trans)
  then show ?thesis
    by (simp add: nat_toString_def shortest_candidate_small[OF v])
qed

lemma shortest_candidate_large: "2 ^ 53 \<le> w \<Longrightarrow> 2 ^ 53 \<le> shortest_candidate w z"
proof -
  assume w: "2 ^ 53 \<le> w"
  show ?thesis
  proof (rule ccontr)
    assume "\<not> 2 ^ 53 \<le> shortest_candidate w z"
    then have small: "shortest_candidate w z < 2 ^ 53" by simp
    from shortest_candidate_cases[of w z] show False
    proof
      assume "shortest_candidate w z = w"
      with small w show False by simp
    next
      assume "round53 (shortest_candidate w z) = w"
      with round53_small[OF small] small w show False by simp
    qed
  qed
qed

lemma exponent_form_has_e: "CHR ''e'' \<in> set (exponent_form c)"
  by (simp add: exponent_form_def Let_def)

lemma e_not_digit: "CHR ''e'' \<notin> set (string_of_nat n)"
  using string_of_nat_digits[of n] by auto

lemma nat_toString_large: "2 ^ 53 \<le> w \<Longrightarrow> e < 2 ^ 53 \<Longrightarrow> nat_toString w \<noteq> string_of_nat e"
proof
  assume w: "2 ^ 53 \<le> w" and e: "e < 2 ^ 53" and eq: "nat_toString w = string_of_nat e"
  define c where "c = shortest_candidate w (length (string_of_nat w))"
  have c: "2 ^ 53 \<le> c" unfolding c_def using w by (rule shortest_candidate_large)
  show False
  proof (cases "c < 10 ^ 21")
    case True
    then have "string_of_nat c = string_of_nat e"
      using eq by (simp add: nat_toString_def c_def[symmetric])
    then have "c = e" by (rule string_of_nat_inj)
    with c e show False by simp
  next
    case False
    then have "exponent_form c = string_of_nat e"
      using eq by (simp add: nat_toString_def c_def[symmetric])
    then show False
      using exponent_form_has_e[of c] e_not_digit[of e] by simp
  qed
qed

text \<open>Rounding in the first binade above \<open>2^53\<close>, where the doubles are the even numbers.\<close>

lemma round53_54:
  assumes "2 ^ 53 \<le> c" "c < 2 ^ 54"
  shows "round53 c = (if odd c \<and> odd (c div 2) then c div 2 + 1 else c div 2) * 2"
proof -
  have b: "bit_length c = 54"
  proof -
    have "bit_length c \<le> 54" using assms(2) by (simp add: bit_length_le)
    moreover have "\<not> bit_length c \<le> 53" using assms(1) by (simp add: bit_length_le)
    ultimately show ?thesis by simp
  qed
  have m: "c mod 2 = 1 \<longleftrightarrow> odd c" by (simp add: odd_iff_mod_2_eq_one)
  have lt: "\<not> 1 < c mod 2" by simp
  show ?thesis
    unfolding round53_def Let_def b
    using m lt by simp
qed

lemma string_of_nat_0: "string_of_nat 0 = ''0''"
  by (simp add: string_of_nat.simps)

lemma Infinity_not_digits: "''Infinity'' \<noteq> string_of_nat e"
proof
  assume "''Infinity'' = string_of_nat e"
  then have "CHR ''I'' \<in> set (string_of_nat e)"
    by (metis list.set_intros(1))
  then show False using string_of_nat_digits[of e] by auto
qed

lemma lower_chars:
  "toLowerCase_char CHR ''0'' = CHR ''0''" "toLowerCase_char CHR ''x'' = CHR ''x''"
  "toLowerCase_char CHR ''b'' = CHR ''b''" "toLowerCase_char CHR ''B'' = CHR ''b''"
  by (simp_all add: toLowerCase_char_def)

section \<open>Properties of the ownership verifiers\<close>

text \<open>
  On Arbitrum and on Berachain, with a required collection configured and an answer of the
  holdings API in which the wallet owns no token of that collection, the result's details
  carry the collection's name.
\<close>

lemma secondary_verifiers_name_collection:
  assumes "truthy (cfg_requiredCollection cfg)"
    and "api wallet = Returns nftData"
    and "filter (\<lambda>n. toLowerCase (contract_address n)
            = toLowerCase (or_else (cfg_requiredCollection cfg) []))
           (case ownedNfts nftData of None \<Rightarrow> [] | Some l \<Rightarrow> l) = []"
  shows "\<exists>d. details (ArbitrumNFTVerifier_verifyNFTOwnership cfg api now wallet) = Some d
            \<and> collectionName d = Some ''Schizo Sybils (Gen 1)''"
    and "\<exists>d. details (BeraVerifier_verifyNFTOwnership cfg api now wallet) = Some d
            \<and> collectionName d = Some ''Super Schizos (Gen 2)''"
  using assms
  by (simp_all add: ArbitrumNFTVerifier_verifyNFTOwnership_def
        BeraVerifier_verifyNFTOwnership_def Let_def)

text \<open>
  C9. The claim asks every verifier, the primary one included, to name the required
  collection for a wallet that owns none of its tokens. The primary verifier does not: with
  a required collection configured and a wallet that owns nothing, the details of
  \<open>MonadNFTVerifier.verifyNFTOwnership\<close> hold the message and no collection name.
\<close>

theorem monad_zero_nfts_no_collection_name:
  "details (MonadNFTVerifier_verifyNFTOwnership
       \<lparr>cfg_requiredCollection = Some ''0x00000000000000000000000000000000000000aa'',
        minNftCount = 1\<rparr>
       (\<lambda>w. Returns \<lparr>ownedNfts = Some [], totalCount = Some 0\<rparr>)
       ''2025-01-01T00:00:00.000Z''
       ''0x00000000000000000000000000000000000000bb'')
   = Some (empty_details\<lparr>message := Some (OwnsFromCollectionNeed 0 1)\<rparr>)
   \<and> collectionName (empty_details\<lparr>message := Some (OwnsFromCollectionNeed 0 1)\<rparr>) = None"
  by (simp add: MonadNFTVerifier_verifyNFTOwnership_def truthy_def Let_def
        collectionMessage_def empty_details_def)

subsection \<open>The staking fallback\<close>

lemma direct_result_no_staked_count:
  "stakedNFTCount (MonadNFTVerifier_verifyNFTOwnership cfg api now wallet) = None"
  by (simp add: MonadNFTVerifier_verifyNFTOwnership_def Let_def initial_result_def
        error_result_def split: rpc.splits)

text \<open>
  The loop adds up, in floating point, the counts of the contracts that report staked
  tokens. As long as the sum of the reported counts is at most \<open>2^53\<close> nothing is
  rounded, and the total is that sum.
\<close>

lemma parseInt16_exact: "n \<le> 2 ^ 53 \<Longrightarrow> parseInt16 (Some n) = Fin (int n)"
proof -
  assume "n \<le> 2 ^ 53"
  then have "int n \<le> 2 ^ 53"
    by (metis of_nat_le_iff of_nat_numeral of_nat_power)
  then show ?thesis using to_double_exact[of "int n"] by (simp add: parseInt16_def)
qed

lemma staked_step:
  assumes "a + reportedCount node wallet c \<le> 2 ^ 53"
  shows "(if hasStakedNFTs (checkStakedNFTsDirectly node wallet c)
          then js_add (Fin (int a))
                 (case stakedCount (checkStakedNFTsDirectly node wallet c) of
                    None \<Rightarrow> NaN | Some k \<Rightarrow> k)
          else Fin (int a))
         = Fin (int (a + reportedCount node wallet c))"
proof -
  have n: "reportedCount node wallet c \<le> 2 ^ 53" using assms by simp
  have "int (a + reportedCount node wallet c) \<le> 2 ^ 53"
    using assms by (metis of_nat_le_iff of_nat_numeral of_nat_power)
  then have s: "to_double (int a + int (reportedCount node wallet c))
                  = Fin (int a + int (reportedCount node wallet c))"
    using to_double_exact[of "int a + int (reportedCount node wallet c)"] by simp
  show ?thesis
    using n s
    by (auto simp add: checkStakedNFTsDirectly_def reportedCount_def stakingFailed_def Let_def
          parseInt16_exact split: rpc.splits option.splits)
qed

lemma total_fold:
  "a + sum_list (map (reportedCount node wallet) cs) \<le> 2 ^ 53 \<Longrightarrow>
   foldl (\<lambda>total r. if hasStakedNFTs r
                        then js_add total (case stakedCount r of None \<Rightarrow> NaN | Some c \<Rightarrow> c)
                        else total)
       (Fin (int a)) (map (checkStakedNFTsDirectly node wallet) cs)
     = Fin (int (a + sum_list (map (reportedCount node wallet) cs)))"
proof (induction cs arbitrary: a)
  case Nil
  then show ?case by simp
next
  case (Cons c cs)
  have 1: "a + reportedCount node wallet c \<le> 2 ^ 53" using Cons.prems by simp
  have 2: "(a + reportedCount node wallet c) + sum_list (map (reportedCount node wallet) cs)
             \<le> 2 ^ 53"
    using Cons.prems by (simp add: add.assoc)
  show ?case
    using Cons.IH[OF 2] staked_step[OF 1] by (simp add: add.assoc)
qed

lemma totalStakedCount_sum:
  assumes "sum_list (map (reportedCount node wallet) cs) \<le> 2 ^ 53"
  shows "totalStakedCount (map (checkStakedNFTsDirectly node wallet) cs)
           = Fin (int (sum_list (map (reportedCount node wallet) cs)))"
  using total_fold[of 0 node wallet cs] assms by (simp add: totalStakedCount_def)

text \<open>
  C3, as the code has it. When the direct check fails and at least one staking contract is
  configured, let \<open>total\<close> be the sum, over the configured contracts, of the staked counts
  they report for the wallet, at most \<open>2^53\<close>. If \<open>total\<close> is greater than zero, the
  result is tagged \<open>staking_direct_query_multi\<close> and verified exactly when \<open>total\<close>
  reaches the minimum, and \<open>staking_insufficient_multi\<close> otherwise, and it carries
  \<open>total\<close>. If \<open>total\<close> is zero the result is tagged \<open>failed_both\<close> (or \<open>error\<close>, when the
  direct check had itself failed with an error), is not verified and carries no staked
  count.
\<close>

theorem staking_method_tag:
  assumes direct: "\<not> verified (MonadNFTVerifier_verifyNFTOwnership cfg api now wallet)"
    and configured: "getStakingContracts addr1 addr2 \<noteq> []"
    and bound: "sum_list (map (reportedCount node wallet) (getStakingContracts addr1 addr2))
                  \<le> 2 ^ 53"
  shows "(let total = sum_list (map (reportedCount node wallet)
                         (getStakingContracts addr1 addr2));
              r = verifyNFTOwnershipWithStaking cfg addr1 addr2 api node now wallet
          in if 0 < total then
               verificationMethod r =
                 Some (if minNftCount cfg \<le> int total
                       then ''staking_direct_query_multi'' else ''staking_insufficient_multi'')
               \<and> verified r = (minNftCount cfg \<le> int total)
               \<and> stakedNFTCount r = Some (Fin (int total))
             else
               verificationMethod r =
                 Some (if details (MonadNFTVerifier_verifyNFTOwnership cfg api now wallet) = None
                       then ''error'' else ''failed_both'')
               \<and> \<not> verified r
               \<and> stakedNFTCount r = None)"
proof -
  define S where "S = sum_list (map (reportedCount node wallet)
                         (getStakingContracts addr1 addr2))"
  have t: "totalStakedCount (map (checkStakedNFTsDirectly node wallet)
             (getStakingContracts addr1 addr2)) = Fin (int S)"
    unfolding S_def using bound by (rule totalStakedCount_sum)
  have "if 0 < S then
          verificationMethod (verifyNFTOwnershipWithStaking cfg addr1 addr2 api node now wallet) =
            Some (if minNftCount cfg \<le> int S
                  then ''staking_direct_query_multi'' else ''staking_insufficient_multi'')
          \<and> verified (verifyNFTOwnershipWithStaking cfg addr1 addr2 api node now wallet)
              = (minNftCount cfg \<le> int S)
          \<and> stakedNFTCount (verifyNFTOwnershipWithStaking cfg addr1 addr2 api node now wallet)
              = Some (Fin (int S))
        else
          verificationMethod (verifyNFTOwnershipWithStaking cfg addr1 addr2 api node now wallet) =
            Some (if details (MonadNFTVerifier_verifyNFTOwnership cfg api now wallet) = None
                  then ''error'' else ''failed_both'')
          \<and> \<not> verified (verifyNFTOwnershipWithStaking cfg addr1 addr2 api node now wallet)
          \<and> stakedNFTCount (verifyNFTOwnershipWithStaking cfg addr1 addr2 api node now wallet)
              = None"
    using direct configured
    by (auto simp: verifyNFTOwnershipWithStaking_def Let_def stakedResult_def t
             direct_result_no_staked_count split: option.splits)
  then show ?thesis
    unfolding Let_def S_def .
qed

lemma ex_direct:
  "MonadNFTVerifier_verifyNFTOwnership example_cfg
       (\<lambda>w. Returns \<lparr>ownedNfts = Some [], totalCount = Some 0\<rparr>) now w
   = (initial_result ''monad_testnet'' example_cfg \<lparr>ownedNfts = Some [], totalCount = Some 0\<rparr> now w)
       \<lparr>verified := False, details := Some (empty_details\<lparr>message := Some (WalletOwns 0 3)\<rparr>)\<rparr>"
  by (simp add: MonadNFTVerifier_verifyNFTOwnership_def example_cfg_def truthy_def Let_def)

lemma ex_direct_fails:
  "\<not> verified (MonadNFTVerifier_verifyNFTOwnership example_cfg
       (\<lambda>w. Returns \<lparr>ownedNfts = Some [], totalCount = Some 0\<rparr>) now w)"
  "details (MonadNFTVerifier_verifyNFTOwnership example_cfg
       (\<lambda>w. Returns \<lparr>ownedNfts = Some [], totalCount = Some 0\<rparr>) now w) \<noteq> None"
  by (simp_all add: ex_direct)

lemma ex_direct_large:
  "\<not> verified (MonadNFTVerifier_verifyNFTOwnership
       \<lparr>cfg_requiredCollection = None, minNftCount = 9007199254740994\<rparr>
       (\<lambda>w. Returns \<lparr>ownedNfts = Some [], totalCount = Some 0\<rparr>) now w)"
  by (simp add: MonadNFTVerifier_verifyNFTOwnership_def truthy_def Let_def)

lemma ex_min: "minNftCount example_cfg = 3"
  by (simp add: example_cfg_def)

lemma ex_contracts:
  "getStakingContracts (Some ''0x00000000000000000000000000000000000000c1'')
       (Some ''0x00000000000000000000000000000000000000c2'')
     = [''0x00000000000000000000000000000000000000c1'',
        ''0x00000000000000000000000000000000000000c2'']"
  by (simp add: getStakingContracts_def truthy_def or_else_def)

lemma ex_counts:
  "map (reportedCount (two_contract_node n1 n2) w)
       [''0x00000000000000000000000000000000000000c1'',
        ''0x00000000000000000000000000000000000000c2'']
     = [n1, n2]"
  by (simp add: reportedCount_def two_contract_node_def truthy_def)

lemma ex_total:
  assumes "n1 + n2 \<le> 2 ^ 53"
  shows "totalStakedCount
           [checkStakedNFTsDirectly (two_contract_node n1 n2) w
              ''0x00000000000000000000000000000000000000c1'',
            checkStakedNFTsDirectly (two_contract_node n1 n2) w
              ''0x00000000000000000000000000000000000000c2'']
         = Fin (int (n1 + n2))"
  using totalStakedCount_sum[of "two_contract_node n1 n2" w
          "[''0x00000000000000000000000000000000000000c1'',
            ''0x00000000000000000000000000000000000000c2'']"] assms
  unfolding ex_counts by simp

lemma parse_rounded: "parseInt16 (Some 9007199254740993) = Fin 9007199254740992"
  by (simp add: parseInt16_def to_double_def round53_54 Let_def)

lemma add_rounded:
  "to_double 9007199254740992 = Fin 9007199254740992"
  "to_double 9007199254740993 = Fin 9007199254740992"
  by (simp_all add: to_double_def round53_pow53 round53_54 Let_def)

lemma ex_total_large:
  "totalStakedCount
           [checkStakedNFTsDirectly (two_contract_node 9007199254740993 1) w
              ''0x00000000000000000000000000000000000000c1'',
            checkStakedNFTsDirectly (two_contract_node 9007199254740993 1) w
              ''0x00000000000000000000000000000000000000c2'']
         = Fin 9007199254740992"
  by (simp add: totalStakedCount_def checkStakedNFTsDirectly_def two_contract_node_def
        truthy_def parse_rounded add_rounded parseInt16_exact Let_def)

text \<open>
  The claim C3 as stated also covers a summed count of zero, where it asks for the tag
  \<open>staking_insufficient_multi\<close>, and counts of any size. With two staking contracts
  that both report a count of 0, a wallet that owns nothing and a minimum of 3, the tag is
  \<open>failed_both\<close>. And with reported counts of \<open>2^53 + 1\<close> and 1 against a minimum of
  \<open>2^53 + 2\<close>, their sum, the total computed in floating point is \<open>2^53\<close> and the tag is
  \<open>staking_insufficient_multi\<close>.
\<close>

theorem zero_staked_is_failed_both:
  "verificationMethod (verifyNFTOwnershipWithStaking example_cfg
       (Some ''0x00000000000000000000000000000000000000c1'')
       (Some ''0x00000000000000000000000000000000000000c2'')
       (\<lambda>w. Returns \<lparr>ownedNfts = Some [], totalCount = Some 0\<rparr>)
       (two_contract_node 0 0) ''t'' ''0x00000000000000000000000000000000000000bb'')
     = Some ''failed_both''
   \<and> sum_list (map (reportedCount (two_contract_node 0 0)
                      ''0x00000000000000000000000000000000000000bb'')
         (getStakingContracts (Some ''0x00000000000000000000000000000000000000c1'')
            (Some ''0x00000000000000000000000000000000000000c2''))) = 0
   \<and> verificationMethod (verifyNFTOwnershipWithStaking
       \<lparr>cfg_requiredCollection = None, minNftCount = 9007199254740994\<rparr>
       (Some ''0x00000000000000000000000000000000000000c1'')
       (Some ''0x00000000000000000000000000000000000000c2'')
       (\<lambda>w. Returns \<lparr>ownedNfts = Some [], totalCount = Some 0\<rparr>)
       (two_contract_node 9007199254740993 1) ''t''
       ''0x00000000000000000000000000000000000000bb'')
     = Some ''staking_insufficient_multi''
   \<and> sum_list (map (reportedCount (two_contract_node 9007199254740993 1)
                      ''0x00000000000000000000000000000000000000bb'')
         (getStakingContracts (Some ''0x00000000000000000000000000000000000000c1'')
            (Some ''0x00000000000000000000000000000000000000c2''))) = 9007199254740994"
proof -
  have z: "(0::nat) + 0 \<le> 2 ^ 53" by simp
  have 1: "verificationMethod (verifyNFTOwnershipWithStaking example_cfg
       (Some ''0x00000000000000000000000000000000000000c1'')
       (Some ''0x00000000000000000000000000000000000000c2'')
       (\<lambda>w. Returns \<lparr>ownedNfts = Some [], totalCount = Some 0\<rparr>)
       (two_contract_node 0 0) ''t'' ''0x00000000000000000000000000000000000000bb'')
     = Some ''failed_both''"
    using ex_direct_fails[of "''t''" "''0x00000000000000000000000000000000000000bb''"]
    by (auto simp add: verifyNFTOwnershipWithStaking_def ex_contracts ex_total[OF z] Let_def)
  have 2: "verificationMethod (verifyNFTOwnershipWithStaking
       \<lparr>cfg_requiredCollection = None, minNftCount = 9007199254740994\<rparr>
       (Some ''0x00000000000000000000000000000000000000c1'')
       (Some ''0x00000000000000000000000000000000000000c2'')
       (\<lambda>w. Returns \<lparr>ownedNfts = Some [], totalCount = Some 0\<rparr>)
       (two_contract_node 9007199254740993 1) ''t''
       ''0x00000000000000000000000000000000000000bb'')
     = Some ''staking_insufficient_multi''"
    using ex_direct_large[of "''t''" "''0x00000000000000000000000000000000000000bb''"]
    by (simp add: verifyNFTOwnershipWithStaking_def ex_contracts
          ex_total_large[unfolded One_nat_def] Let_def stakedResult_def)
  have 3: "sum_list (map (reportedCount (two_contract_node 0 0)
                      ''0x00000000000000000000000000000000000000bb'')
         (getStakingContracts (Some ''0x00000000000000000000000000000000000000c1'')
            (Some ''0x00000000000000000000000000000000000000c2''))) = 0"
    unfolding ex_contracts ex_counts by simp
  have 4: "sum_list (map (reportedCount (two_contract_node 9007199254740993 1)
                      ''0x00000000000000000000000000000000000000bb'')
         (getStakingContracts (Some ''0x00000000000000000000000000000000000000c1'')
            (Some ''0x00000000000000000000000000000000000000c2''))) = 9007199254740994"
    unfolding ex_contracts ex_counts by simp
  from 1 3 2 4 show ?thesis by (intro conjI)
qed

text \<open>
  The theorem at work with two contracts and a minimum of 3: counts of 1 and 2 verify
  through staking with a total of 3, which neither contract reaches alone; counts of 1
  and 1 are insufficient, with a total of 2.
\<close>

theorem staking_method_tag_witness:
  "verificationMethod (verifyNFTOwnershipWithStaking example_cfg
       (Some ''0x00000000000000000000000000000000000000c1'')
       (Some ''0x00000000000000000000000000000000000000c2'')
       (\<lambda>w. Returns \<lparr>ownedNfts = Some [], totalCount = Some 0\<rparr>)
       (two_contract_node 1 2) ''t'' ''0x00000000000000000000000000000000000000bb'')
     = Some ''staking_direct_query_multi''
   \<and> stakedNFTCount (verifyNFTOwnershipWithStaking example_cfg
       (Some ''0x00000000000000000000000000000000000000c1'')
       (Some ''0x00000000000000000000000000000000000000c2'')
       (\<lambda>w. Returns \<lparr>ownedNfts = Some [], totalCount = Some 0\<rparr>)
       (two_contract_node 1 2) ''t'' ''0x00000000000000000000000000000000000000bb'')
     = Some (Fin 3)
   \<and> verificationMethod (verifyNFTOwnershipWithStaking example_cfg
       (Some ''0x00000000000000000000000000000000000000c1'')
       (Some ''0x00000000000000000000000000000000000000c2'')
       (\<lambda>w. Returns \<lparr>ownedNfts = Some [], totalCount = Some 0\<rparr>)
       (two_contract_node 1 1) ''t'' ''0x00000000000000000000000000000000000000bb'')
     = Some ''staking_insufficient_multi''
   \<and> stakedNFTCount (verifyNFTOwnershipWithStaking example_cfg
       (Some ''0x00000000000000000000000000000000000000c1'')
       (Some ''0x00000000000000000000000000000000000000c2'')
       (\<lambda>w. Returns \<lparr>ownedNfts = Some [], totalCount = Some 0\<rparr>)
       (two_contract_node 1 1) ''t'' ''0x00000000000000000000000000000000000000bb'')
     = Some (Fin 2)"
proof -
  have c: "getStakingContracts (Some ''0x00000000000000000000000000000000000000c1'')
       (Some ''0x00000000000000000000000000000000000000c2'') \<noteq> []"
    by (simp add: ex_contracts)
  have b: "sum_list (map (reportedCount (two_contract_node n1 n2)
                      ''0x00000000000000000000000000000000000000bb'')
         (getStakingContracts (Some ''0x00000000000000000000000000000000000000c1'')
            (Some ''0x00000000000000000000000000000000000000c2''))) = n1 + n2" for n1 n2
    unfolding ex_contracts ex_counts by simp
  have b3: "sum_list (map (reportedCount (two_contract_node 1 2)
                      ''0x00000000000000000000000000000000000000bb'')
         (getStakingContracts (Some ''0x00000000000000000000000000000000000000c1'')
            (Some ''0x00000000000000000000000000000000000000c2''))) \<le> 2 ^ 53"
    unfolding b by simp
  have b2: "sum_list (map (reportedCount (two_contract_node 1 1)
                      ''0x00000000000000000000000000000000000000bb'')
         (getStakingContracts (Some ''0x00000000000000000000000000000000000000c1'')
            (Some ''0x00000000000000000000000000000000000000c2''))) \<le> 2 ^ 53"
    unfolding b by simp
  note three = staking_method_tag[OF ex_direct_fails(1) c b3, of "''t''", unfolded b Let_def]
  note two = staking_method_tag[OF ex_direct_fails(1) c b2, of "''t''", unfolded b Let_def]
  show ?thesis
    using three two by (simp add: ex_min)
qed


section \<open>Properties of the verification stores\<close>

lemma saveVerificationJSON_frame:
  assumes "jsonData db = Some data" "data uid = Some u"
  shows "\<exists>data' u'. jsonData (snd (saveVerificationJSON db clock uid uname wallet res net))
                = Some data'
            \<and> data' uid = Some u' \<and> createdAt u' = createdAt u \<and> ur_userId u' = ur_userId u
            \<and> (\<forall>n. n \<noteq> net \<longrightarrow> verifications u' n = verifications u n)
            \<and> (\<forall>other. other \<noteq> uid \<longrightarrow> data' other = data other)"
  using assms
  by (simp add: saveVerificationJSON_def VerificationDatabase_saveVerification_def Let_def)

lemma saveVerificationJSON_pool:
  "pool (snd (saveVerificationJSON db clock uid uname wallet res net)) = pool db"
  by (simp add: saveVerificationJSON_def split: option.splits)

text \<open>
  C10. For a stored user record \<open>u\<close>, \<open>VerificationDatabase.saveVerification\<close> stores
  exactly \<open>u\<close> with the entry of network \<open>net\<close> replaced and the fields \<open>username\<close> and
  \<open>lastUpdated\<close> overwritten, and leaves every other user alone. For
  \<open>PostgreSQLDatabase.saveVerification\<close>, whatever the mode and whichever query fails: the
  verification rows of the user's other networks and every row of other users are
  unchanged, an existing user row keeps its \<open>created_at\<close>, and an existing entry of
  \<open>jsonData\<close> keeps its \<open>createdAt\<close> and the entries of its other networks.
\<close>

theorem saveVerification_frame:
  assumes stored: "data uid = Some u"
  shows "snd (VerificationDatabase_saveVerification data clock uid uname wallet res net)
           = data(uid \<mapsto> u\<lparr>verifications := (verifications u)(net \<mapsto>
                  \<lparr>nv_walletAddress = wallet, verifiedAt = clock 1,
                   verificationResult = res, nv_network = net\<rparr>),
                ur_username := uname, lastUpdated := Some (clock 2)\<rparr>)
       \<and> (let db' = snd (PostgreSQLDatabase_saveVerification db q_ok db_now
                           clock uid uname wallet res net)
          in (\<forall>n. n \<noteq> net \<longrightarrow>
                 user_verifications (pool db') (uid, n) = user_verifications (pool db) (uid, n))
           \<and> (\<forall>other n. other \<noteq> uid \<longrightarrow>
                 user_verifications (pool db') (other, n)
                   = user_verifications (pool db) (other, n)
                 \<and> verified_users (pool db') other = verified_users (pool db) other)
           \<and> (\<forall>r. verified_users (pool db) uid = Some r \<longrightarrow>
                 (\<exists>r'. verified_users (pool db') uid = Some r' \<and> created_at r' = created_at r))
           \<and> (\<forall>jd ju. jsonData db = Some jd \<and> jd uid = Some ju \<longrightarrow>
                 (\<exists>jd' ju'. jsonData db' = Some jd'
                    \<and> jd' uid = Some ju' \<and> createdAt ju' = createdAt ju
                    \<and> (\<forall>n. n \<noteq> net \<longrightarrow> verifications ju' n = verifications ju n)
                    \<and> (\<forall>other. other \<noteq> uid \<longrightarrow> jd' other = jd other))))"
  unfolding Let_def
proof (intro conjI)
  show "snd (VerificationDatabase_saveVerification data clock uid uname wallet res net)
           = data(uid \<mapsto> u\<lparr>verifications := (verifications u)(net \<mapsto>
                  \<lparr>nv_walletAddress = wallet, verifiedAt = clock 1,
                   verificationResult = res, nv_network = net\<rparr>),
                ur_username := uname, lastUpdated := Some (clock 2)\<rparr>)"
    using stored by (simp add: VerificationDatabase_saveVerification_def Let_def)
  show "\<forall>n. n \<noteq> net \<longrightarrow>
           user_verifications (pool (snd (PostgreSQLDatabase_saveVerification db q_ok db_now
               clock uid uname wallet res net))) (uid, n)
           = user_verifications (pool db) (uid, n)"
    by (simp add: PostgreSQLDatabase_saveVerification_def Let_def saveVerificationJSON_pool)
  show "\<forall>other n. other \<noteq> uid \<longrightarrow>
           user_verifications (pool (snd (PostgreSQLDatabase_saveVerification db q_ok db_now
               clock uid uname wallet res net))) (other, n)
           = user_verifications (pool db) (other, n)
           \<and> verified_users (pool (snd (PostgreSQLDatabase_saveVerification db q_ok db_now
               clock uid uname wallet res net))) other
           = verified_users (pool db) other"
    by (simp add: PostgreSQLDatabase_saveVerification_def Let_def saveVerificationJSON_pool)
  show "\<forall>r. verified_users (pool db) uid = Some r \<longrightarrow>
           (\<exists>r'. verified_users (pool (snd (PostgreSQLDatabase_saveVerification db q_ok db_now
                     clock uid uname wallet res net))) uid = Some r'
                 \<and> created_at r' = created_at r)"
    by (simp add: PostgreSQLDatabase_saveVerification_def Let_def saveVerificationJSON_pool)
  show "\<forall>jd ju. jsonData db = Some jd \<and> jd uid = Some ju \<longrightarrow>
           (\<exists>jd' ju'. jsonData (snd (PostgreSQLDatabase_saveVerification db q_ok db_now
                     clock uid uname wallet res net)) = Some jd'
                 \<and> jd' uid = Some ju' \<and> createdAt ju' = createdAt ju
                 \<and> (\<forall>n. n \<noteq> net \<longrightarrow> verifications ju' n = verifications ju n)
                 \<and> (\<forall>other. other \<noteq> uid \<longrightarrow> jd' other = jd other))"
  proof (intro allI impI)
    fix jd ju
    assume a: "jsonData db = Some jd \<and> jd uid = Some ju"
    let ?db1 = "db\<lparr>pool := (pool db)\<lparr>verified_users := (verified_users (pool db))(uid \<mapsto>
                  (case verified_users (pool db) uid of
                     None \<Rightarrow> \<lparr>pg_username = uname, created_at = db_now 0,
                               last_updated = db_now 0\<rparr>
                   | Some r \<Rightarrow> r\<lparr>pg_username := uname, last_updated := db_now 0\<rparr>))\<rparr>\<rparr>"
    have j1: "jsonData ?db1 = Some jd" using a by simp
    let ?P = "\<lambda>d. \<exists>jd' ju'. jsonData d = Some jd'
                 \<and> jd' uid = Some ju' \<and> createdAt ju' = createdAt ju
                 \<and> (\<forall>n. n \<noteq> net \<longrightarrow> verifications ju' n = verifications ju n)
                 \<and> (\<forall>other. other \<noteq> uid \<longrightarrow> jd' other = jd other)"
    have f0: "?P (snd (saveVerificationJSON db clock uid uname wallet res net))"
      using saveVerificationJSON_frame[OF conjunct1[OF a] conjunct2[OF a],
              of clock uname wallet res net]
      by blast
    have f1: "?P (snd (saveVerificationJSON ?db1 clock uid uname wallet res net))"
      using saveVerificationJSON_frame[OF j1 conjunct2[OF a], of clock uname wallet res net]
      by blast
    consider (json) "useJSON db \<or> \<not> q_ok 0"
      | (second) "\<not> useJSON db" "q_ok 0" "\<not> q_ok 1"
      | (sql) "\<not> useJSON db" "q_ok 0" "q_ok 1"
      by blast
    then show "?P (snd (PostgreSQLDatabase_saveVerification db q_ok db_now
                     clock uid uname wallet res net))"
    proof cases
      case json
      then show ?thesis
        using f0 by (auto simp: PostgreSQLDatabase_saveVerification_def)
    next
      case second
      then show ?thesis
        using f1 by (simp add: PostgreSQLDatabase_saveVerification_def Let_def)
    next
      case sql
      then show ?thesis
        using a by (simp add: PostgreSQLDatabase_saveVerification_def Let_def)
    qed
  qed
qed

text \<open>
  The theorem at work: the stored user \<open>alice\<close>, verified on the primary network, saves a
  verification for \<open>arbitrum\<close> under a new name. In the JSON store and in the tables her
  primary entry and her creation time stay as they were.
\<close>

theorem saveVerification_frame_witness:
  "(let data' = snd (VerificationDatabase_saveVerification [''42'' \<mapsto> example_user]
                       (\<lambda>k. ''2025-02-02T00:00:00.000Z'') ''42'' ''alice2''
                       ''0x00000000000000000000000000000000000000bb''
                       (example_result ''arbitrum'') ''arbitrum'');
        db' = snd (PostgreSQLDatabase_saveVerification example_pg (\<lambda>k. True)
                       (\<lambda>k. ''2025-02-02 00:00:00'') (\<lambda>k. ''2025-02-02T00:00:00.000Z'')
                       ''42'' ''alice2'' ''0x00000000000000000000000000000000000000bb''
                       (example_result ''arbitrum'') ''arbitrum'')
    in map_option createdAt (data' ''42'') = Some ''2025-01-01T00:00:00.000Z''
     \<and> map_option ur_username (data' ''42'') = Some ''alice2''
     \<and> map_option (\<lambda>r. verifications r ''monad_testnet'') (data' ''42'')
         = Some (verifications example_user ''monad_testnet'')
     \<and> user_verifications (pool db') (''42'', ''monad_testnet'')
         = user_verifications (pool example_pg) (''42'', ''monad_testnet'')
     \<and> map_option created_at (verified_users (pool db') ''42'') = Some ''2025-01-01 00:00:00'')"
proof -
  have stored: "[''42'' \<mapsto> example_user] ''42'' = Some example_user"
    by simp
  have row: "verified_users (pool example_pg) ''42''
      = Some \<lparr>pg_username = ''alice'', created_at = ''2025-01-01 00:00:00'',
               last_updated = ''2025-01-01 00:00:00''\<rparr>"
    by (simp add: example_pg_def)
  from saveVerification_frame[where data = "[''42'' \<mapsto> example_user]" and uid = "''42''"
      and u = example_user and clock = "(\<lambda>k. ''2025-02-02T00:00:00.000Z'')"
      and uname = "''alice2''" and wallet = "''0x00000000000000000000000000000000000000bb''"
      and res = "example_result ''arbitrum''" and net = "''arbitrum''" and db = example_pg
      and q_ok = "(\<lambda>k. True)" and db_now = "(\<lambda>k. ''2025-02-02 00:00:00'')", OF stored]
  show ?thesis
    unfolding Let_def
    using row
    by (auto simp: example_user_def)
qed

section \<open>Properties of the transaction scanner\<close>

text \<open>
  Started at a block number up to \<open>2^53\<close>, the loop visits the blocks from \<open>n\<close> down to
  \<open>s\<close> and returns the first outcome that is not \<open>NotFound\<close>.
\<close>

lemma scanBlocks_window:
  assumes "0 \<le> s" "n \<le> 2 ^ 53"
  shows "scanBlocks g f t a (Fin n) (Fin s)
           = Some (first_outcome (map (\<lambda>b. scanBlock g f t a (Fin b)) (rev [s..n])))"
  using assms
proof (induction "nat (n + 1 - s)" arbitrary: n)
  case 0
  then have "n < s" by simp
  then show ?case
    by (subst scanBlocks.simps) simp
next
  case (Suc k)
  then have le: "s \<le> n" and k: "k = nat (n - 1 + 1 - s)" by simp_all
  have n0: "0 \<le> n" using le Suc.prems by simp
  have ih: "scanBlocks g f t a (Fin (n - 1)) (Fin s)
           = Some (first_outcome (map (\<lambda>b. scanBlock g f t a (Fin b)) (rev [s..n - 1])))"
    using Suc.hyps(1)[OF k] Suc.prems by simp
  have up: "rev [s..n] = n # rev [s..n - 1]"
    using le by (simp add: upto_rec2)
  have "\<bar>n - 1\<bar> < 2 ^ 53" using n0 Suc.prems(2) by simp
  then have dec: "to_double (n - 1) = Fin (n - 1)" by (rule to_double_small)
  show ?case
    by (subst scanBlocks.simps)
       (simp add: le up ih dec split: scan_outcome.splits)
qed

lemma scanOutcome_window:
  assumes head: "eth_blockNumber node = Returns (Some h)" and bound: "h \<le> 2 ^ 53"
  shows "scanOutcome node f t a
           = Some (first_outcome (map (\<lambda>b. scanBlock (eth_getBlockByNumber node) f t a (Fin b))
                                    (rev [max 0 (int h - 1000)..int h])))"
proof -
  have b: "int h \<le> 2 ^ 53" using bound
    by (metis of_nat_le_iff of_nat_numeral of_nat_power)
  have latest: "parseInt16 (Some h) = Fin (int h)"
    using to_double_exact[OF _ b] by (simp add: parseInt16_def)
  have "\<bar>int h - 1000\<bar> < 2 ^ 53" using b by simp
  then have sub: "to_double (int h - 1000) = Fin (int h - 1000)" by (rule to_double_small)
  have start: "js_max (Fin 0) (to_double (int h - 1000)) = Fin (max 0 (int h - 1000))"
    by (simp add: sub max_def)
  show ?thesis
    using scanBlocks_window[of "max 0 (int h - 1000)" "int h", OF _ b]
    by (simp add: scanOutcome_def head latest start Let_def)
qed

lemma matchTx_defined:
  "matchTx (Some f) (Some t) (Some a) x = Inr (matchTx (Some f) (Some t) (Some a) x = Inr True)"
  by (simp add: matchTx_def)

lemma scanTxs_defined:
  "scanTxs (Some f) (Some t) (Some a) txs
     = (if list_ex (\<lambda>x. matchTx (Some f) (Some t) (Some a) x = Inr True) txs then Found else NotFound)"
proof (induction txs)
  case Nil
  then show ?case by simp
next
  case (Cons x xs)
  show ?case
    using Cons.IH matchTx_defined[of f t a x]
    by (cases "matchTx (Some f) (Some t) (Some a) x = Inr True") (auto split: sum.splits bool.splits)
qed

lemma scanBlock_clean:
  assumes "eth_getBlockByNumber node (Fin b) = Returns blk"
  shows "scanBlock (eth_getBlockByNumber node) (Some f) (Some t) (Some a) (Fin b)
           = (if blockHasMatch node f t a b then Found else NotFound)"
  using assms
  by (simp add: scanBlock_def blockHasMatch_def scanTxs_defined split: option.splits)

lemma first_outcome_clean:
  assumes "\<forall>x\<in>set xs. x = Found \<or> x = NotFound"
  shows "first_outcome xs = (if Found \<in> set xs then Found else NotFound)"
  using assms by (induction xs) auto

lemma scanBlocks_clean:
  assumes "0 \<le> s" "n \<le> 2 ^ 53"
    and clean: "\<forall>b\<in>{s..n}. \<exists>blk. eth_getBlockByNumber node (Fin b) = Returns blk"
  shows "scanBlocks (eth_getBlockByNumber node) (Some f) (Some t) (Some a) (Fin n) (Fin s)
           = Some (if \<exists>b\<in>{s..n}. blockHasMatch node f t a b then Found else NotFound)"
proof -
  let ?out = "map (\<lambda>b. scanBlock (eth_getBlockByNumber node) (Some f) (Some t) (Some a) (Fin b))
                (rev [s..n])"
  have each: "\<And>b. b \<in> {s..n} \<Longrightarrow>
      scanBlock (eth_getBlockByNumber node) (Some f) (Some t) (Some a) (Fin b)
        = (if blockHasMatch node f t a b then Found else NotFound)"
    using clean scanBlock_clean by blast
  have fo: "first_outcome ?out = (if Found \<in> set ?out then Found else NotFound)"
    by (rule first_outcome_clean) (auto simp: each)
  have mem: "Found \<in> set ?out \<longleftrightarrow> (\<exists>b\<in>{s..n}. blockHasMatch node f t a b)"
    by (auto simp: each image_iff split: if_splits)
  show ?thesis
    unfolding scanBlocks_window[OF assms(1,2)] fo
    using mem by simp
qed

text \<open>
  With a head up to \<open>2^53\<close> and no failing call, the scan confirms exactly when one of the
  blocks \<open>head - 1000\<close>, ..., \<open>head\<close> (from block 0 on) holds a transfer that passes its test.
\<close>

lemma check_window:
  assumes head: "eth_blockNumber node = Returns (Some h)" and bound: "h \<le> 2 ^ 53"
    and clean: "\<forall>b\<in>{max 0 (int h - 1000)..int h}.
                  \<exists>blk. eth_getBlockByNumber node (Fin b) = Returns blk"
  shows "checkVerificationTransaction node (Some f) (Some t) (Some a)
           = Some (\<exists>b\<in>{max 0 (int h - 1000)..int h}. blockHasMatch node f t a b)"
proof -
  let ?W = "rev [max 0 (int h - 1000)..int h]"
  let ?out = "map (\<lambda>b. scanBlock (eth_getBlockByNumber node) (Some f) (Some t) (Some a) (Fin b)) ?W"
  have each: "\<And>b. b \<in> {max 0 (int h - 1000)..int h} \<Longrightarrow>
      scanBlock (eth_getBlockByNumber node) (Some f) (Some t) (Some a) (Fin b)
        = (if blockHasMatch node f t a b then Found else NotFound)"
    using clean scanBlock_clean by blast
  have fo: "first_outcome ?out = (if Found \<in> set ?out then Found else NotFound)"
    by (rule first_outcome_clean) (auto simp: each)
  have mem: "Found \<in> set ?out \<longleftrightarrow> (\<exists>b\<in>{max 0 (int h - 1000)..int h}. blockHasMatch node f t a b)"
    by (auto simp: each image_iff split: if_splits)
  show ?thesis
    unfolding checkVerificationTransaction_def scanOutcome_window[OF head bound] fo
    using mem by simp
qed

subsection \<open>The comparison of values\<close>

lemma txValue_exact:
  assumes e: "e < 2 ^ 53"
  shows "txValue x = string_of_nat e \<longleftrightarrow> tx_amount x = e"
proof (cases "tx_value x")
  case None
  then show ?thesis
    using string_of_nat_inj[of 0 e] by (auto simp: txValue_def tx_amount_def string_of_nat_0)
next
  case (Some v)
  show ?thesis
  proof (cases "v < 2 ^ 53")
    case True
    then have "\<bar>int v\<bar> < 2 ^ 53" by simp
    then have "to_double (int v) = Fin (int v)" by (rule to_double_small)
    then have "txValue x = string_of_nat v"
      using Some True by (simp add: txValue_def parseInt16_def nat_toString_small)
    then show ?thesis
      using Some string_of_nat_inj[of v e] by (auto simp: tx_amount_def)
  next
    case False
    then have big: "2 ^ 53 \<le> round53 v"
      by (intro round53_large) simp
    have ne: "v \<noteq> e" using False e by auto
    have "txValue x \<noteq> string_of_nat e"
    proof (cases "2 ^ 1024 \<le> round53 v")
      case True
      then have "txValue x = ''Infinity''"
        using Some False by (simp add: txValue_def parseInt16_def to_double_def Let_def)
      then show ?thesis using Infinity_not_digits by simp
    next
      case False
      then have "txValue x = nat_toString (round53 v)"
        using Some by (simp add: txValue_def parseInt16_def to_double_def Let_def)
      then show ?thesis using nat_toString_large[OF big e] by simp
    qed
    then show ?thesis using Some ne by (simp add: tx_amount_def)
  qed
qed

lemma matchTx_exact:
  assumes "e < 2 ^ 53"
  shows "matchTx (Some f) (Some t) (Some (string_of_nat e)) x = Inr True \<longleftrightarrow> exactTransfer f t e x"
  using txValue_exact[OF assms, of x]
  by (auto simp: matchTx_def exactTransfer_def)

lemma blockHasMatch_exact:
  assumes "e < 2 ^ 53"
  shows "blockHasMatch node f t (string_of_nat e) b = blockHasExact node f t e b"
  by (simp add: blockHasMatch_def blockHasExact_def matchTx_exact[OF assms]
           split: rpc.splits option.splits)

text \<open>
  The scan ends at the first block, counted down from the head, that holds a match or
  whose fetch fails. With a head up to \<open>2^53\<close> it therefore confirms exactly when a block
  of the window holds a match and every block above it was fetched.
\<close>

lemma first_outcome_found:
  "first_outcome (map g (rev [s..n])) = Found
     \<longleftrightarrow> (\<exists>b\<in>{s..n}. g b = Found \<and> (\<forall>c\<in>{b + 1..n}. \<forall>e. g c \<noteq> Raised e))"
proof (induction "nat (n + 1 - s)" arbitrary: n)
  case 0
  then have "n < s" by simp
  then show ?case by simp
next
  case (Suc k)
  then have le: "s \<le> n" and k: "k = nat (n - 1 + 1 - s)" by simp_all
  have up: "rev [s..n] = n # rev [s..n - 1]"
    using le by (simp add: upto_rec2)
  note ih = Suc.hyps(1)[OF k]
  show ?case
  proof (cases "g n")
    case Found
    then have "\<exists>b\<in>{s..n}. g b = Found \<and> (\<forall>c\<in>{b + 1..n}. \<forall>e. g c \<noteq> Raised e)"
      using le by (intro bexI[of _ n]) simp_all
    with Found show ?thesis by (simp add: up)
  next
    case (Raised e)
    have "\<not> (\<exists>b\<in>{s..n}. g b = Found \<and> (\<forall>c\<in>{b + 1..n}. \<forall>e. g c \<noteq> Raised e))"
    proof
      assume "\<exists>b\<in>{s..n}. g b = Found \<and> (\<forall>c\<in>{b + 1..n}. \<forall>e. g c \<noteq> Raised e)"
      then obtain b where b: "b \<in> {s..n}" "g b = Found" "\<forall>c\<in>{b + 1..n}. \<forall>e. g c \<noteq> Raised e"
        by blast
      show False
      proof (cases "b = n")
        case True
        with b(2) Raised show False by simp
      next
        case False
        with b(1) have "n \<in> {b + 1..n}" by simp
        with b(3) Raised show False by blast
      qed
    qed
    with Raised show ?thesis by (simp add: up)
  next
    case NotFound
    have "(\<exists>b\<in>{s..n}. g b = Found \<and> (\<forall>c\<in>{b + 1..n}. \<forall>e. g c \<noteq> Raised e))
       \<longleftrightarrow> (\<exists>b\<in>{s..n - 1}. g b = Found \<and> (\<forall>c\<in>{b + 1..n - 1}. \<forall>e. g c \<noteq> Raised e))"
    proof
      assume "\<exists>b\<in>{s..n}. g b = Found \<and> (\<forall>c\<in>{b + 1..n}. \<forall>e. g c \<noteq> Raised e)"
      then obtain b where b: "b \<in> {s..n}" "g b = Found" "\<forall>c\<in>{b + 1..n}. \<forall>e. g c \<noteq> Raised e"
        by blast
      have "b \<noteq> n" using b(2) NotFound by auto
      with b(1) have "b \<in> {s..n - 1}" by simp
      moreover have "\<forall>c\<in>{b + 1..n - 1}. \<forall>e. g c \<noteq> Raised e" using b(3) by simp
      ultimately show "\<exists>b\<in>{s..n - 1}. g b = Found \<and> (\<forall>c\<in>{b + 1..n - 1}. \<forall>e. g c \<noteq> Raised e)"
        using b(2) by blast
    next
      assume "\<exists>b\<in>{s..n - 1}. g b = Found \<and> (\<forall>c\<in>{b + 1..n - 1}. \<forall>e. g c \<noteq> Raised e)"
      then obtain b where b: "b \<in> {s..n - 1}" "g b = Found"
        "\<forall>c\<in>{b + 1..n - 1}. \<forall>e. g c \<noteq> Raised e" by blast
      have "\<forall>c\<in>{b + 1..n}. \<forall>e. g c \<noteq> Raised e"
      proof (intro ballI allI)
        fix c e assume "c \<in> {b + 1..n}"
        then consider "c = n" | "c \<in> {b + 1..n - 1}" by fastforce
        then show "g c \<noteq> Raised e" using NotFound b(3) by cases auto
      qed
      moreover have "b \<in> {s..n}" using b(1) by simp
      ultimately show "\<exists>b\<in>{s..n}. g b = Found \<and> (\<forall>c\<in>{b + 1..n}. \<forall>e. g c \<noteq> Raised e)"
        using b(2) by blast
    qed
    with NotFound ih show ?thesis by (simp add: up)
  qed
qed

lemma scanBlock_outcome:
  "scanBlock (eth_getBlockByNumber node) (Some f) (Some t) (Some a) (Fin b) = Found
     \<longleftrightarrow> blockHasMatch node f t a b"
  "scanBlock (eth_getBlockByNumber node) (Some f) (Some t) (Some a) (Fin b) = Raised e
     \<longleftrightarrow> eth_getBlockByNumber node (Fin b) = Throws e"
  by (auto simp add: scanBlock_def blockHasMatch_def scanTxs_defined
        split: rpc.splits option.splits)

lemma fetched_iff:
  "(\<forall>e. eth_getBlockByNumber node (Fin c) \<noteq> Throws e)
     \<longleftrightarrow> (\<exists>blk. eth_getBlockByNumber node (Fin c) = Returns blk)"
  by (cases "eth_getBlockByNumber node (Fin c)") simp_all

lemma check_window_exact:
  assumes head: "eth_blockNumber node = Returns (Some h)" and bound: "h \<le> 2 ^ 53"
  shows "checkVerificationTransaction node (Some f) (Some t) (Some a)
           = Some (\<exists>b\<in>{max 0 (int h - 1000)..int h}. blockHasMatch node f t a b
                     \<and> (\<forall>c\<in>{b + 1..int h}. \<exists>blk. eth_getBlockByNumber node (Fin c) = Returns blk))"
proof -
  let ?g = "\<lambda>b. scanBlock (eth_getBlockByNumber node) (Some f) (Some t) (Some a) (Fin b)"
  have "first_outcome (map ?g (rev [max 0 (int h - 1000)..int h])) = Found
     \<longleftrightarrow> (\<exists>b\<in>{max 0 (int h - 1000)..int h}. blockHasMatch node f t a b
                     \<and> (\<forall>c\<in>{b + 1..int h}. \<exists>blk. eth_getBlockByNumber node (Fin c) = Returns blk))"
    unfolding first_outcome_found scanBlock_outcome fetched_iff ..
  then show ?thesis
    unfolding checkVerificationTransaction_def scanOutcome_window[OF head bound]
    by (cases "first_outcome (map ?g (rev [max 0 (int h - 1000)..int h]))") simp_all
qed

lemma check_no_head:
  assumes "\<forall>h. eth_blockNumber node \<noteq> Returns (Some h)"
  shows "checkVerificationTransaction node f t a = Some False"
proof (cases "eth_blockNumber node")
  case (Throws e)
  then show ?thesis by (simp add: checkVerificationTransaction_def scanOutcome_def)
next
  case (Returns r)
  with assms have "r = None" by (cases r) auto
  with Returns show ?thesis
    by (simp add: checkVerificationTransaction_def scanOutcome_def parseInt16_def Let_def
          scanBlocks.simps[of _ _ _ _ NaN])
qed


lemma example_clean:
  "\<forall>b\<in>W. \<exists>blk. eth_getBlockByNumber (example_chain h c v) (Fin b) = Returns blk"
  by (simp add: example_chain_def)

lemma example_head: "eth_blockNumber (example_chain h c v) = Returns (Some h)"
  by (simp add: example_chain_def)

lemma example_exact:
  "blockHasExact (example_chain h c v) ''0x00000000000000000000000000000000000000BB''
       ''0x00000000000000000000000000000000000000b0'' e b
     \<longleftrightarrow> b = c \<and> v = e"
  by (simp add: blockHasExact_def example_chain_def example_tx_def exactTransfer_def
        truthy_def or_else_def tx_amount_def toLowerCase_def lower_chars)

lemma example_match:
  "txValue (example_tx v) = a \<Longrightarrow>
   blockHasMatch (example_chain h c v) ''0x00000000000000000000000000000000000000BB''
       ''0x00000000000000000000000000000000000000b0'' a b
     \<longleftrightarrow> b = c"
  by (simp add: blockHasMatch_def example_chain_def example_tx_def matchTx_def
        truthy_def or_else_def toLowerCase_def lower_chars)

lemma example_value: "txValue (example_tx 73400000000) = ''73400000000''"
  using txValue_exact[of 73400000000 "example_tx 73400000000"]
  by (simp add: tx_amount_def example_tx_def string_of_nat.simps)

lemma example_value_more: "txValue (example_tx 73400000001) = ''73400000001''"
  using txValue_exact[of 73400000001 "example_tx 73400000001"]
  by (simp add: tx_amount_def example_tx_def string_of_nat.simps)

lemma lossy_value:
  "txValue (example_tx 9007199254740993) = ''9007199254740992''"
  by (simp add: txValue_def example_tx_def parseInt16_def to_double_def nat_toString_def
        round53_small round53_54 string_of_nat.simps Let_def)

lemma head_rounded: "parseInt16 (Some 9007199254740993) = Fin 9007199254740992"
  by (simp add: parseInt16_def to_double_def round53_54 Let_def)

lemma failing_head: "eth_blockNumber failing_chain = Returns (Some 5000)"
  by (simp add: failing_chain_def)

lemma failing_exact:
  "blockHasExact failing_chain ''0x00000000000000000000000000000000000000BB''
       ''0x00000000000000000000000000000000000000b0'' e b
     \<longleftrightarrow> b = 4000 \<and> e = 73400000000"
  by (simp add: blockHasExact_def failing_chain_def example_tx_def exactTransfer_def
        truthy_def or_else_def tx_amount_def toLowerCase_def lower_chars)

lemma failing_match:
  "blockHasMatch failing_chain ''0x00000000000000000000000000000000000000BB''
       ''0x00000000000000000000000000000000000000b0'' ''73400000000'' b
     \<longleftrightarrow> b = 4000"
  using example_value
  by (simp add: blockHasMatch_def failing_chain_def example_tx_def matchTx_def
        truthy_def or_else_def toLowerCase_def lower_chars)

lemma two_clean:
  "\<forall>b\<in>W. \<exists>blk. eth_getBlockByNumber (two_transfer_chain h c v c' v') (Fin b) = Returns blk"
  by (simp add: two_transfer_chain_def)

lemma two_head: "eth_blockNumber (two_transfer_chain h c v c' v') = Returns (Some h)"
  by (simp add: two_transfer_chain_def)

lemma two_exact:
  "blockHasExact (two_transfer_chain h c v c' v') ''0x00000000000000000000000000000000000000BB''
       ''0x00000000000000000000000000000000000000b0'' e b
     \<longleftrightarrow> (b = c \<and> v = e) \<or> (b \<noteq> c \<and> b = c' \<and> v' = e)"
  by (simp add: blockHasExact_def two_transfer_chain_def example_tx_def exactTransfer_def
        truthy_def or_else_def tx_amount_def toLowerCase_def lower_chars)

text \<open>
  C1, as the code has it. The value of a transaction is read by \<open>parseInt\<close> into a double
  and printed again before it is compared, so the comparison is exact only below \<open>2^53\<close>.
  For a challenge amount \<open>e\<close> below \<open>2^53\<close> base units (every generated challenge is below
  \<open>10^11\<close>) and a head up to \<open>2^53\<close>, whether calls fail or not: the scan confirms exactly
  when a block of the window holds a transfer from \<open>f\<close> to \<open>t\<close> of exactly \<open>e\<close> base units
  and every block above it was fetched. So it returns false whenever the window holds no
  transfer of exactly \<open>e\<close>, whatever else it holds, a transfer of \<open>e + 1\<close> or \<open>e - 1\<close>
  included. Without a head (the call fails or has no result) it returns false as well.
\<close>

theorem exact_amount_in_safe_range:
  assumes safe: "e < 2 ^ 53"
  shows "(\<forall>h. eth_blockNumber node = Returns (Some h) \<and> h \<le> 2 ^ 53 \<longrightarrow>
            checkVerificationTransaction node (Some f) (Some t) (Some (string_of_nat e))
              = Some (\<exists>b\<in>{max 0 (int h - 1000)..int h}. blockHasExact node f t e b
                        \<and> (\<forall>c\<in>{b + 1..int h}.
                              \<exists>blk. eth_getBlockByNumber node (Fin c) = Returns blk))
            \<and> ((\<forall>b\<in>{max 0 (int h - 1000)..int h}. \<not> blockHasExact node f t e b)
                 \<longrightarrow> checkVerificationTransaction node (Some f) (Some t)
                       (Some (string_of_nat e)) = Some False))
       \<and> ((\<forall>h. eth_blockNumber node \<noteq> Returns (Some h))
            \<longrightarrow> checkVerificationTransaction node (Some f) (Some t) (Some (string_of_nat e))
                  = Some False)"
proof (intro conjI allI impI)
  fix h assume a: "eth_blockNumber node = Returns (Some h) \<and> h \<le> 2 ^ 53"
  then have head: "eth_blockNumber node = Returns (Some h)" and bound: "h \<le> 2 ^ 53"
    by simp_all
  show w: "checkVerificationTransaction node (Some f) (Some t) (Some (string_of_nat e))
              = Some (\<exists>b\<in>{max 0 (int h - 1000)..int h}. blockHasExact node f t e b
                        \<and> (\<forall>c\<in>{b + 1..int h}.
                              \<exists>blk. eth_getBlockByNumber node (Fin c) = Returns blk))"
    using check_window_exact[OF head bound, of f t "string_of_nat e"]
    by (simp add: blockHasMatch_exact[OF safe])
  assume "\<forall>b\<in>{max 0 (int h - 1000)..int h}. \<not> blockHasExact node f t e b"
  then show "checkVerificationTransaction node (Some f) (Some t) (Some (string_of_nat e))
               = Some False"
    unfolding w by simp
next
  assume "\<forall>h. eth_blockNumber node \<noteq> Returns (Some h)"
  then show "checkVerificationTransaction node (Some f) (Some t) (Some (string_of_nat e))
               = Some False"
    by (rule check_no_head)
qed

text \<open>
  The theorem at work, on the amount of the spec's example scenario: a transfer of one
  base unit more is not confirmed, the exact transfer is; and a transfer of one base unit
  less is not confirmed on a chain where the fetch of a block fails.
\<close>

theorem exact_amount_in_safe_range_witness:
  "checkVerificationTransaction (example_chain 5000 4000 73400000001)
       (Some ''0x00000000000000000000000000000000000000BB'')
       (Some ''0x00000000000000000000000000000000000000b0'') (Some (string_of_nat 73400000000))
     = Some False
   \<and> checkVerificationTransaction (example_chain 5000 4000 73400000000)
       (Some ''0x00000000000000000000000000000000000000BB'')
       (Some ''0x00000000000000000000000000000000000000b0'') (Some (string_of_nat 73400000000))
     = Some True
   \<and> checkVerificationTransaction failing_chain
       (Some ''0x00000000000000000000000000000000000000BB'')
       (Some ''0x00000000000000000000000000000000000000b0'') (Some (string_of_nat 73400000001))
     = Some False
   \<and> string_of_nat 73400000000 = ''73400000000''"
proof -
  have s: "(73400000000::nat) < 2 ^ 53" by simp
  have s': "(73400000001::nat) < 2 ^ 53" by simp
  have b: "(5000::nat) \<le> 2 ^ 53" by simp
  note more = exact_amount_in_safe_range[OF s, of "example_chain 5000 4000 73400000001"
               "''0x00000000000000000000000000000000000000BB''"
               "''0x00000000000000000000000000000000000000b0''",
               THEN conjunct1, rule_format, of 5000, OF conjI[OF example_head b]]
  note same = exact_amount_in_safe_range[OF s, of "example_chain 5000 4000 73400000000"
               "''0x00000000000000000000000000000000000000BB''"
               "''0x00000000000000000000000000000000000000b0''",
               THEN conjunct1, rule_format, of 5000, OF conjI[OF example_head b]]
  note less = exact_amount_in_safe_range[OF s', of failing_chain
               "''0x00000000000000000000000000000000000000BB''"
               "''0x00000000000000000000000000000000000000b0''",
               THEN conjunct1, rule_format, of 5000, OF conjI[OF failing_head b]]
  have 1: "checkVerificationTransaction (example_chain 5000 4000 73400000001)
       (Some ''0x00000000000000000000000000000000000000BB'')
       (Some ''0x00000000000000000000000000000000000000b0'') (Some (string_of_nat 73400000000))
     = Some False"
    by (rule more[THEN conjunct2, rule_format]) (simp add: example_exact)
  have "\<exists>b\<in>{max 0 (int 5000 - 1000)..int 5000}.
          blockHasExact (example_chain 5000 4000 73400000000)
            ''0x00000000000000000000000000000000000000BB''
            ''0x00000000000000000000000000000000000000b0'' 73400000000 b
          \<and> (\<forall>c\<in>{b + 1..int 5000}.
                \<exists>blk. eth_getBlockByNumber (example_chain 5000 4000 73400000000) (Fin c)
                        = Returns blk)"
    by (intro bexI[of _ 4000] conjI example_clean) (simp_all add: example_exact)
  then have 2: "checkVerificationTransaction (example_chain 5000 4000 73400000000)
       (Some ''0x00000000000000000000000000000000000000BB'')
       (Some ''0x00000000000000000000000000000000000000b0'') (Some (string_of_nat 73400000000))
     = Some True"
    unfolding same[THEN conjunct1] by simp
  have 3: "checkVerificationTransaction failing_chain
       (Some ''0x00000000000000000000000000000000000000BB'')
       (Some ''0x00000000000000000000000000000000000000b0'') (Some (string_of_nat 73400000001))
     = Some False"
    by (rule less[THEN conjunct2, rule_format]) (simp add: failing_exact)
  have 4: "string_of_nat 73400000000 = ''73400000000''"
    by (simp add: string_of_nat.simps)
  from 1 2 3 4 show ?thesis by (intro conjI)
qed

text \<open>
  The claim C1 as stated covers values of any magnitude and every head. A transfer of
  \<open>2^53 + 1\<close> base units confirms the challenge amount \<open>2^53\<close>, one base unit less, although
  no transfer has that value. And with the head at \<open>2^53 + 1\<close>, which \<open>parseInt\<close> reads as
  \<open>2^53\<close>, the window from \<open>head - 1000\<close> to \<open>head\<close> holds a transfer of one base unit more
  than the challenge and none of the exact amount, and the scan confirms: it reaches the
  exact transfer in block \<open>head - 1001\<close>.
\<close>

theorem lossy_value_confirms:
  "checkVerificationTransaction (example_chain 5000 4000 9007199254740993)
       (Some ''0x00000000000000000000000000000000000000BB'')
       (Some ''0x00000000000000000000000000000000000000b0'') (Some ''9007199254740992'')
     = Some True
   \<and> tx_amount (example_tx 9007199254740993) = 9007199254740992 + 1
   \<and> checkVerificationTransaction
       (two_transfer_chain 9007199254740993 (9007199254740993 - 1000) 73400000001
          (9007199254740993 - 1001) 73400000000)
       (Some ''0x00000000000000000000000000000000000000BB'')
       (Some ''0x00000000000000000000000000000000000000b0'') (Some ''73400000000'')
     = Some True
   \<and> blockHasExact
       (two_transfer_chain 9007199254740993 (9007199254740993 - 1000) 73400000001
          (9007199254740993 - 1001) 73400000000)
       ''0x00000000000000000000000000000000000000BB''
       ''0x00000000000000000000000000000000000000b0'' (73400000000 + 1)
       (9007199254740993 - 1000)
   \<and> \<not> (\<exists>b. 9007199254740993 - 1000 \<le> b \<and> b \<le> 9007199254740993
          \<and> blockHasExact
              (two_transfer_chain 9007199254740993 (9007199254740993 - 1000) 73400000001
                 (9007199254740993 - 1001) 73400000000)
              ''0x00000000000000000000000000000000000000BB''
              ''0x00000000000000000000000000000000000000b0'' 73400000000 b)"
proof -
  let ?node = "two_transfer_chain 9007199254740993 9007199254739993 73400000001
          9007199254739992 73400000000"
  have n: "two_transfer_chain 9007199254740993 (9007199254740993 - 1000) 73400000001
          (9007199254740993 - 1001) 73400000000 = ?node"
    by simp
  have b: "(5000::nat) \<le> 2 ^ 53" by simp
  have 1: "checkVerificationTransaction (example_chain 5000 4000 9007199254740993)
       (Some ''0x00000000000000000000000000000000000000BB'')
       (Some ''0x00000000000000000000000000000000000000b0'') (Some ''9007199254740992'')
     = Some True
   \<and> tx_amount (example_tx 9007199254740993) = 9007199254740992 + 1"
    using check_window[OF example_head b example_clean,
            of 4000 9007199254740993 "''0x00000000000000000000000000000000000000BB''"
               "''0x00000000000000000000000000000000000000b0''" "''9007199254740992''"]
    by (simp add: example_match[OF lossy_value] tx_amount_def example_tx_def)
  have s: "to_double 9007199254739992 = Fin 9007199254739992"
    using to_double_small[of 9007199254739992] by simp
  have e: "(73400000000::nat) < 2 ^ 53" by simp
  have str: "string_of_nat 73400000000 = ''73400000000''"
    by (simp add: string_of_nat.simps)
  have m: "blockHasMatch ?node ''0x00000000000000000000000000000000000000BB''
             ''0x00000000000000000000000000000000000000b0'' ''73400000000'' c
           \<longleftrightarrow> c = 9007199254739992" for c
    using blockHasMatch_exact[OF e, of ?node "''0x00000000000000000000000000000000000000BB''"
            "''0x00000000000000000000000000000000000000b0''" c]
    unfolding str by (auto simp add: two_exact)
  have "scanBlocks (eth_getBlockByNumber ?node)
          (Some ''0x00000000000000000000000000000000000000BB'')
          (Some ''0x00000000000000000000000000000000000000b0'') (Some ''73400000000'')
          (Fin 9007199254740992) (Fin 9007199254739992)
        = Some (if \<exists>b\<in>{9007199254739992..9007199254740992}.
                     blockHasMatch ?node ''0x00000000000000000000000000000000000000BB''
                       ''0x00000000000000000000000000000000000000b0'' ''73400000000'' b
                then Found else NotFound)"
    by (rule scanBlocks_clean[OF _ _ two_clean]) simp_all
  then have 2: "checkVerificationTransaction ?node
       (Some ''0x00000000000000000000000000000000000000BB'')
       (Some ''0x00000000000000000000000000000000000000b0'') (Some ''73400000000'')
     = Some True"
    by (simp add: checkVerificationTransaction_def scanOutcome_def two_head head_rounded
          s Let_def m)
  have 3: "blockHasExact ?node ''0x00000000000000000000000000000000000000BB''
       ''0x00000000000000000000000000000000000000b0'' 73400000001 9007199254739993"
    by (simp add: two_exact)
  have 4: "\<not> (\<exists>b. 9007199254739993 \<le> b \<and> b \<le> 9007199254740993
          \<and> blockHasExact ?node ''0x00000000000000000000000000000000000000BB''
              ''0x00000000000000000000000000000000000000b0'' 73400000000 b)"
    by (simp add: two_exact)
  show ?thesis
    unfolding n using 1 2 3 4 by simp
qed

subsection \<open>The window\<close>

text \<open>
  C2, as the code has it. The head's height is read by \<open>parseInt\<close> into a double, so the
  statement holds for heads up to \<open>2^53\<close>. For such a head the scan confirms exactly when
  one of the blocks from \<open>head - 1000\<close> (from 0, if that is negative) to \<open>head\<close> holds a
  matching transfer and every block above it was fetched: the scan ends with false at
  the first fetch that fails. In particular a matching transfer in block \<open>head - 1000\<close>
  confirms when the blocks above it are fetched, and when the only matching transfers
  are in block \<open>head - 1001\<close> the scan returns false, whether calls fail or not.
\<close>

theorem scan_window_boundary:
  assumes head: "eth_blockNumber node = Returns (Some h)" and bound: "h \<le> 2 ^ 53"
  shows "checkVerificationTransaction node (Some f) (Some t) (Some a)
           = Some (\<exists>b\<in>{max 0 (int h - 1000)..int h}. blockHasMatch node f t a b
                     \<and> (\<forall>c\<in>{b + 1..int h}.
                           \<exists>blk. eth_getBlockByNumber node (Fin c) = Returns blk))
       \<and> (1000 \<le> h \<and> blockHasMatch node f t a (int h - 1000)
            \<and> (\<forall>c\<in>{int h - 1000 + 1..int h}.
                  \<exists>blk. eth_getBlockByNumber node (Fin c) = Returns blk)
            \<longrightarrow> checkVerificationTransaction node (Some f) (Some t) (Some a) = Some True)
       \<and> ((\<forall>b. blockHasMatch node f t a b \<longrightarrow> b = int h - 1001)
            \<longrightarrow> checkVerificationTransaction node (Some f) (Some t) (Some a) = Some False)"
proof (intro conjI impI)
  show w: "checkVerificationTransaction node (Some f) (Some t) (Some a)
           = Some (\<exists>b\<in>{max 0 (int h - 1000)..int h}. blockHasMatch node f t a b
                     \<and> (\<forall>c\<in>{b + 1..int h}.
                           \<exists>blk. eth_getBlockByNumber node (Fin c) = Returns blk))"
    by (rule check_window_exact[OF head bound])
  {
    assume a: "1000 \<le> h \<and> blockHasMatch node f t a (int h - 1000)
            \<and> (\<forall>c\<in>{int h - 1000 + 1..int h}.
                  \<exists>blk. eth_getBlockByNumber node (Fin c) = Returns blk)"
    then have "int h - 1000 \<in> {max 0 (int h - 1000)..int h}" by auto
    with a show "checkVerificationTransaction node (Some f) (Some t) (Some a) = Some True"
      unfolding w by blast
  }
  {
    assume only: "\<forall>b. blockHasMatch node f t a b \<longrightarrow> b = int h - 1001"
    have "\<not> (\<exists>b\<in>{max 0 (int h - 1000)..int h}. blockHasMatch node f t a b
                     \<and> (\<forall>c\<in>{b + 1..int h}.
                           \<exists>blk. eth_getBlockByNumber node (Fin c) = Returns blk))"
    proof
      assume "\<exists>b\<in>{max 0 (int h - 1000)..int h}. blockHasMatch node f t a b
                     \<and> (\<forall>c\<in>{b + 1..int h}.
                           \<exists>blk. eth_getBlockByNumber node (Fin c) = Returns blk)"
      then obtain b where "b \<in> {max 0 (int h - 1000)..int h}" "blockHasMatch node f t a b"
        by blast
      with only show False by auto
    qed
    then show "checkVerificationTransaction node (Some f) (Some t) (Some a) = Some False"
      unfolding w by simp
  }
qed

text \<open>
  The theorem at work with the head at block 5000: a transfer in block 4000 confirms, the
  same transfer in block 3999 does not.
\<close>

theorem scan_window_boundary_witness:
  "checkVerificationTransaction (example_chain 5000 4000 73400000000)
       (Some ''0x00000000000000000000000000000000000000BB'')
       (Some ''0x00000000000000000000000000000000000000b0'') (Some ''73400000000'')
     = Some True
   \<and> checkVerificationTransaction (example_chain 5000 3999 73400000000)
       (Some ''0x00000000000000000000000000000000000000BB'')
       (Some ''0x00000000000000000000000000000000000000b0'') (Some ''73400000000'')
     = Some False"
proof -
  have b: "(5000::nat) \<le> 2 ^ 53" by simp
  note inside = scan_window_boundary[OF example_head b,
            of 4000 73400000000 "''0x00000000000000000000000000000000000000BB''"
               "''0x00000000000000000000000000000000000000b0''" "''73400000000''"]
  note outside = scan_window_boundary[OF example_head b,
            of 3999 73400000000 "''0x00000000000000000000000000000000000000BB''"
               "''0x00000000000000000000000000000000000000b0''" "''73400000000''"]
  have 1: "checkVerificationTransaction (example_chain 5000 4000 73400000000)
       (Some ''0x00000000000000000000000000000000000000BB'')
       (Some ''0x00000000000000000000000000000000000000b0'') (Some ''73400000000'')
     = Some True"
    by (rule inside[THEN conjunct2, THEN conjunct1, rule_format])
       (intro conjI example_clean, simp_all add: example_match[OF example_value])
  have 2: "checkVerificationTransaction (example_chain 5000 3999 73400000000)
       (Some ''0x00000000000000000000000000000000000000BB'')
       (Some ''0x00000000000000000000000000000000000000b0'') (Some ''73400000000'')
     = Some False"
    by (rule outside[THEN conjunct2, THEN conjunct2, rule_format])
       (simp add: example_match[OF example_value])
  from 1 2 show ?thesis by (intro conjI)
qed

text \<open>
  The claim C2 as stated covers every head height and every scan. With the head at
  \<open>2^53 + 1\<close> the scan starts at \<open>2^53\<close>, the double that \<open>parseInt\<close> returns, and confirms
  a transfer found only in block \<open>head - 1001\<close>. And with the head at block 5000 and a
  matching transfer in block 4000, the scan returns false when the fetch of block 4990
  fails.
\<close>

theorem head_beyond_2_53_scans_block_1001:
  "checkVerificationTransaction
       (example_chain 9007199254740993 (9007199254740993 - 1001) 73400000000)
       (Some ''0x00000000000000000000000000000000000000BB'')
       (Some ''0x00000000000000000000000000000000000000b0'') (Some ''73400000000'')
     = Some True
   \<and> eth_blockNumber failing_chain = Returns (Some 5000)
   \<and> blockHasMatch failing_chain ''0x00000000000000000000000000000000000000BB''
       ''0x00000000000000000000000000000000000000b0'' ''73400000000'' (5000 - 1000)
   \<and> checkVerificationTransaction failing_chain
       (Some ''0x00000000000000000000000000000000000000BB'')
       (Some ''0x00000000000000000000000000000000000000b0'') (Some ''73400000000'')
     = Some False"
proof -
  let ?node = "example_chain 9007199254740993 (9007199254740993 - 1001) 73400000000"
  have s: "to_double 9007199254739992 = Fin 9007199254739992"
    using to_double_small[of 9007199254739992] by simp
  have "scanBlocks (eth_getBlockByNumber ?node)
          (Some ''0x00000000000000000000000000000000000000BB'')
          (Some ''0x00000000000000000000000000000000000000b0'') (Some ''73400000000'')
          (Fin 9007199254740992) (Fin 9007199254739992)
        = Some (if \<exists>b\<in>{9007199254739992..9007199254740992}.
                     blockHasMatch ?node ''0x00000000000000000000000000000000000000BB''
                       ''0x00000000000000000000000000000000000000b0'' ''73400000000'' b
                then Found else NotFound)"
    by (rule scanBlocks_clean[OF _ _ example_clean]) simp_all
  then have 1: "checkVerificationTransaction ?node
       (Some ''0x00000000000000000000000000000000000000BB'')
       (Some ''0x00000000000000000000000000000000000000b0'') (Some ''73400000000'')
     = Some True"
    by (simp add: checkVerificationTransaction_def scanOutcome_def example_head head_rounded
          s Let_def example_match[OF example_value])
  have b: "(5000::nat) \<le> 2 ^ 53" by simp
  have "\<not> (\<exists>b\<in>{max 0 (int 5000 - 1000)..int 5000}.
             blockHasMatch failing_chain ''0x00000000000000000000000000000000000000BB''
               ''0x00000000000000000000000000000000000000b0'' ''73400000000'' b
             \<and> (\<forall>c\<in>{b + 1..int 5000}.
                   \<exists>blk. eth_getBlockByNumber failing_chain (Fin c) = Returns blk))"
  proof
    assume "\<exists>b\<in>{max 0 (int 5000 - 1000)..int 5000}.
             blockHasMatch failing_chain ''0x00000000000000000000000000000000000000BB''
               ''0x00000000000000000000000000000000000000b0'' ''73400000000'' b
             \<and> (\<forall>c\<in>{b + 1..int 5000}.
                   \<exists>blk. eth_getBlockByNumber failing_chain (Fin c) = Returns blk)"
    then have "\<forall>c\<in>{4000 + 1..int 5000}.
                 \<exists>blk. eth_getBlockByNumber failing_chain (Fin c) = Returns blk"
      by (auto simp add: failing_match)
    then have "\<exists>blk. eth_getBlockByNumber failing_chain (Fin 4990) = Returns blk"
      by simp
    then show False by (simp add: failing_chain_def)
  qed
  then have 3: "checkVerificationTransaction failing_chain
       (Some ''0x00000000000000000000000000000000000000BB'')
       (Some ''0x00000000000000000000000000000000000000b0'') (Some ''73400000000'')
     = Some False"
    unfolding check_window_exact[OF failing_head b] by simp
  have 2: "blockHasMatch failing_chain ''0x00000000000000000000000000000000000000BB''
       ''0x00000000000000000000000000000000000000b0'' ''73400000000'' (5000 - 1000)"
    by (simp add: failing_match)
  from 1 failing_head 2 3 show ?thesis by (intro conjI)
qed

subsection \<open>Errors\<close>

lemma first_outcome_skip:
  assumes "\<forall>x\<in>set xs. x = NotFound"
  shows "first_outcome (xs @ ys) = first_outcome ys"
  using assms by (induction xs) auto

lemma first_outcome_raised:
  assumes "s \<le> b" "b \<le> n" "g b = Raised e" "\<forall>c\<in>{b + 1..n}. g c = NotFound"
  shows "first_outcome (map g (rev [s..n])) = Raised e"
proof -
  have "[s..n] = [s..b - 1] @ b # [b + 1..n]"
    using assms(1,2) by (rule upto_split3)
  then have "map g (rev [s..n]) = map g (rev [b + 1..n]) @ (g b # map g (rev [s..b - 1]))"
    by simp
  moreover have "\<forall>x\<in>set (map g (rev [b + 1..n])). x = NotFound"
    using assms(4) by auto
  ultimately show ?thesis
    using assms(3) by (simp add: first_outcome_skip)
qed

text \<open>
  C7. Whatever is thrown inside the \<open>try\<close> block, the scan returns false: when the call
  for the head's height throws, when the body of the scan raises an error at all, and in
  particular (for a head up to \<open>2^53\<close>) when the scan reaches a block \<open>b\<close> of the window
  whose fetch or whose test of a transaction throws, the blocks above \<open>b\<close> having nothing
  to report. The result is the same \<open>false\<close> as that of a scan that found nothing.
\<close>

theorem scan_error_returns_false:
  "(eth_blockNumber node = Throws e
      \<longrightarrow> checkVerificationTransaction node f t a = Some False)
   \<and> (scanOutcome node f t a = Some (Raised e)
      \<longrightarrow> checkVerificationTransaction node f t a = Some False)
   \<and> (eth_blockNumber node = Returns (Some h) \<and> h \<le> 2 ^ 53
        \<and> max 0 (int h - 1000) \<le> b \<and> b \<le> int h
        \<and> scanBlock (eth_getBlockByNumber node) f t a (Fin b) = Raised e
        \<and> (\<forall>c\<in>{b + 1..int h}. scanBlock (eth_getBlockByNumber node) f t a (Fin c) = NotFound)
      \<longrightarrow> scanOutcome node f t a = Some (Raised e)
          \<and> checkVerificationTransaction node f t a = Some False)"
proof (intro conjI impI)
  assume "eth_blockNumber node = Throws e"
  then show "checkVerificationTransaction node f t a = Some False"
    by (simp add: checkVerificationTransaction_def scanOutcome_def)
next
  assume "scanOutcome node f t a = Some (Raised e)"
  then show "checkVerificationTransaction node f t a = Some False"
    by (simp add: checkVerificationTransaction_def)
next
  assume a: "eth_blockNumber node = Returns (Some h) \<and> h \<le> 2 ^ 53
        \<and> max 0 (int h - 1000) \<le> b \<and> b \<le> int h
        \<and> scanBlock (eth_getBlockByNumber node) f t a (Fin b) = Raised e
        \<and> (\<forall>c\<in>{b + 1..int h}. scanBlock (eth_getBlockByNumber node) f t a (Fin c) = NotFound)"
  then have head: "eth_blockNumber node = Returns (Some h)" and bound: "h \<le> 2 ^ 53" by simp_all
  have r: "first_outcome (map (\<lambda>b. scanBlock (eth_getBlockByNumber node) f t a (Fin b))
                            (rev [max 0 (int h - 1000)..int h])) = Raised e"
    using a by (intro first_outcome_raised[where b = b]) simp_all
  show o: "scanOutcome node f t a = Some (Raised e)"
    unfolding scanOutcome_window[OF head bound] r by simp
  show "checkVerificationTransaction node f t a = Some False"
    by (simp add: checkVerificationTransaction_def o)
qed

text \<open>
  The theorem at work: the fetch of block 4990 times out before the scan reaches the
  matching transfer in block 4000; and the call for the head's height fails.
\<close>

theorem scan_error_returns_false_witness:
  "scanOutcome failing_chain (Some ''0x00000000000000000000000000000000000000BB'')
       (Some ''0x00000000000000000000000000000000000000b0'') (Some ''73400000000'')
     = Some (Raised ''timeout of 10000ms exceeded'')
   \<and> checkVerificationTransaction failing_chain
       (Some ''0x00000000000000000000000000000000000000BB'')
       (Some ''0x00000000000000000000000000000000000000b0'') (Some ''73400000000'')
     = Some False
   \<and> checkVerificationTransaction (failing_chain\<lparr>eth_blockNumber := Throws ''ECONNRESET''\<rparr>)
       (Some ''0x00000000000000000000000000000000000000BB'')
       (Some ''0x00000000000000000000000000000000000000b0'') (Some ''73400000000'')
     = Some False"
proof -
  have h: "eth_blockNumber failing_chain = Returns (Some 5000)"
    by (simp add: failing_chain_def)
  have t: "eth_blockNumber (failing_chain\<lparr>eth_blockNumber := Throws ''ECONNRESET''\<rparr>)
             = Throws ''ECONNRESET''"
    by simp
  have r: "scanBlock (eth_getBlockByNumber failing_chain)
             (Some ''0x00000000000000000000000000000000000000BB'')
             (Some ''0x00000000000000000000000000000000000000b0'') (Some ''73400000000'') (Fin 4990)
           = Raised ''timeout of 10000ms exceeded''"
    by (simp add: scanBlock_def failing_chain_def)
  have n: "\<forall>c\<in>{4990 + 1..int 5000}. scanBlock (eth_getBlockByNumber failing_chain)
             (Some ''0x00000000000000000000000000000000000000BB'')
             (Some ''0x00000000000000000000000000000000000000b0'') (Some ''73400000000'') (Fin c)
           = NotFound"
    by (simp add: scanBlock_def failing_chain_def)
  show ?thesis
    using scan_error_returns_false[of failing_chain "''timeout of 10000ms exceeded''"
            "Some ''0x00000000000000000000000000000000000000BB''"
            "Some ''0x00000000000000000000000000000000000000b0''" "Some ''73400000000''" 5000 4990]
          scan_error_returns_false[of "failing_chain\<lparr>eth_blockNumber := Throws ''ECONNRESET''\<rparr>"
            "''ECONNRESET''"
            "Some ''0x00000000000000000000000000000000000000BB''"
            "Some ''0x00000000000000000000000000000000000000b0''" "Some ''73400000000''" 0 0]
          h t r n
    by simp
qed

section \<open>Properties of the challenge amounts\<close>

lemma bit_length_num: "bit_length n = (if n = 0 then 0 else 1 + bit_length (n div 2))"
  by (subst bit_length.simps) simp

lemma literal_min: "round_ratio 1 (10 ^ 8) = \<lparr>mant = 6044629098073146, expo = - 79\<rparr>"
  by (simp add: round_ratio_def scaled_num_def scaled_den_def bit_length_num Let_def)

lemma literal_max: "round_ratio 1 (10 ^ 7) = \<lparr>mant = 7555786372591432, expo = - 76\<rparr>"
  by (simp add: round_ratio_def scaled_num_def scaled_den_def bit_length_num Let_def)

lemma literal_056: "round_ratio 56 1000 = \<lparr>mant = 8070450532247929, expo = - 57\<rparr>"
  by (simp add: round_ratio_def scaled_num_def scaled_den_def bit_length_num Let_def)

lemma amount_150: "round_ratio 150 (10 ^ 10) = \<lparr>mant = 4533471823554859, expo = - 78\<rparr>"
  by (simp add: round_ratio_def scaled_num_def scaled_den_def bit_length_num Let_def)

lemma amount_101: "round_ratio 101 (10 ^ 10) = \<lparr>mant = 6105075389053877, expo = - 79\<rparr>"
  by (simp add: round_ratio_def scaled_num_def scaled_den_def bit_length_num Let_def)

lemma draw_sub:
  "fl_sub \<lparr>mant = 7555786372591432, expo = - 76\<rparr> \<lparr>mant = 6044629098073146, expo = - 79\<rparr>
     = \<lparr>mant = 54401661882658312, expo = - 79\<rparr>"
  by (simp add: fl_sub_def round53_def bit_length_num Let_def)

lemma draw_mul:
  "fl_mul \<lparr>mant = 8070450532247929, expo = - 57\<rparr> \<lparr>mant = 54401661882658312, expo = - 79\<rparr>
     = \<lparr>mant = 439045921096071640179273646473216, expo = - 136\<rparr>"
  by (simp add: fl_mul_def round53_def bit_length_num Let_def)

lemma draw_add:
  "fl_add \<lparr>mant = 6044629098073146, expo = - 79\<rparr>
       \<lparr>mant = 439045921096071640179273646473216, expo = - 136\<rparr>
     = \<lparr>mant = 1310168780413674196929227694014464, expo = - 136\<rparr>"
  by (simp add: fl_add_def round53_def bit_length_num Let_def)

lemma draw_fixed: "toFixed10 \<lparr>mant = 1310168780413674196929227694014464, expo = - 136\<rparr> = 150"
  by (simp add: toFixed10_def)

lemma draw_056:
  "generateVerificationAmount (round_ratio 56 1000) = round_ratio 150 (10 ^ 10)"
  unfolding generateVerificationAmount_def Let_def literal_min literal_max literal_056
    draw_sub draw_mul draw_add draw_fixed
  by (rule refl)

lemma product_150:
  "fl_mul \<lparr>mant = 4533471823554859, expo = - 78\<rparr> \<lparr>mant = 10 ^ 18, expo = 0\<rparr>
     = \<lparr>mant = 4533471823554858828687407696576512, expo = - 78\<rparr>"
  by (simp add: fl_mul_def round53_def bit_length_num Let_def)

lemma floor_150:
  "floor_double \<lparr>mant = 4533471823554858828687407696576512, expo = - 78\<rparr> = 14999999999"
  by (simp add: floor_double_def)

lemma product_101:
  "fl_mul \<lparr>mant = 6105075389053877, expo = - 79\<rparr> \<lparr>mant = 10 ^ 18, expo = 0\<rparr>
     = \<lparr>mant = 6105075389053877332266188800000000, expo = - 79\<rparr>"
  by (simp add: fl_mul_def round53_def bit_length_num Let_def)

lemma floor_101:
  "floor_double \<lparr>mant = 6105075389053877332266188800000000, expo = - 79\<rparr> = 10100000000"
  by (simp add: floor_double_def)

lemma print_wei:
  "number_toString (Fin (int 14999999999)) = ''14999999999''"
  "number_toString (Fin (int 10100000000)) = ''10100000000''"
  by (simp_all add: nat_toString_small string_of_nat.simps)

lemma wei_150: "ethToWei (round_ratio 150 (10 ^ 10)) = ''14999999999''"
  unfolding ethToWei_def amount_150 product_150 floor_150 by (rule print_wei)

text \<open>The generator never returns zero: its result is at least the minimum amount.\<close>

lemma round53_ge_half: "c \<le> 2 * round53 c"
proof (cases "bit_length c \<le> 53")
  case True
  then show ?thesis by (simp add: round53_def)
next
  case False
  define s where "s = bit_length c - 53"
  define q where "q = c div 2 ^ s"
  have pos: "0 < c" using False by (cases "c = 0") (simp_all add: bit_length.simps[of 0])
  have "2 ^ (bit_length c - 1) \<le> c" using pos by (rule bit_length_lower)
  moreover have "bit_length c - 1 = 52 + s" using False by (simp add: s_def)
  ultimately have "2 ^ 52 * 2 ^ s \<le> c" by (simp add: power_add)
  then have "2 ^ 52 \<le> q" by (simp add: q_def less_eq_div_iff_mult_less_eq)
  then have q1: "1 \<le> q" by simp
  have "c = q * 2 ^ s + c mod 2 ^ s" unfolding q_def by (rule div_mult_mod_eq[symmetric])
  moreover have "c mod 2 ^ s < 2 ^ s" by simp
  moreover have "(2::nat) ^ s \<le> q * 2 ^ s" using q1 by simp
  ultimately have c: "c \<le> 2 * (q * 2 ^ s)" by linarith
  have "q * 2 ^ s \<le> (q + 1) * 2 ^ s" by simp
  with c have c': "c \<le> 2 * ((q + 1) * 2 ^ s)" by linarith
  show ?thesis
    using False c c'
    unfolding round53_def Let_def s_def[symmetric] q_def[symmetric]
    by (simp del: power_Suc)
qed

lemma toFixed10_positive:
  assumes e: "expo x < 0" and m: "2 ^ nat (- expo x) \<le> 2 * mant x * 10 ^ 10"
  shows "0 < toFixed10 x"
proof -
  have "2 * 2 ^ nat (- expo x) \<le> 2 * mant x * 10 ^ 10 + 2 ^ nat (- expo x)" using m by simp
  then have "1 \<le> (2 * mant x * 10 ^ 10 + 2 ^ nat (- expo x)) div (2 * 2 ^ nat (- expo x))"
    by (simp add: less_eq_div_iff_mult_less_eq del: power_Suc)
  then show ?thesis using e by (simp add: toFixed10_def)
qed

lemma fl_add_min_bound:
  assumes "x = fl_add \<lparr>mant = 6044629098073146, expo = - 79\<rparr> y"
  shows "expo x < 0 \<and> 2 ^ nat (- expo x) \<le> 2 * mant x * 10 ^ 10"
proof -
  define e where "e = min (- 79) (expo y)"
  define k where "k = nat (- 79 - e)"
  define B where "B = mant y * 2 ^ nat (expo y - e)"
  have ex: "expo x = e" using assms by (simp add: fl_add_def e_def Let_def)
  have mx: "mant x = round53 (6044629098073146 * 2 ^ k + B)"
    using assms by (simp add: fl_add_def e_def k_def B_def Let_def)
  have neg: "e < 0" by (simp add: e_def)
  have ne: "nat (- e) = 79 + k" by (simp add: k_def e_def)
  have "6044629098073146 * 2 ^ k + B \<le> 2 * mant x" unfolding mx by (rule round53_ge_half)
  then have "6044629098073146 * 2 ^ k \<le> 2 * mant x" by simp
  then have "6044629098073146 * 2 ^ k * 10 ^ 10 \<le> 2 * mant x * 10 ^ 10"
    by (rule mult_le_mono1)
  moreover have "(2::nat) ^ 79 \<le> 6044629098073146 * 10 ^ 10" by simp
  then have "(2::nat) ^ 79 * 2 ^ k \<le> (6044629098073146 * 10 ^ 10) * 2 ^ k"
    by (rule mult_le_mono1)
  ultimately have "(2::nat) ^ (79 + k) \<le> 2 * mant x * 10 ^ 10"
    by (simp add: power_add mult.assoc mult.left_commute mult.commute del: power_Suc)
  then show ?thesis using neg ex ne by simp
qed

lemma scaled_den_positive: "0 < d \<Longrightarrow> 0 < scaled_den d e"
  by (simp add: scaled_den_def)

lemma scaled_next:
  assumes "2 * scaled_den d e \<le> scaled_num n e"
  shows "scaled_den d (e + 1) \<le> scaled_num n (e + 1)"
proof -
  consider "e < - 1" | "e = - 1" | "0 \<le> e" by linarith
  then show ?thesis
  proof cases
    case 1
    then have "nat (- e) = Suc (nat (- (e + 1)))" by simp
    with 1 assms show ?thesis by (simp add: scaled_den_def scaled_num_def)
  next
    case 2
    with assms show ?thesis by (simp add: scaled_den_def scaled_num_def)
  next
    case 3
    then have "nat (e + 1) = Suc (nat e)" by simp
    with 3 assms show ?thesis by (simp add: scaled_den_def scaled_num_def)
  qed
qed

lemma scaled_first:
  assumes n: "0 < n" and d: "0 < d"
  shows "scaled_den d (int (bit_length n) - int (bit_length d) - 53)
           \<le> scaled_num n (int (bit_length n) - int (bit_length d) - 53)"
proof -
  define bn where "bn = bit_length n"
  define bd where "bd = bit_length d"
  have ln: "2 ^ (bn - 1) \<le> n" unfolding bn_def using n by (rule bit_length_lower)
  have bn1: "1 \<le> bn" using n by (simp add: bn_def bit_length.simps[of n])
  have ud: "d < 2 ^ bd" using bit_length_le[of d bd] by (simp add: bd_def)
  show ?thesis
  proof (cases "int bn - int bd - 53 < 0")
    case True
    define j where "j = nat (- (int bn - int bd - 53))"
    have "(bn - 1) + j = bd + 52" using True bn1 by (simp add: j_def)
    then have "(2::nat) ^ (bd + 52) = 2 ^ (bn - 1) * 2 ^ j" by (simp add: power_add[symmetric])
    also have "\<dots> \<le> n * 2 ^ j" using ln by (rule mult_le_mono1)
    finally have "2 ^ (bd + 52) \<le> n * 2 ^ j" .
    moreover have "(2::nat) ^ bd \<le> 2 ^ (bd + 52)" by (rule power_increasing) simp_all
    ultimately have "d \<le> n * 2 ^ j" using ud by linarith
    then show ?thesis
      using True by (simp add: scaled_den_def scaled_num_def bn_def bd_def j_def)
  next
    case False
    define j where "j = nat (int bn - int bd - 53)"
    have "bd + j \<le> bn - 1" using False by (simp add: j_def)
    then have "(2::nat) ^ (bd + j) \<le> 2 ^ (bn - 1)" by (intro power_increasing) simp_all
    moreover have "d * 2 ^ j \<le> 2 ^ bd * 2 ^ j" using ud by (intro mult_le_mono1) simp
    moreover have "(2::nat) ^ bd * 2 ^ j = 2 ^ (bd + j)" by (simp add: power_add)
    ultimately have "d * 2 ^ j \<le> n" using ln by linarith
    then show ?thesis
      using False by (simp add: scaled_den_def scaled_num_def bn_def bd_def j_def)
  qed
qed

lemma round_ratio_positive:
  assumes n: "0 < n" and d: "0 < d"
  shows "mant (round_ratio n d) \<noteq> 0"
proof -
  define e0 where "e0 = int (bit_length n) - int (bit_length d) - 53"
  define e where
    "e = (if scaled_num n e0 div scaled_den d e0 \<ge> 2 ^ 53 then e0 + 1 else e0)"
  have first: "scaled_den d e0 \<le> scaled_num n e0"
    unfolding e0_def using n d by (rule scaled_first)
  have le: "scaled_den d e \<le> scaled_num n e"
  proof (cases "scaled_num n e0 div scaled_den d e0 \<ge> 2 ^ 53")
    case True
    have "2 ^ 53 * scaled_den d e0 \<le> scaled_num n e0"
      using True scaled_den_positive[OF d, of e0]
      by (simp add: less_eq_div_iff_mult_less_eq)
    moreover have "2 * scaled_den d e0 \<le> 2 ^ 53 * scaled_den d e0"
      by (rule mult_le_mono1) simp
    ultimately have "2 * scaled_den d e0 \<le> scaled_num n e0" by linarith
    then have "scaled_den d (e0 + 1) \<le> scaled_num n (e0 + 1)" by (rule scaled_next)
    with True show ?thesis by (simp add: e_def)
  next
    case False
    with first show ?thesis by (simp add: e_def)
  qed
  have "1 \<le> scaled_num n e div scaled_den d e"
    using le scaled_den_positive[OF d, of e] by (simp add: less_eq_div_iff_mult_less_eq)
  then show ?thesis
    unfolding round_ratio_def Let_def e0_def[symmetric] e_def[symmetric]
    by (simp del: power_Suc)
qed

lemma generateVerificationAmount_positive: "mant (generateVerificationAmount random) \<noteq> 0"
proof -
  define x where "x = fl_add \<lparr>mant = 6044629098073146, expo = - 79\<rparr>
      (fl_mul random (fl_sub (round_ratio 1 (10 ^ 7)) \<lparr>mant = 6044629098073146, expo = - 79\<rparr>))"
  have "expo x < 0 \<and> 2 ^ nat (- expo x) \<le> 2 * mant x * 10 ^ 10"
    using x_def by (rule fl_add_min_bound)
  then have "0 < toFixed10 x" by (simp add: toFixed10_positive)
  then have "mant (round_ratio (toFixed10 x) (10 ^ 10)) \<noteq> 0"
    by (rule round_ratio_positive) simp
  then show ?thesis
    unfolding generateVerificationAmount_def Let_def literal_min x_def[symmetric] .
qed

text \<open>
  C6. The claim has \<open>ethToWei\<close> return \<open>floor(d * 10^18)\<close>. The product is computed in
  floating point and rounded before the floor is taken. For the draw 0.056 of
  \<open>Math.random()\<close> the generator returns the amount 0.0000000150, which the user is told to
  send and which is 15000000000 base units, and \<open>ethToWei\<close> of it is \<open>14999999999\<close>. Read
  on the double itself the claim fails too: for the amount 0.0000000101 \<open>ethToWei\<close> returns
  \<open>10100000000\<close> while the floor of the double's exact value times \<open>10^18\<close> is
  10099999999.
\<close>

theorem ethToWei_one_base_unit_short:
  "generateVerificationAmount (round_ratio 56 1000) = round_ratio 150 (10 ^ 10)
   \<and> ethToWei (round_ratio 150 (10 ^ 10)) = ''14999999999''
   \<and> exact_wei 150 (10 ^ 10) = 15000000000
   \<and> ethToWei (round_ratio 101 (10 ^ 10)) = ''10100000000''
   \<and> exact_wei_double (round_ratio 101 (10 ^ 10)) = 10099999999"
proof (intro conjI)
  show "generateVerificationAmount (round_ratio 56 1000) = round_ratio 150 (10 ^ 10)"
    by (rule draw_056)
  show "ethToWei (round_ratio 150 (10 ^ 10)) = ''14999999999''"
    by (rule wei_150)
  show "exact_wei 150 (10 ^ 10) = 15000000000"
    by (simp add: exact_wei_def)
  show "ethToWei (round_ratio 101 (10 ^ 10)) = ''10100000000''"
    unfolding ethToWei_def amount_101 product_101 floor_101 by (rule print_wei)
  show "exact_wei_double (round_ratio 101 (10 ^ 10)) = 10099999999"
    unfolding amount_101 by (simp add: exact_wei_double_def)
qed

section \<open>Properties of the bot's handlers\<close>

subsection \<open>The table of challenges\<close>

lemma find_code_set_code_same:
  "distinct (map fst codes) \<Longrightarrow> find_code uid codes = Some (k, d) \<Longrightarrow> vc_userId d' = uid
     \<Longrightarrow> find_code uid (set_code k d' codes) = Some (k, d')"
proof (induction codes)
  case Nil
  then show ?case by (simp add: find_code_def)
next
  case (Cons entry rest)
  show ?case
  proof (cases "vc_userId (snd entry) = uid")
    case True
    with Cons.prems show ?thesis by (auto simp: find_code_def)
  next
    case False
    with Cons.prems have f: "find_code uid rest = Some (k, d)" by (simp add: find_code_def)
    then have "(k, d) \<in> set rest" by (auto simp: find_code_def find_Some_iff)
    then have "k \<in> fst ` set rest" by force
    with Cons.prems have "fst entry \<noteq> k" by auto
    with False Cons f show ?thesis by (simp add: find_code_def)
  qed
qed

lemma find_code_set_code_new:
  "find_code uid codes = None \<Longrightarrow> vc_userId d' = uid
     \<Longrightarrow> find_code uid (set_code k d' codes) = Some (k, d')"
  by (induction codes) (auto simp: find_code_def)

lemma keys_set_code:
  "map fst (set_code k v codes)
     = (if k \<in> fst ` set codes then map fst codes else map fst codes @ [k])"
  by (induction codes) auto

lemma distinct_set_code:
  "distinct (map fst codes) \<Longrightarrow> distinct (map fst (set_code k v codes))"
  by (simp add: keys_set_code)

lemma find_code_user: "find_code uid codes = Some e \<Longrightarrow> vc_userId (snd e) = uid"
  by (auto simp: find_code_def find_Some_iff)

subsection \<open>The wallet modal\<close>

lemma handleModalSubmit_invalid:
  assumes "\<not> isValidEthereumAddress (trim input)"
  shows "handleModalSubmit codes dateNow random uid uname input = (InvalidWalletAddress, codes)"
  using assms by (simp add: handleModalSubmit_def Let_def)

lemma handleModalSubmit_resume:
  assumes "isValidEthereumAddress (trim input)" "find_code uid codes = Some (k, d)"
    "\<not> vc_verified d" "amount d = Some a" "mant a \<noteq> 0"
  shows "handleModalSubmit codes dateNow random uid uname input
           = (TransactionRequired a, set_code k (d\<lparr>vc_walletAddress := Some (ascii (trim input))\<rparr>) codes)"
  using assms by (simp add: handleModalSubmit_def Let_def truthy_amount_def)

lemma handleModalSubmit_regenerate:
  assumes "isValidEthereumAddress (trim input)" "find_code uid codes = Some (k, d)"
    "\<not> vc_verified d" "\<not> truthy_amount (amount d)"
  shows "handleModalSubmit codes dateNow random uid uname input
           = (TransactionRequired (generateVerificationAmount random),
              set_code k (d\<lparr>vc_walletAddress := Some (ascii (trim input)),
                   amount := Some (generateVerificationAmount random),
                   amountWei := Some (ethToWei (generateVerificationAmount random))\<rparr>) codes)"
  using assms
  by (auto simp add: handleModalSubmit_def Let_def truthy_amount_def split: option.splits)

lemma handleModalSubmit_create:
  assumes "isValidEthereumAddress (trim input)" "find_code uid codes = None"
  shows "handleModalSubmit codes dateNow random uid uname input
           = (TransactionRequired (generateVerificationAmount random),
              set_code (number_toString (dateNow 0))
                \<lparr>vc_userId = uid, vc_username = Some uname,
                 vc_walletAddress = Some (ascii (trim input)),
                 amount = Some (generateVerificationAmount random),
                 amountWei = Some (ethToWei (generateVerificationAmount random)),
                 vc_timestamp = Some (dateNow 1), vc_verified = False,
                 vc_verifiedAt = None, nftVerificationResult = None\<rparr> codes)"
  using assms by (simp add: handleModalSubmit_def Let_def)

lemma first_submit:
  assumes d: "distinct (map fst codes)" and v: "isValidEthereumAddress (trim input)"
    and u: "\<forall>e. find_code uid codes = Some e \<longrightarrow> \<not> vc_verified (snd e)"
  shows "\<exists>a k d1. handleModalSubmit codes dateNow random uid uname input
              = (TransactionRequired a, set_code k d1 codes)
           \<and> find_code uid (set_code k d1 codes) = Some (k, d1)
           \<and> amount d1 = Some a \<and> mant a \<noteq> 0 \<and> \<not> vc_verified d1
           \<and> vc_walletAddress d1 = Some (ascii (trim input))
           \<and> (\<forall>e a0. find_code uid codes = Some e \<and> amount (snd e) = Some a0 \<and> mant a0 \<noteq> 0
                  \<longrightarrow> a = a0)
           \<and> ((\<forall>e. find_code uid codes = Some e \<longrightarrow> \<not> truthy_amount (amount (snd e)))
                  \<longrightarrow> a = generateVerificationAmount random)"
proof (cases "find_code uid codes")
  case None
  show ?thesis
    unfolding handleModalSubmit_create[OF v None]
    using find_code_set_code_new[OF None] generateVerificationAmount_positive[of random] None
    by fastforce
next
  case (Some e)
  obtain k d0 where e: "e = (k, d0)" by (cases e)
  have f: "find_code uid codes = Some (k, d0)" using Some e by simp
  have nv: "\<not> vc_verified d0" using u f by simp
  have uid: "vc_userId d0 = uid" using find_code_user[OF f] by simp
  show ?thesis
  proof (cases "truthy_amount (amount d0)")
    case True
    then obtain a where a: "amount d0 = Some a" "mant a \<noteq> 0"
      by (auto simp: truthy_amount_def split: option.splits)
    have t: "truthy_amount (amount d0)" by (rule True)
    show ?thesis
      unfolding handleModalSubmit_resume[OF v f nv a]
      using find_code_set_code_same[OF d f, of "d0\<lparr>vc_walletAddress := Some (ascii (trim input))\<rparr>"]
        a nv uid f t by fastforce
  next
    case False
    have nt: "\<And>a0. amount d0 = Some a0 \<Longrightarrow> mant a0 = 0"
      using False by (simp add: truthy_amount_def)
    show ?thesis
      unfolding handleModalSubmit_regenerate[OF v f nv False]
      using find_code_set_code_same[OF d f,
          of "d0\<lparr>vc_walletAddress := Some (ascii (trim input)),
                   amount := Some (generateVerificationAmount random),
                   amountWei := Some (ethToWei (generateVerificationAmount random))\<rparr>"]
        generateVerificationAmount_positive[of random] nv uid f nt by fastforce
  qed
qed

text \<open>
  C5. Let the keys of \<open>verificationCodes\<close> be distinct, as the keys of an object are, and let
  the user have no verified record. Two submissions of the wallet modal with well-formed
  addresses, whatever the clock and the draws of \<open>Math.random()\<close>, reply with the same
  amount \<open>a\<close>: after the first the user's record \<open>d1\<close> holds \<open>a\<close>, and the second
  changes nothing in it but the wallet, which becomes the trimmed second input, so amount
  and \<open>amountWei\<close> are the stored ones. An input is well formed when, trimmed as
  \<open>String.prototype.trim\<close> does, it passes \<open>isValidEthereumAddress\<close>; any other input is
  answered with the embed for an invalid address. The amount \<open>a\<close> is the one of the record found
  when that is present and not zero, and the generator's when the user has no record or
  the record's amount is missing or zero.
\<close>

theorem modal_resume_keeps_amount:
  assumes keys: "distinct (map fst codes)"
    and v1: "isValidEthereumAddress (trim input1)"
    and v2: "isValidEthereumAddress (trim input2)"
    and unverified: "\<forall>e. find_code uid codes = Some e \<longrightarrow> \<not> vc_verified (snd e)"
  shows "\<exists>a k d1.
           handleModalSubmit codes dateNow1 random1 uid uname1 input1
             = (TransactionRequired a, set_code k d1 codes)
         \<and> find_code uid (set_code k d1 codes) = Some (k, d1)
         \<and> amount d1 = Some a \<and> \<not> vc_verified d1
         \<and> handleModalSubmit (set_code k d1 codes) dateNow2 random2 uid uname2 input2
             = (TransactionRequired a,
                set_code k (d1\<lparr>vc_walletAddress := Some (ascii (trim input2))\<rparr>) (set_code k d1 codes))
         \<and> find_code uid
              (set_code k (d1\<lparr>vc_walletAddress := Some (ascii (trim input2))\<rparr>) (set_code k d1 codes))
             = Some (k, d1\<lparr>vc_walletAddress := Some (ascii (trim input2))\<rparr>)
         \<and> (\<forall>e a0. find_code uid codes = Some e \<and> amount (snd e) = Some a0 \<and> mant a0 \<noteq> 0
                \<longrightarrow> a = a0)
         \<and> ((\<forall>e. find_code uid codes = Some e \<longrightarrow> \<not> truthy_amount (amount (snd e)))
                \<longrightarrow> a = generateVerificationAmount random1)"
proof -
  from first_submit[OF keys v1 unverified, of dateNow1 random1 uname1]
  obtain a k d1 where
    s1: "handleModalSubmit codes dateNow1 random1 uid uname1 input1
           = (TransactionRequired a, set_code k d1 codes)"
    and f1: "find_code uid (set_code k d1 codes) = Some (k, d1)"
    and a1: "amount d1 = Some a" and p1: "mant a \<noteq> 0" and n1: "\<not> vc_verified d1"
    and r1: "\<forall>e a0. find_code uid codes = Some e \<and> amount (snd e) = Some a0 \<and> mant a0 \<noteq> 0
                \<longrightarrow> a = a0"
    and g1: "(\<forall>e. find_code uid codes = Some e \<longrightarrow> \<not> truthy_amount (amount (snd e)))
                \<longrightarrow> a = generateVerificationAmount random1"
    by blast
  have keys1: "distinct (map fst (set_code k d1 codes))"
    using keys by (rule distinct_set_code)
  have u1: "vc_userId d1 = uid" using find_code_user[OF f1] by simp
  have s2: "handleModalSubmit (set_code k d1 codes) dateNow2 random2 uid uname2 input2
             = (TransactionRequired a,
                set_code k (d1\<lparr>vc_walletAddress := Some (ascii (trim input2))\<rparr>) (set_code k d1 codes))"
    by (rule handleModalSubmit_resume[OF v2 f1 n1 a1 p1])
  have f2: "find_code uid
              (set_code k (d1\<lparr>vc_walletAddress := Some (ascii (trim input2))\<rparr>) (set_code k d1 codes))
             = Some (k, d1\<lparr>vc_walletAddress := Some (ascii (trim input2))\<rparr>)"
    using find_code_set_code_same[OF keys1 f1] u1 by simp
  from s1 f1 a1 n1 s2 f2 r1 g1 show ?thesis by blast
qed

lemma ascii_of_char: "ascii (map of_char s) = s"
  by (simp add: ascii_def comp_def)

lemma address_units_valid:
  "isValidEthereumAddress (map of_char ''0x00000000000000000000000000000000000000bb'')"
  "isValidEthereumAddress (map of_char ''0x00000000000000000000000000000000000000cc'')"
  by (simp_all add: isValidEthereumAddress_def)

lemma trim_address:
  "trim ([0xA0, 0x20] @ map of_char ''0x00000000000000000000000000000000000000bb'' @ [0x3000])
     = map of_char ''0x00000000000000000000000000000000000000bb''"
  "trim (map of_char ''0x00000000000000000000000000000000000000cc'')
     = map of_char ''0x00000000000000000000000000000000000000cc''"
  "trim (map of_char ''0x00000000000000000000000000000000000000bb'')
     = map of_char ''0x00000000000000000000000000000000000000bb''"
  by (simp_all add: trim_def isWhiteSpace_def)

lemma not_address: "\<not> isValidEthereumAddress (trim (map of_char ''not an address''))"
  by (simp add: isValidEthereumAddress_def trim_def isWhiteSpace_def)

text \<open>
  The theorem at work on an empty table: the first input is an address between a
  no-break space, a space and an ideographic space.
\<close>

theorem modal_resume_keeps_amount_witness:
  "distinct (map fst ([] :: (string \<times> verification_code) list))
   \<and> isValidEthereumAddress
        (trim ([0xA0, 0x20] @ map of_char ''0x00000000000000000000000000000000000000bb'' @ [0x3000]))
   \<and> isValidEthereumAddress (trim (map of_char ''0x00000000000000000000000000000000000000cc''))
   \<and> find_code ''42'' [] = None
   \<and> (\<exists>a k d1.
         handleModalSubmit [] (\<lambda>n. Fin 1700000000000) (round_ratio 56 1000) ''42'' ''alice''
             ([0xA0, 0x20] @ map of_char ''0x00000000000000000000000000000000000000bb'' @ [0x3000])
           = (TransactionRequired a, set_code k d1 [])
       \<and> amount d1 = Some a
       \<and> handleModalSubmit (set_code k d1 []) (\<lambda>n. Fin 1700000060000) (round_ratio 1 2)
             ''42'' ''alice'' (map of_char ''0x00000000000000000000000000000000000000cc'')
           = (TransactionRequired a,
              set_code k
                (d1\<lparr>vc_walletAddress := Some ''0x00000000000000000000000000000000000000cc''\<rparr>)
                (set_code k d1 []))
       \<and> a = round_ratio 150 (10 ^ 10))"
proof -
  have h1: "distinct (map fst ([] :: (string \<times> verification_code) list))" by simp
  have h2: "isValidEthereumAddress
        (trim ([0xA0, 0x20] @ map of_char ''0x00000000000000000000000000000000000000bb'' @ [0x3000]))"
    by (simp only: trim_address address_units_valid)
  have h3: "isValidEthereumAddress (trim (map of_char ''0x00000000000000000000000000000000000000cc''))"
    by (simp only: trim_address address_units_valid)
  have h4: "\<forall>e. find_code ''42'' [] = Some e \<longrightarrow> \<not> vc_verified (snd e)"
    by (simp add: find_code_def)
  from modal_resume_keeps_amount[OF h1 h2 h3 h4, of "\<lambda>n. Fin 1700000000000" "round_ratio 56 1000"
      "''alice''" "\<lambda>n. Fin 1700000060000" "round_ratio 1 2" "''alice''"]
  obtain a k d1 where
    s1: "handleModalSubmit [] (\<lambda>n. Fin 1700000000000) (round_ratio 56 1000) ''42'' ''alice''
             ([0xA0, 0x20] @ map of_char ''0x00000000000000000000000000000000000000bb'' @ [0x3000])
           = (TransactionRequired a, set_code k d1 [])"
    and a1: "amount d1 = Some a"
    and s2: "handleModalSubmit (set_code k d1 []) (\<lambda>n. Fin 1700000060000) (round_ratio 1 2)
             ''42'' ''alice'' (map of_char ''0x00000000000000000000000000000000000000cc'')
           = (TransactionRequired a,
              set_code k
                (d1\<lparr>vc_walletAddress :=
                      Some (ascii (trim (map of_char ''0x00000000000000000000000000000000000000cc'')))\<rparr>)
                (set_code k d1 []))"
    and g: "(\<forall>e. find_code ''42'' [] = Some e \<longrightarrow> \<not> truthy_amount (amount (snd e)))
                \<longrightarrow> a = generateVerificationAmount (round_ratio 56 1000)"
    by blast
  have "a = round_ratio 150 (10 ^ 10)" using g by (simp add: find_code_def draw_056)
  moreover have "find_code ''42'' [] = None" by (simp add: find_code_def)
  ultimately show ?thesis
    using s1 a1 s2 h1 h2 h3 unfolding trim_address(2) ascii_of_char by blast
qed

text \<open>
  A record without an amount, as an older challenge file holds it, is unverified and is
  found for its user; the submission then replies with the generator's amount, for every
  draw, and stores it with its base units. And a submission that is not a well-formed
  address is answered as invalid: no amount is returned and the record keeps its wallet.
\<close>

theorem record_without_amount_gets_fresh_amount:
  "find_code ''42'' [(''1700000000000'', legacy_code)] = Some (''1700000000000'', legacy_code)
   \<and> \<not> vc_verified legacy_code
   \<and> amount legacy_code = None
   \<and> (\<forall>random.
         fst (handleModalSubmit [(''1700000000000'', legacy_code)] (\<lambda>n. Fin 1700000060000)
                random ''42'' ''alice'' (map of_char ''0x00000000000000000000000000000000000000bb''))
           = TransactionRequired (generateVerificationAmount random))
   \<and> handleModalSubmit [(''1700000000000'', legacy_code)] (\<lambda>n. Fin 1700000060000)
        (round_ratio 56 1000) ''42'' ''alice'' (map of_char ''0x00000000000000000000000000000000000000bb'')
       = (TransactionRequired (round_ratio 150 (10 ^ 10)),
          [(''1700000000000'',
            legacy_code\<lparr>vc_walletAddress := Some ''0x00000000000000000000000000000000000000bb'',
               amount := Some (round_ratio 150 (10 ^ 10)),
               amountWei := Some ''14999999999''\<rparr>)])
   \<and> handleModalSubmit [(''1700000000000'', legacy_code)] (\<lambda>n. Fin 1700000060000)
        (round_ratio 56 1000) ''42'' ''alice'' (map of_char ''not an address'')
       = (InvalidWalletAddress, [(''1700000000000'', legacy_code)])"
proof -
  have f: "find_code ''42'' [(''1700000000000'', legacy_code)]
             = Some (''1700000000000'', legacy_code)"
    by (simp add: find_code_def legacy_code_def)
  have nv: "\<not> vc_verified legacy_code" by (simp add: legacy_code_def)
  have na: "amount legacy_code = None" by (simp add: legacy_code_def)
  have nt: "\<not> truthy_amount (amount legacy_code)" by (simp add: na truthy_amount_def)
  have v: "isValidEthereumAddress (trim (map of_char ''0x00000000000000000000000000000000000000bb''))"
    by (simp only: trim_address address_units_valid)
  note step = handleModalSubmit_regenerate[OF v f nv nt, unfolded trim_address(3) ascii_of_char]
  have every: "\<forall>random.
         fst (handleModalSubmit [(''1700000000000'', legacy_code)] (\<lambda>n. Fin 1700000060000)
                random ''42'' ''alice'' (map of_char ''0x00000000000000000000000000000000000000bb''))
           = TransactionRequired (generateVerificationAmount random)"
    unfolding step by simp
  have one: "handleModalSubmit [(''1700000000000'', legacy_code)] (\<lambda>n. Fin 1700000060000)
        (round_ratio 56 1000) ''42'' ''alice'' (map of_char ''0x00000000000000000000000000000000000000bb'')
       = (TransactionRequired (round_ratio 150 (10 ^ 10)),
          [(''1700000000000'',
            legacy_code\<lparr>vc_walletAddress := Some ''0x00000000000000000000000000000000000000bb'',
               amount := Some (round_ratio 150 (10 ^ 10)),
               amountWei := Some ''14999999999''\<rparr>)])"
    unfolding step draw_056 wei_150 by simp
  have bad: "handleModalSubmit [(''1700000000000'', legacy_code)] (\<lambda>n. Fin 1700000060000)
        (round_ratio 56 1000) ''42'' ''alice'' (map of_char ''not an address'')
       = (InvalidWalletAddress, [(''1700000000000'', legacy_code)])"
    by (rule handleModalSubmit_invalid[OF not_address])
  from f nv na every one bad show ?thesis by (intro conjI)
qed

subsection \<open>Secondary networks\<close>

text \<open>
  With a wallet \<open>W\<close> bound, the button checks ownership for \<open>W\<close> on the requested network
  and replies with the result of this check; a verified result is saved first, and if the
  save fails the handler ends with the error of its \<open>catch\<close> block.
\<close>

lemma useVerifiedWallet_bound:
  assumes net: "net = ''arbitrum'' \<or> net = ''bera''"
    and w: "getVerifiedWallet (verificationDB st) q_wallet uid = Inr (Some W)"
  shows "useVerifiedWallet st vs q_wallet q_save db_now clock now net uid uname
           = (let r = (if net = ''arbitrum''
                       then ArbitrumNFTVerifier_verifyNFTOwnership (arbitrum_cfg vs)
                              (arbitrum_api vs) now W
                       else BeraVerifier_verifyNFTOwnership (bera_cfg vs) (bera_api vs) now W);
                  saved = PostgreSQLDatabase_saveVerification (verificationDB st) q_save db_now
                            clock uid uname W r net
              in if verified r then
                   \<lparr>reply = (case fst saved of
                               Inl e \<Rightarrow> Inl ''ReferenceError: networkName is not defined''
                             | Inr nv \<Rightarrow> Inr (VerificationEmbed r)),
                    state_after = st\<lparr>verificationDB := snd saved\<rparr>\<rparr>
                 else \<lparr>reply = Inr (VerificationEmbed r), state_after = st\<rparr>)"
  using net w
  by (auto simp add: useVerifiedWallet_def Let_def split: prod.splits sum.splits)

lemma useVerifiedWallet_unbound:
  assumes "getVerifiedWallet (verificationDB st) q_wallet uid = Inr None"
  shows "useVerifiedWallet st vs q_wallet q_save db_now clock now net uid uname
           = \<lparr>reply = Inr NoVerifiedWallet, state_after = st\<rparr>"
  using assms by (simp add: useVerifiedWallet_def)

lemma useVerifiedWallet_codes:
  "verificationCodes (state_after
       (useVerifiedWallet st vs q_wallet q_save db_now clock now net uid uname))
     = verificationCodes st"
  by (simp add: useVerifiedWallet_def Let_def split: prod.splits sum.splits option.splits)

lemma no_primary_no_wallet:
  assumes "primary_verified_or_absent db q_ok uid"
    and "hasMonadVerification db q_ok uid = Inr False"
  shows "getVerifiedWallet db q_ok uid = Inr None"
  using assms
  by (auto simp add: primary_verified_or_absent_def hasMonadVerification_def
        getVerifiedWallet_def split: sum.splits option.splits)

text \<open>
  The handlers write a primary-network entry only with a verified result, so every stored
  primary-network entry is verified; then a user the store reports as not verified on the
  primary network has no wallet bound either.
\<close>

lemma stored_invariant_read:
  "primary_entries_verified db \<Longrightarrow> primary_verified_or_absent db q_ok uid"
  by (auto simp add: primary_entries_verified_def primary_verified_or_absent_def
        getVerifiedUser_def split: sum.splits option.splits if_splits)

lemma saveVerificationJSON_keeps_primary_verified:
  assumes "primary_entries_verified db" "net = ''monad_testnet'' \<longrightarrow> verified res"
  shows "primary_entries_verified (snd (saveVerificationJSON db clock uid uname wallet res net))"
  using assms
  by (auto simp add: primary_entries_verified_def saveVerificationJSON_def
        VerificationDatabase_saveVerification_def Let_def split: option.splits if_splits)

lemma users_row_keeps_primary_verified:
  "primary_entries_verified db
     \<Longrightarrow> primary_entries_verified (db\<lparr>pool := (pool db)\<lparr>verified_users := users\<rparr>\<rparr>)"
  unfolding primary_entries_verified_def by simp blast

lemma saveVerification_keeps_primary_verified:
  assumes inv: "primary_entries_verified db" and res: "net = ''monad_testnet'' \<longrightarrow> verified res"
  shows "primary_entries_verified
           (snd (PostgreSQLDatabase_saveVerification db q_ok db_now clock uid uname wallet res net))"
proof -
  consider "useJSON db \<or> \<not> q_ok 0" | "\<not> useJSON db" "q_ok 0" "\<not> q_ok 1"
    | "\<not> useJSON db" "q_ok 0" "q_ok 1" by blast
  then show ?thesis
  proof cases
    case 1
    then show ?thesis
      using saveVerificationJSON_keeps_primary_verified[OF inv res]
      by (auto simp add: PostgreSQLDatabase_saveVerification_def)
  next
    case 2
    then show ?thesis
      using saveVerificationJSON_keeps_primary_verified[OF
          users_row_keeps_primary_verified[OF inv] res]
      by (simp add: PostgreSQLDatabase_saveVerification_def Let_def)
  next
    case 3
    then show ?thesis
      using inv res
      by (auto simp add: PostgreSQLDatabase_saveVerification_def Let_def
            primary_entries_verified_def)
  qed
qed

lemma useVerifiedWallet_keeps_primary_verified:
  assumes inv: "primary_entries_verified (verificationDB st)"
  shows "primary_entries_verified (verificationDB (state_after
           (useVerifiedWallet st vs q_wallet q_save db_now clock now net uid uname)))"
proof -
  have s: "primary_entries_verified db'"
    if "net = ''arbitrum'' \<or> net = ''bera''"
      and "PostgreSQLDatabase_saveVerification (verificationDB st) q_save db_now clock uid uname
             W res net = (r, db')" for W res r db'
  proof -
    have "primary_entries_verified (snd (PostgreSQLDatabase_saveVerification (verificationDB st)
           q_save db_now clock uid uname W res net))"
      by (rule saveVerification_keeps_primary_verified[OF inv]) (use that in auto)
    then show ?thesis by (simp add: that)
  qed
  show ?thesis
    using inv s
    by (auto simp add: useVerifiedWallet_def Let_def
          split: sum.splits option.splits if_splits prod.splits)
qed

lemma confirmMonadTransaction_keeps_primary_verified:
  assumes inv: "primary_entries_verified (verificationDB st)"
    and run: "confirmMonadTransaction st pv q_save db_now clock dateNow now uid uname = Some out"
  shows "primary_entries_verified (verificationDB (state_after out))"
proof -
  have s: "primary_entries_verified db'"
    if "verified res"
      and "PostgreSQLDatabase_saveVerification (verificationDB st) q_save db_now clock uid uname
             W res ''monad_testnet'' = (r, db')" for W res r db'
  proof -
    have "primary_entries_verified (snd (PostgreSQLDatabase_saveVerification (verificationDB st)
           q_save db_now clock uid uname W res ''monad_testnet''))"
      by (rule saveVerification_keeps_primary_verified[OF inv]) (use that in simp)
    then show ?thesis by (simp add: that)
  qed
  show ?thesis
    using run inv s
    by (auto simp add: confirmMonadTransaction_def Let_def
          split: sum.splits option.splits if_splits prod.splits bool.splits)
qed

text \<open>
  A confirmation that ends with a verified result has found the transfer from the wallet
  of the user's challenge, has checked ownership for this wallet and has saved it; read
  back from the backend it was written to, it is the user's verified wallet.
\<close>

lemma saved_primary_is_read_pg:
  assumes save: "PostgreSQLDatabase_saveVerification db q_save db_now clock uid uname W res
                   ''monad_testnet'' = (Inr nv, db')"
    and backend: "\<not> useJSON db" "q_save 0" "q_save 1"
    and reads: "q_ok 0" "q_ok 1"
    and res: "verified res" and w: "W \<noteq> []"
  shows "hasMonadVerification db' q_ok uid = Inr True
       \<and> getVerifiedWallet db' q_ok uid = Inr (Some W)"
proof -
  have db': "db' = db\<lparr>pool := (pool db)\<lparr>verified_users := (verified_users (pool db))(uid \<mapsto>
                 (case verified_users (pool db) uid of
                     None \<Rightarrow> \<lparr>pg_username = uname, created_at = db_now 0,
                               last_updated = db_now 0\<rparr>
                   | Some r \<Rightarrow> r\<lparr>pg_username := uname, last_updated := db_now 0\<rparr>)),
              user_verifications := (user_verifications (pool db))((uid, ''monad_testnet'') \<mapsto>
                        \<lparr>wallet_address = W, verified_at = db_now 1,
                         verification_result = res\<rparr>)\<rparr>\<rparr>"
    using save backend by (auto simp add: PostgreSQLDatabase_saveVerification_def Let_def)
  show ?thesis
    unfolding db' using backend reads res w
    by (simp add: hasMonadVerification_def getVerifiedWallet_def getVerifiedUser_def)
qed

lemma saved_primary_is_read_json:
  assumes save: "PostgreSQLDatabase_saveVerification db q_save db_now clock uid uname W res
                   ''monad_testnet'' = (Inr nv, db')"
    and backend: "useJSON db"
    and res: "verified res" and w: "W \<noteq> []"
  shows "hasMonadVerification db' q_ok uid = Inr True
       \<and> getVerifiedWallet db' q_ok uid = Inr (Some W)"
proof -
  obtain data where data: "jsonData db = Some data"
    using save backend
    by (cases "jsonData db")
      (auto simp add: PostgreSQLDatabase_saveVerification_def saveVerificationJSON_def)
  have db': "db' = db\<lparr>jsonData :=
                Some (snd (VerificationDatabase_saveVerification data clock uid uname W
                             res ''monad_testnet''))\<rparr>"
    using save backend data
    by (auto simp add: PostgreSQLDatabase_saveVerification_def saveVerificationJSON_def)
  show ?thesis
    unfolding db' using backend res w
    by (simp add: hasMonadVerification_def getVerifiedWallet_def getVerifiedUser_def
          VerificationDatabase_saveVerification_def Let_def)
qed

lemma confirmMonadTransaction_success:
  assumes run: "confirmMonadTransaction st pv q_save db_now clock dateNow now uid uname = Some out"
    and ok: "reply out = Inr (VerificationEmbed r)" "verified r"
  shows "\<exists>k d W nv. find_code uid (verificationCodes st) = Some (k, d)
           \<and> vc_walletAddress d = Some W \<and> W \<noteq> []
           \<and> checkVerificationTransaction (monad_node pv) (Some W) (botWallet pv) (amountWei d)
                = Some True
           \<and> r = verifyNFTOwnershipWithStaking (monad_cfg pv) (staking_address_1 pv)
                   (staking_address_2 pv) (monad_api pv) (monad_staking pv) now W
           \<and> PostgreSQLDatabase_saveVerification (verificationDB st) q_save db_now clock uid
                uname W r ''monad_testnet'' = (Inr nv, verificationDB (state_after out))"
proof (cases "find_code uid (verificationCodes st)")
  case None
  with run ok show ?thesis by (auto simp add: confirmMonadTransaction_def)
next
  case (Some e)
  obtain k d where e: "e = (k, d)" by (cases e)
  show ?thesis
  proof (cases "vc_walletAddress d")
    case None
    with run ok Some e show ?thesis by (auto simp add: confirmMonadTransaction_def truthy_def)
  next
    case W: (Some W)
    show ?thesis
    proof (cases "W = []")
      case True
      with run ok Some e W show ?thesis by (auto simp add: confirmMonadTransaction_def truthy_def)
    next
      case False
      define res where "res = verifyNFTOwnershipWithStaking (monad_cfg pv) (staking_address_1 pv)
        (staking_address_2 pv) (monad_api pv) (monad_staking pv) now W"
      obtain s db' where sv: "PostgreSQLDatabase_saveVerification (verificationDB st) q_save
        db_now clock uid uname W res ''monad_testnet'' = (s, db')"
        by (cases "PostgreSQLDatabase_saveVerification (verificationDB st) q_save db_now
             clock uid uname W res ''monad_testnet''")
      have step: "confirmMonadTransaction st pv q_save db_now clock dateNow now uid uname =
        (case checkVerificationTransaction (monad_node pv) (Some W) (botWallet pv) (amountWei d) of
           None \<Rightarrow> None
         | Some False \<Rightarrow> Some \<lparr>reply = Inr TransactionNotFound, state_after = st\<rparr>
         | Some True \<Rightarrow>
             if verified res then
               (case s of
                  Inl e \<Rightarrow> Some \<lparr>reply = Inr (VerificationError e),
                                 state_after = st\<lparr>verificationDB := db'\<rparr>\<rparr>
                | Inr saved \<Rightarrow>
                    Some \<lparr>reply = Inr (VerificationEmbed res),
                          state_after =
                            \<lparr>verificationCodes =
                               set_code k (d\<lparr>vc_verified := True,
                                    vc_verifiedAt := Some (dateNow 0),
                                    nftVerificationResult := Some res\<rparr>)
                                 (verificationCodes st),
                             verificationDB = db'\<rparr>\<rparr>)
             else Some \<lparr>reply = Inr (VerificationEmbed res), state_after = st\<rparr>)"
        using Some e W False sv
        by (simp add: confirmMonadTransaction_def truthy_def or_else_def Let_def
              res_def[symmetric] split: option.splits bool.splits sum.splits)
      from run ok show ?thesis
        unfolding step using Some e W False sv
        by (auto simp add: res_def[symmetric] split: option.splits bool.splits sum.splits if_splits)
    qed
  qed
qed

lemma primary_wallet_reused_after_confirmation:
  assumes run: "confirmMonadTransaction st pv q_save db_now clock dateNow now uid uname = Some out"
    and ok: "reply out = Inr (VerificationEmbed r)" "verified r"
    and backend: "useJSON (verificationDB st) \<or> (q_save 0 \<and> q_save 1)"
    and reads: "q_ok 0" "q_ok 1"
    and net: "net = ''arbitrum'' \<or> net = ''bera''"
  shows "\<exists>k d W. find_code uid (verificationCodes st) = Some (k, d)
           \<and> vc_walletAddress d = Some W
           \<and> r = verifyNFTOwnershipWithStaking (monad_cfg pv) (staking_address_1 pv)
                   (staking_address_2 pv) (monad_api pv) (monad_staking pv) now W
           \<and> handleSelectMenuInteraction (verificationDB (state_after out)) q_ok q_ok net uid
               = Inr (ReadyToVerify net (Some W))
           \<and> getVerifiedWallet (verificationDB (state_after out)) q_ok uid = Inr (Some W)"
proof -
  from confirmMonadTransaction_success[OF run ok]
  obtain k d W nv where f: "find_code uid (verificationCodes st) = Some (k, d)"
    and wd: "vc_walletAddress d = Some W" and w: "W \<noteq> []"
    and r: "r = verifyNFTOwnershipWithStaking (monad_cfg pv) (staking_address_1 pv)
                   (staking_address_2 pv) (monad_api pv) (monad_staking pv) now W"
    and sv: "PostgreSQLDatabase_saveVerification (verificationDB st) q_save db_now clock uid
                uname W r ''monad_testnet'' = (Inr nv, verificationDB (state_after out))"
    by blast
  have rd: "hasMonadVerification (verificationDB (state_after out)) q_ok uid = Inr True
       \<and> getVerifiedWallet (verificationDB (state_after out)) q_ok uid = Inr (Some W)"
  proof (cases "useJSON (verificationDB st)")
    case True
    show ?thesis using sv True ok(2) w by (rule saved_primary_is_read_json)
  next
    case False
    with backend have "q_save 0" "q_save 1" by auto
    with sv False show ?thesis using reads ok(2) w by (intro saved_primary_is_read_pg)
  qed
  then have sel: "handleSelectMenuInteraction (verificationDB (state_after out)) q_ok q_ok net uid
               = Inr (ReadyToVerify net (Some W))"
    using net by (auto simp add: handleSelectMenuInteraction_def)
  from f wd r sel rd show ?thesis by blast
qed

text \<open>
  C4. For a request on Arbitrum or Bera. When the store reports the user as verified on
  the primary network with the wallet \<open>W\<close>, the menu shows \<open>W\<close> with the button that
  verifies it; and whenever the store reports \<open>W\<close> as the user's wallet, the button checks
  ownership on the requested network for \<open>W\<close> and replies with the result \<open>r\<close> of this
  check, after saving \<open>r\<close> for \<open>W\<close> if it is verified (the handler ends with an error if that
  save fails). The button never changes the table of challenges: no wallet is asked for
  and no challenge is issued. When the store reports the user as not verified on the
  primary network, the menu answers that the primary verification is required first;
  when no wallet is bound, the button answers that there is no verified wallet and leaves
  the state as it is, whatever the verifiers would answer. With every stored primary
  entry verified, the second case follows from the first report.
\<close>

theorem secondary_network_reuses_primary_wallet:
  assumes net: "net = ''arbitrum'' \<or> net = ''bera''"
  shows "(hasMonadVerification (verificationDB st) q_has uid = Inr True
          \<and> getVerifiedWallet (verificationDB st) q_wallet uid = Inr (Some W)
          \<longrightarrow> handleSelectMenuInteraction (verificationDB st) q_has q_wallet net uid
                = Inr (ReadyToVerify net (Some W)))
       \<and> (getVerifiedWallet (verificationDB st) q_wallet uid = Inr (Some W)
          \<longrightarrow> useVerifiedWallet st vs q_wallet q_save db_now clock now net uid uname
                = (let r = (if net = ''arbitrum''
                            then ArbitrumNFTVerifier_verifyNFTOwnership (arbitrum_cfg vs)
                                   (arbitrum_api vs) now W
                            else BeraVerifier_verifyNFTOwnership (bera_cfg vs) (bera_api vs)
                                   now W);
                       saved = PostgreSQLDatabase_saveVerification (verificationDB st) q_save
                                 db_now clock uid uname W r net
                   in if verified r then
                        \<lparr>reply = (case fst saved of
                                    Inl e \<Rightarrow> Inl ''ReferenceError: networkName is not defined''
                                  | Inr nv \<Rightarrow> Inr (VerificationEmbed r)),
                         state_after = st\<lparr>verificationDB := snd saved\<rparr>\<rparr>
                      else \<lparr>reply = Inr (VerificationEmbed r), state_after = st\<rparr>))
       \<and> verificationCodes (state_after
             (useVerifiedWallet st vs q_wallet q_save db_now clock now net uid uname))
           = verificationCodes st
       \<and> (hasMonadVerification (verificationDB st) q_has uid = Inr False
          \<longrightarrow> handleSelectMenuInteraction (verificationDB st) q_has q_wallet net uid
                = Inr (RequiresMonadFirst net))
       \<and> (getVerifiedWallet (verificationDB st) q_wallet uid = Inr None
          \<longrightarrow> useVerifiedWallet st vs q_wallet q_save db_now clock now net uid uname
                = \<lparr>reply = Inr NoVerifiedWallet, state_after = st\<rparr>)
       \<and> (primary_verified_or_absent (verificationDB st) q_wallet uid
          \<and> hasMonadVerification (verificationDB st) q_wallet uid = Inr False
          \<longrightarrow> useVerifiedWallet st vs q_wallet q_save db_now clock now net uid uname
                = \<lparr>reply = Inr NoVerifiedWallet, state_after = st\<rparr>)"
proof (intro conjI impI)
  assume a: "hasMonadVerification (verificationDB st) q_has uid = Inr True
          \<and> getVerifiedWallet (verificationDB st) q_wallet uid = Inr (Some W)"
  show "handleSelectMenuInteraction (verificationDB st) q_has q_wallet net uid
                = Inr (ReadyToVerify net (Some W))"
    using net a by (auto simp add: handleSelectMenuInteraction_def)
next
  assume "getVerifiedWallet (verificationDB st) q_wallet uid = Inr (Some W)"
  then show "useVerifiedWallet st vs q_wallet q_save db_now clock now net uid uname
                = (let r = (if net = ''arbitrum''
                            then ArbitrumNFTVerifier_verifyNFTOwnership (arbitrum_cfg vs)
                                   (arbitrum_api vs) now W
                            else BeraVerifier_verifyNFTOwnership (bera_cfg vs) (bera_api vs)
                                   now W);
                       saved = PostgreSQLDatabase_saveVerification (verificationDB st) q_save
                                 db_now clock uid uname W r net
                   in if verified r then
                        \<lparr>reply = (case fst saved of
                                    Inl e \<Rightarrow> Inl ''ReferenceError: networkName is not defined''
                                  | Inr nv \<Rightarrow> Inr (VerificationEmbed r)),
                         state_after = st\<lparr>verificationDB := snd saved\<rparr>\<rparr>
                      else \<lparr>reply = Inr (VerificationEmbed r), state_after = st\<rparr>)"
    by (rule useVerifiedWallet_bound[OF net])
next
  show "verificationCodes (state_after
             (useVerifiedWallet st vs q_wallet q_save db_now clock now net uid uname))
           = verificationCodes st"
    by (rule useVerifiedWallet_codes)
next
  assume "hasMonadVerification (verificationDB st) q_has uid = Inr False"
  then show "handleSelectMenuInteraction (verificationDB st) q_has q_wallet net uid
                = Inr (RequiresMonadFirst net)"
    using net by (auto simp add: handleSelectMenuInteraction_def)
next
  assume "getVerifiedWallet (verificationDB st) q_wallet uid = Inr None"
  then show "useVerifiedWallet st vs q_wallet q_save db_now clock now net uid uname
                = \<lparr>reply = Inr NoVerifiedWallet, state_after = st\<rparr>"
    by (rule useVerifiedWallet_unbound)
next
  assume "primary_verified_or_absent (verificationDB st) q_wallet uid
          \<and> hasMonadVerification (verificationDB st) q_wallet uid = Inr False"
  then have "getVerifiedWallet (verificationDB st) q_wallet uid = Inr None"
    by (simp add: no_primary_no_wallet)
  then show "useVerifiedWallet st vs q_wallet q_save db_now clock now net uid uname
                = \<lparr>reply = Inr NoVerifiedWallet, state_after = st\<rparr>"
    by (rule useVerifiedWallet_unbound)
qed

lemma example_reads:
  "hasMonadVerification (verificationDB example_state) (\<lambda>k. True) ''42'' = Inr True"
  "getVerifiedWallet (verificationDB example_state) (\<lambda>k. True) ''42''
     = Inr (Some ''0x00000000000000000000000000000000000000bb'')"
  "hasMonadVerification (verificationDB example_state) (\<lambda>k. True) ''7'' = Inr False"
  "getVerifiedWallet (verificationDB example_state) (\<lambda>k. True) ''7'' = Inr None"
  "primary_verified_or_absent (verificationDB example_state) (\<lambda>k. True) ''7''"
  by (simp_all add: example_state_def example_pg_def example_result_def initial_result_def
        hasMonadVerification_def getVerifiedWallet_def getVerifiedUser_def
        primary_verified_or_absent_def)

lemma example_check:
  "verified (ArbitrumNFTVerifier_verifyNFTOwnership (arbitrum_cfg example_secondary)
       (arbitrum_api example_secondary) now ''0x00000000000000000000000000000000000000bb'')"
  by (simp add: ArbitrumNFTVerifier_verifyNFTOwnership_def example_secondary_def truthy_def
        Let_def)

lemma example_save:
  "PostgreSQLDatabase_saveVerification (verificationDB example_state) (\<lambda>k. True) db_now clock
       uid uname W r net
     = (Inr \<lparr>nv_walletAddress = W, verifiedAt = clock 0, verificationResult = r,
              nv_network = net\<rparr>,
        snd (PostgreSQLDatabase_saveVerification (verificationDB example_state) (\<lambda>k. True)
               db_now clock uid uname W r net))"
  "user_verifications (pool (snd (PostgreSQLDatabase_saveVerification
       (verificationDB example_state) (\<lambda>k. True) db_now clock uid uname W r net))) (uid, net)
     = Some \<lparr>wallet_address = W, verified_at = db_now 1, verification_result = r\<rparr>"
  by (simp_all add: PostgreSQLDatabase_saveVerification_def example_state_def example_pg_def
        Let_def)

text \<open>
  The theorem at work. User 42 is stored as verified on the primary network with a wallet
  that owns a token on Arbitrum: the menu shows the wallet, and the button replies with
  the verified result for this wallet and stores it for Arbitrum. User 7 is unknown: the
  menu asks for the primary verification, and the button finds no wallet.
\<close>

theorem secondary_network_reuses_primary_wallet_witness:
  "(''arbitrum'' = ''arbitrum'' \<or> ''arbitrum'' = ''bera'')
   \<and> hasMonadVerification (verificationDB example_state) (\<lambda>k. True) ''42'' = Inr True
   \<and> getVerifiedWallet (verificationDB example_state) (\<lambda>k. True) ''42''
       = Inr (Some ''0x00000000000000000000000000000000000000bb'')
   \<and> handleSelectMenuInteraction (verificationDB example_state) (\<lambda>k. True) (\<lambda>k. True)
         ''arbitrum'' ''42''
       = Inr (ReadyToVerify ''arbitrum'' (Some ''0x00000000000000000000000000000000000000bb''))
   \<and> reply (useVerifiedWallet example_state example_secondary (\<lambda>k. True) (\<lambda>k. True)
         (\<lambda>k. ''2025-01-02 00:00:00'') (\<lambda>k. ''2025-01-02T00:00:00.000Z'')
         ''2025-01-02T00:00:00.000Z'' ''arbitrum'' ''42'' ''alice'')
       = Inr (VerificationEmbed
           (ArbitrumNFTVerifier_verifyNFTOwnership (arbitrum_cfg example_secondary)
              (arbitrum_api example_secondary) ''2025-01-02T00:00:00.000Z''
              ''0x00000000000000000000000000000000000000bb''))
   \<and> user_verifications (pool (verificationDB (state_after
         (useVerifiedWallet example_state example_secondary (\<lambda>k. True) (\<lambda>k. True)
            (\<lambda>k. ''2025-01-02 00:00:00'') (\<lambda>k. ''2025-01-02T00:00:00.000Z'')
            ''2025-01-02T00:00:00.000Z'' ''arbitrum'' ''42'' ''alice''))))
         (''42'', ''arbitrum'')
       = Some \<lparr>wallet_address = ''0x00000000000000000000000000000000000000bb'',
               verified_at = ''2025-01-02 00:00:00'',
               verification_result =
                 ArbitrumNFTVerifier_verifyNFTOwnership (arbitrum_cfg example_secondary)
                   (arbitrum_api example_secondary) ''2025-01-02T00:00:00.000Z''
                   ''0x00000000000000000000000000000000000000bb''\<rparr>
   \<and> verificationCodes (state_after
         (useVerifiedWallet example_state example_secondary (\<lambda>k. True) (\<lambda>k. True)
            (\<lambda>k. ''2025-01-02 00:00:00'') (\<lambda>k. ''2025-01-02T00:00:00.000Z'')
            ''2025-01-02T00:00:00.000Z'' ''arbitrum'' ''42'' ''alice''))
       = verificationCodes example_state
   \<and> hasMonadVerification (verificationDB example_state) (\<lambda>k. True) ''7'' = Inr False
   \<and> handleSelectMenuInteraction (verificationDB example_state) (\<lambda>k. True) (\<lambda>k. True)
         ''arbitrum'' ''7''
       = Inr (RequiresMonadFirst ''arbitrum'')
   \<and> getVerifiedWallet (verificationDB example_state) (\<lambda>k. True) ''7'' = Inr None
   \<and> primary_verified_or_absent (verificationDB example_state) (\<lambda>k. True) ''7''
   \<and> useVerifiedWallet example_state example_secondary (\<lambda>k. True) (\<lambda>k. True)
         (\<lambda>k. ''2025-01-02 00:00:00'') (\<lambda>k. ''2025-01-02T00:00:00.000Z'')
         ''2025-01-02T00:00:00.000Z'' ''arbitrum'' ''7'' ''bob''
       = \<lparr>reply = Inr NoVerifiedWallet, state_after = example_state\<rparr>"
proof -
  have n: "''arbitrum'' = ''arbitrum'' \<or> ''arbitrum'' = ''bera''" by simp
  note verified_user = secondary_network_reuses_primary_wallet[OF n,
      where st = example_state and uid = "''42''" and q_has = "\<lambda>k. True"
        and q_wallet = "\<lambda>k. True" and W = "''0x00000000000000000000000000000000000000bb''"
        and vs = example_secondary and q_save = "\<lambda>k. True"
        and db_now = "\<lambda>k. ''2025-01-02 00:00:00''"
        and clock = "\<lambda>k. ''2025-01-02T00:00:00.000Z''"
        and now = "''2025-01-02T00:00:00.000Z''" and uname = "''alice''"]
  note unknown_user = secondary_network_reuses_primary_wallet[OF n,
      where st = example_state and uid = "''7''" and q_has = "\<lambda>k. True"
        and q_wallet = "\<lambda>k. True" and W = "''0x00000000000000000000000000000000000000bb''"
        and vs = example_secondary and q_save = "\<lambda>k. True"
        and db_now = "\<lambda>k. ''2025-01-02 00:00:00''"
        and clock = "\<lambda>k. ''2025-01-02T00:00:00.000Z''"
        and now = "''2025-01-02T00:00:00.000Z''" and uname = "''bob''"]
  have run: "useVerifiedWallet example_state example_secondary (\<lambda>k. True) (\<lambda>k. True)
         (\<lambda>k. ''2025-01-02 00:00:00'') (\<lambda>k. ''2025-01-02T00:00:00.000Z'')
         ''2025-01-02T00:00:00.000Z'' ''arbitrum'' ''42'' ''alice''
       = \<lparr>reply = Inr (VerificationEmbed
             (ArbitrumNFTVerifier_verifyNFTOwnership (arbitrum_cfg example_secondary)
                (arbitrum_api example_secondary) ''2025-01-02T00:00:00.000Z''
                ''0x00000000000000000000000000000000000000bb'')),
          state_after = example_state\<lparr>verificationDB :=
             snd (PostgreSQLDatabase_saveVerification (verificationDB example_state)
                    (\<lambda>k. True) (\<lambda>k. ''2025-01-02 00:00:00'')
                    (\<lambda>k. ''2025-01-02T00:00:00.000Z'') ''42'' ''alice''
                    ''0x00000000000000000000000000000000000000bb''
                    (ArbitrumNFTVerifier_verifyNFTOwnership (arbitrum_cfg example_secondary)
                       (arbitrum_api example_secondary) ''2025-01-02T00:00:00.000Z''
                       ''0x00000000000000000000000000000000000000bb'')
                    ''arbitrum'')\<rparr>\<rparr>"
    unfolding verified_user[THEN conjunct2, THEN conjunct1, rule_format, OF example_reads(2)]
      Let_def
    by (simp add: example_check example_save(1)[THEN arg_cong, of fst])
  have saved: "user_verifications (pool (verificationDB (state_after
         (useVerifiedWallet example_state example_secondary (\<lambda>k. True) (\<lambda>k. True)
            (\<lambda>k. ''2025-01-02 00:00:00'') (\<lambda>k. ''2025-01-02T00:00:00.000Z'')
            ''2025-01-02T00:00:00.000Z'' ''arbitrum'' ''42'' ''alice''))))
         (''42'', ''arbitrum'')
       = Some \<lparr>wallet_address = ''0x00000000000000000000000000000000000000bb'',
               verified_at = ''2025-01-02 00:00:00'',
               verification_result =
                 ArbitrumNFTVerifier_verifyNFTOwnership (arbitrum_cfg example_secondary)
                   (arbitrum_api example_secondary) ''2025-01-02T00:00:00.000Z''
                   ''0x00000000000000000000000000000000000000bb''\<rparr>"
    unfolding run by (simp add: example_save(2))
  have rep: "reply (useVerifiedWallet example_state example_secondary (\<lambda>k. True) (\<lambda>k. True)
         (\<lambda>k. ''2025-01-02 00:00:00'') (\<lambda>k. ''2025-01-02T00:00:00.000Z'')
         ''2025-01-02T00:00:00.000Z'' ''arbitrum'' ''42'' ''alice'')
       = Inr (VerificationEmbed
           (ArbitrumNFTVerifier_verifyNFTOwnership (arbitrum_cfg example_secondary)
              (arbitrum_api example_secondary) ''2025-01-02T00:00:00.000Z''
              ''0x00000000000000000000000000000000000000bb''))"
    unfolding run by simp
  show ?thesis
    using verified_user unknown_user example_reads n rep saved by blast
qed

lemma unverified_reads:
  "hasMonadVerification unverified_pg (\<lambda>k. True) ''42'' = Inr False"
  "getVerifiedWallet unverified_pg (\<lambda>k. True) ''42''
     = Inr (Some ''0x00000000000000000000000000000000000000bb'')"
  by (simp_all add: unverified_pg_def example_result_def initial_result_def
        hasMonadVerification_def getVerifiedWallet_def getVerifiedUser_def)

lemma failing_reads:
  "hasMonadVerification (verificationDB example_state) (\<lambda>k. False) ''42'' = Inr False"
  "getVerifiedWallet (verificationDB example_state) (\<lambda>k. False) ''42'' = Inr None"
  by (simp_all add: example_state_def example_pg_def hasMonadVerification_def
        getVerifiedWallet_def getVerifiedUser_def)

text \<open>
  The claim C4 as stated covers every user with a primary verification and every user
  without a verified one. User 42 is stored as verified on the primary network with a
  wallet; when the queries of the store fail, its reads answer \<open>null\<close>, the menu asks for
  the primary verification and the button finds no wallet. And in a store whose primary
  entry for the user holds a wallet and a result that is not verified, the menu asks for
  the primary verification, while the button, which looks at the wallet only, checks
  ownership for it and replies with the result.
\<close>

theorem stored_primary_wallet_not_reused:
  "(case user_verifications (pool (verificationDB example_state)) (''42'', ''monad_testnet'') of
      None \<Rightarrow> False
    | Some v \<Rightarrow> verified (verification_result v)
               \<and> wallet_address v = ''0x00000000000000000000000000000000000000bb'')
   \<and> handleSelectMenuInteraction (verificationDB example_state) (\<lambda>k. False) (\<lambda>k. False)
         ''arbitrum'' ''42''
       = Inr (RequiresMonadFirst ''arbitrum'')
   \<and> useVerifiedWallet example_state example_secondary (\<lambda>k. False) (\<lambda>k. True)
         (\<lambda>k. ''2025-01-02 00:00:00'') (\<lambda>k. ''2025-01-02T00:00:00.000Z'')
         ''2025-01-02T00:00:00.000Z'' ''arbitrum'' ''42'' ''alice''
       = \<lparr>reply = Inr NoVerifiedWallet, state_after = example_state\<rparr>
   \<and> hasMonadVerification unverified_pg (\<lambda>k. True) ''42'' = Inr False
   \<and> handleSelectMenuInteraction unverified_pg (\<lambda>k. True) (\<lambda>k. True) ''arbitrum'' ''42''
       = Inr (RequiresMonadFirst ''arbitrum'')
   \<and> reply (useVerifiedWallet \<lparr>verificationCodes = [], verificationDB = unverified_pg\<rparr>
         example_secondary (\<lambda>k. True) (\<lambda>k. True)
         (\<lambda>k. ''2025-01-02 00:00:00'') (\<lambda>k. ''2025-01-02T00:00:00.000Z'')
         ''2025-01-02T00:00:00.000Z'' ''arbitrum'' ''42'' ''alice'')
       = Inr (VerificationEmbed
           (ArbitrumNFTVerifier_verifyNFTOwnership (arbitrum_cfg example_secondary)
              (arbitrum_api example_secondary) ''2025-01-02T00:00:00.000Z''
              ''0x00000000000000000000000000000000000000bb''))"
proof -
  have 1: "(case user_verifications (pool (verificationDB example_state))
                 (''42'', ''monad_testnet'') of
      None \<Rightarrow> False
    | Some v \<Rightarrow> verified (verification_result v)
               \<and> wallet_address v = ''0x00000000000000000000000000000000000000bb'')"
    by (simp add: example_state_def example_pg_def example_result_def)
  have 2: "handleSelectMenuInteraction (verificationDB example_state) (\<lambda>k. False) (\<lambda>k. False)
         ''arbitrum'' ''42''
       = Inr (RequiresMonadFirst ''arbitrum'')"
    by (simp add: handleSelectMenuInteraction_def failing_reads)
  have 3: "useVerifiedWallet example_state example_secondary (\<lambda>k. False) (\<lambda>k. True)
         (\<lambda>k. ''2025-01-02 00:00:00'') (\<lambda>k. ''2025-01-02T00:00:00.000Z'')
         ''2025-01-02T00:00:00.000Z'' ''arbitrum'' ''42'' ''alice''
       = \<lparr>reply = Inr NoVerifiedWallet, state_after = example_state\<rparr>"
    by (rule useVerifiedWallet_unbound[OF failing_reads(2)])
  have 5: "handleSelectMenuInteraction unverified_pg (\<lambda>k. True) (\<lambda>k. True) ''arbitrum'' ''42''
       = Inr (RequiresMonadFirst ''arbitrum'')"
    by (simp add: handleSelectMenuInteraction_def unverified_reads)
  have w: "getVerifiedWallet
             (verificationDB \<lparr>verificationCodes = [], verificationDB = unverified_pg\<rparr>)
             (\<lambda>k. True) ''42'' = Inr (Some ''0x00000000000000000000000000000000000000bb'')"
    by (simp add: unverified_reads)
  have n: "''arbitrum'' = ''arbitrum'' \<or> ''arbitrum'' = ''bera''" by simp
  have s: "fst (PostgreSQLDatabase_saveVerification unverified_pg (\<lambda>k. True) db_now clock
                  uid uname W r net)
           = Inr \<lparr>nv_walletAddress = W, verifiedAt = clock 0, verificationResult = r,
                   nv_network = net\<rparr>" for db_now clock uid uname W r net
    by (simp add: PostgreSQLDatabase_saveVerification_def unverified_pg_def Let_def)
  have 6: "reply (useVerifiedWallet \<lparr>verificationCodes = [], verificationDB = unverified_pg\<rparr>
         example_secondary (\<lambda>k. True) (\<lambda>k. True)
         (\<lambda>k. ''2025-01-02 00:00:00'') (\<lambda>k. ''2025-01-02T00:00:00.000Z'')
         ''2025-01-02T00:00:00.000Z'' ''arbitrum'' ''42'' ''alice'')
       = Inr (VerificationEmbed
           (ArbitrumNFTVerifier_verifyNFTOwnership (arbitrum_cfg example_secondary)
              (arbitrum_api example_secondary) ''2025-01-02T00:00:00.000Z''
              ''0x00000000000000000000000000000000000000bb''))"
    unfolding useVerifiedWallet_bound[OF n w] Let_def
    by (simp add: example_check s)
  from 1 2 3 unverified_reads(1) 5 6 show ?thesis by (intro conjI)
qed

section \<open>Properties of the rate limiter\<close>

lemma checkUserLimit_denied_entry:
  assumes "checkUserLimit rl t0 userId action limits = (r0, rl0)" and "\<not> allowed r0"
  shows "rl0 = rl \<and> (\<exists>e. userLimits rl (userKey userId action) = Some e
            \<and> entry_resetTime e = resetTime r0 \<and> \<not> t0 > entry_resetTime e
            \<and> entry_count e \<ge> count (chosenLimit limits action))"
  using assms
  by (auto simp: checkUserLimit_def Let_def split: option.splits if_splits)

text \<open>
  What can happen to the entry of a key between two calls for it: a call for another key
  leaves it alone, and the periodic sweep leaves it alone or deletes it.
\<close>

lemma checkUserLimit_other_key:
  assumes "userKey otherId otherAction \<noteq> key"
  shows "userLimits (snd (checkUserLimit rl t otherId otherAction limits)) key
           = userLimits rl key"
  using assms
  by (auto simp: checkUserLimit_def Let_def split: option.splits)

lemma cleanup_key:
  "userLimits (cleanup rl t) key = userLimits rl key \<or> userLimits (cleanup rl t) key = None"
  by (simp add: cleanup_def split: option.splits)

text \<open>
  C8. A call that was denied leaves the limiter unchanged and reports the reset time of the
  exhausted window. Once the clock has passed that reset time, the next call for the same
  user and action is allowed, stores a counter of 1, and returns the configured count
  minus 1 as remaining quota with a reset time one window length after the call. In
  between, the limiter may have served other users and actions and may have been swept:
  all that is asked of it is that the entry of this user and action is the one the denied
  call left, or has been deleted.
\<close>

theorem rate_limit_reset:
  assumes denied: "checkUserLimit rl t0 userId action limits = (r0, rl0)" "\<not> allowed r0"
    and later: "now > resetTime r0"
    and between: "userLimits rl1 (userKey userId action) = userLimits rl0 (userKey userId action)
                  \<or> userLimits rl1 (userKey userId action) = None"
  shows "allowed (fst (checkUserLimit rl1 now userId action limits))
       \<and> remaining (fst (checkUserLimit rl1 now userId action limits))
           = count (chosenLimit limits action) - 1
       \<and> resetTime (fst (checkUserLimit rl1 now userId action limits))
           = now + windowMs (chosenLimit limits action)
       \<and> userLimits (snd (checkUserLimit rl1 now userId action limits)) (userKey userId action)
           = Some \<lparr>entry_count = 1,
                   entry_resetTime = now + windowMs (chosenLimit limits action)\<rparr>"
proof -
  from checkUserLimit_denied_entry[OF denied] obtain e where
    e: "rl0 = rl" "userLimits rl (userKey userId action) = Some e"
       "entry_resetTime e = resetTime r0"
    by blast
  from between e have "userLimits rl1 (userKey userId action) = Some e
      \<or> userLimits rl1 (userKey userId action) = None"
    by auto
  then show ?thesis
    using later e(3)
    by (auto simp: checkUserLimit_def Let_def)
qed

text \<open>
  The scenario behind the theorem, run on the default \<open>submit\<close> limit (3 per 5 minutes):
  three calls are allowed and the fourth is denied; then another user is served and the
  limiter is swept; and a call after the window has ended is allowed again with 2
  remaining.
\<close>

theorem rate_limit_reset_witness:
  "(let rl3 = snd (checkUserLimit (snd (checkUserLimit (snd (checkUserLimit
                \<lparr>userLimits = Map.empty, globalLimits = Map.empty\<rparr>
                0 ''u1'' ''submit'' Map.empty)) 1 ''u1'' ''submit'' Map.empty))
                2 ''u1'' ''submit'' Map.empty);
        denied = checkUserLimit rl3 3 ''u1'' ''submit'' Map.empty;
        busy = cleanup (snd (checkUserLimit (snd denied) 100 ''u2'' ''submit'' Map.empty)) 200;
        again = checkUserLimit busy 300001 ''u1'' ''submit'' Map.empty
    in \<not> allowed (fst denied) \<and> resetTime (fst denied) = 300000
       \<and> busy \<noteq> snd denied
       \<and> allowed (fst again) \<and> remaining (fst again) = 2
       \<and> resetTime (fst again) = 600001)"
proof -
  define rl3 where "rl3 = snd (checkUserLimit (snd (checkUserLimit (snd (checkUserLimit
                \<lparr>userLimits = Map.empty, globalLimits = Map.empty\<rparr>
                0 ''u1'' ''submit'' Map.empty)) 1 ''u1'' ''submit'' Map.empty))
                2 ''u1'' ''submit'' Map.empty)"
  define busy where
    "busy = cleanup (snd (checkUserLimit rl3 100 ''u2'' ''submit'' Map.empty)) 200"
  have d: "checkUserLimit rl3 3 ''u1'' ''submit'' Map.empty
             = (\<lparr>allowed = False, remaining = 0, resetTime = 300000\<rparr>, rl3)"
    by (simp add: rl3_def checkUserLimit_def chosenLimit_def defaultLimits_def userKey_def)
  have lim: "chosenLimit Map.empty ''submit'' = \<lparr>count = 3, windowMs = 300000\<rparr>"
    by (simp add: chosenLimit_def defaultLimits_def)
  have other: "userKey ''u2'' ''submit'' \<noteq> userKey ''u1'' ''submit''"
    by (simp add: userKey_def)
  have served: "userLimits (snd (checkUserLimit rl3 100 ''u2'' ''submit'' Map.empty))
                  (userKey ''u1'' ''submit'') = userLimits rl3 (userKey ''u1'' ''submit'')"
    using other by (rule checkUserLimit_other_key)
  have b: "userLimits busy (userKey ''u1'' ''submit'') = userLimits rl3 (userKey ''u1'' ''submit'')
           \<or> userLimits busy (userKey ''u1'' ''submit'') = None"
    unfolding busy_def
    using cleanup_key[of "snd (checkUserLimit rl3 100 ''u2'' ''submit'' Map.empty)" 200
            "userKey ''u1'' ''submit''"] served
    by auto
  have changed: "busy \<noteq> rl3"
  proof
    assume "busy = rl3"
    then have "userLimits busy (userKey ''u2'' ''submit'') = userLimits rl3 (userKey ''u2'' ''submit'')"
      by simp
    then show False
      by (simp add: busy_def rl3_def cleanup_def checkUserLimit_def chosenLimit_def
            defaultLimits_def userKey_def)
  qed
  from rate_limit_reset[OF d _ _ b, of 300001 ]
  show ?thesis
    unfolding rl3_def[symmetric] Let_def d snd_conv busy_def[symmetric]
    using changed by (simp add: lim)
qed

end
